theory Spec2Isabelle
  imports Main
begin

section \<open>Python values used by pid2bib\<close>

text \<open>
  A Python \<open>str\<close> is a sequence of Unicode code points; a code point is a natural number.
  ASCII literals of the source are written as HOL strings and turned into code points by
  \<open>lit\<close>.  The four ASCII characters that a HOL string literal cannot contain are named.
\<close>

type_synonym str = "nat list"

text \<open>A Python variable that holds a \<open>str\<close> or \<open>None\<close>.\<close>

type_synonym pystr = "str option"

definition ord :: "char \<Rightarrow> nat" where
  "ord c = of_char c"

definition lit :: "string \<Rightarrow> str" where
  "lit s = map ord s"

definition BS :: string where
  "BS = [CHR 0x5C]"

definition SQ :: string where
  "SQ = [CHR 0x27]"

definition DQ :: string where
  "DQ = [CHR 0x22]"

definition GR :: string where
  "GR = [CHR 0x60]"

text \<open>The exceptions that the modelled functions can raise.\<close>

datatype error =
    ParseError
  | EmptyResult
  | AttributeError
  | TypeError
  | KeyError
  | IndexError

definition bindE :: "error + 'a \<Rightarrow> ('a \<Rightarrow> error + 'b) \<Rightarrow> error + 'b" where
  "bindE m f = (case m of Inl e \<Rightarrow> Inl e | Inr x \<Rightarrow> f x)"

text \<open>\<open>a + b\<close> on two values that should be strings: \<open>TypeError\<close> when one is \<open>None\<close>.\<close>

definition py_add :: "pystr \<Rightarrow> pystr \<Rightarrow> error + str" where
  "py_add a b =
     (case a of None \<Rightarrow> Inl TypeError
      | Some x \<Rightarrow> (case b of None \<Rightarrow> Inl TypeError | Some y \<Rightarrow> Inr (x @ y)))"

text \<open>\<open>'{v}'\<close> inside an f-string: \<open>None\<close> is rendered as the text \<open>None\<close>.\<close>

definition format_value :: "pystr \<Rightarrow> str" where
  "format_value v = (case v of None \<Rightarrow> lit ''None'' | Some s \<Rightarrow> s)"

text \<open>\<open>xs[i]\<close> and \<open>xs[:j]\<close>, negative indices counting from the end.\<close>

definition getitem :: "'a list \<Rightarrow> int \<Rightarrow> error + 'a" where
  "getitem xs i =
     (if 0 \<le> i \<and> i < int (length xs) then Inr (xs ! nat i)
      else if i < 0 \<and> 0 \<le> int (length xs) + i then Inr (xs ! nat (int (length xs) + i))
      else Inl IndexError)"

definition slice_until :: "'a list \<Rightarrow> int \<Rightarrow> 'a list" where
  "slice_until xs j =
     (let n = int (length xs); k = (if j < 0 then max 0 (n + j) else min j n)
      in take (nat k) xs)"

text \<open>
  \<open>str.translate(table)\<close>: a code point mapped to \<open>None\<close> is deleted, one mapped to a
  string is replaced by it, one that is not a key is kept.
\<close>

definition translate :: "(nat \<times> str option) list \<Rightarrow> str \<Rightarrow> str" where
  "translate table s =
     concat (map (\<lambda>c. case map_of table c of
                          None \<Rightarrow> [c]
                        | Some None \<Rightarrow> []
                        | Some (Some r) \<Rightarrow> r) s)"

text \<open>\<open>str.lstrip(chars)\<close> and \<open>str.rstrip(chars)\<close>: \<open>chars\<close> is a set of characters.\<close>

definition lstrip :: "str \<Rightarrow> str \<Rightarrow> str" where
  "lstrip chars s = dropWhile (\<lambda>c. c \<in> set chars) s"

definition rstrip :: "str \<Rightarrow> str \<Rightarrow> str" where
  "rstrip chars s = rev (dropWhile (\<lambda>c. c \<in> set chars) (rev s))"

text \<open>\<open>sep.join(parts)\<close>.\<close>

fun join :: "str \<Rightarrow> str list \<Rightarrow> str" where
  "join sep [] = []"
| "join sep [x] = x"
| "join sep (x # y # ys) = x @ sep @ join sep (y # ys)"

text \<open>Consuming \<open>map(f, xs)\<close> where \<open>f\<close> may raise: the first exception ends it.\<close>

fun map_raise :: "('a \<Rightarrow> error + 'b) \<Rightarrow> 'a list \<Rightarrow> error + 'b list" where
  "map_raise f [] = Inr []"
| "map_raise f (x # xs) =
     bindE (f x) (\<lambda>y. bindE (map_raise f xs) (\<lambda>ys. Inr (y # ys)))"


section \<open>Data model\<close>

text \<open>
  Classes \<open>Author\<close> and \<open>Reference\<close>.  The fields are declared \<open>str\<close>, but \<open>parseXML\<close>
  stores the \<open>text\<close> attribute of an XML element in them, which is \<open>None\<close> for an element
  without character data; so a field holds a \<open>pystr\<close>.
\<close>

record Author =
  lastName :: pystr
  foreName :: pystr
  initials :: pystr
  institution :: pystr

record Reference =
  pmid :: pystr
  title :: pystr
  authors :: "Author list"
  journal :: pystr
  volume :: pystr
  issue :: pystr
  startPage :: pystr
  endPage :: pystr
  doi :: pystr
  pbyear :: pystr
  pbmonth :: pystr
  issn :: pystr
  journalAb :: pystr
  copyright :: pystr
  article_url :: pystr
  abstract :: pystr

text \<open>\<open>Author()\<close> and \<open>Reference(pmid)\<close>.\<close>

definition new_Author :: Author where
  "new_Author =
     \<lparr>lastName = Some [], foreName = Some [], initials = Some [], institution = Some []\<rparr>"

definition new_Reference :: "str \<Rightarrow> Reference" where
  "new_Reference p =
     \<lparr>pmid = Some p, title = Some [], authors = [], journal = Some [], volume = Some [],
      issue = Some [], startPage = Some [], endPage = Some [], doi = Some [],
      pbyear = Some [], pbmonth = Some [], issn = Some [], journalAb = Some [],
      copyright = Some [], article_url = Some [], abstract = Some []\<rparr>"

text \<open>A record whose fields all hold strings, as the classes declare them.\<close>

definition author_typed :: "Author \<Rightarrow> bool" where
  "author_typed a \<longleftrightarrow>
     lastName a \<noteq> None \<and> foreName a \<noteq> None \<and> initials a \<noteq> None \<and> institution a \<noteq> None"

definition reference_typed :: "Reference \<Rightarrow> bool" where
  "reference_typed r \<longleftrightarrow>
     pmid r \<noteq> None \<and> title r \<noteq> None \<and> list_all author_typed (authors r) \<and>
     journal r \<noteq> None \<and> volume r \<noteq> None \<and> issue r \<noteq> None \<and> startPage r \<noteq> None \<and>
     endPage r \<noteq> None \<and> doi r \<noteq> None \<and> pbyear r \<noteq> None \<and> pbmonth r \<noteq> None \<and>
     issn r \<noteq> None \<and> journalAb r \<noteq> None \<and> copyright r \<noteq> None \<and>
     article_url r \<noteq> None \<and> abstract r \<noteq> None"


section \<open>The Reference Extractor: \<open>parseXML\<close>\<close>

text \<open>
  An \<open>xml.etree.ElementTree.Element\<close>: tag, attribute dictionary, text (\<open>None\<close> when the
  element has no character data) and children in document order.
\<close>

datatype element =
  Element (tag: str) (attrib: "(str \<times> str) list") (etext: pystr) (children: "element list")

text \<open>\<open>e.find(name)\<close> and \<open>e.findall(name)\<close> for a plain tag name: direct children only.\<close>

definition find_elem :: "element \<Rightarrow> string \<Rightarrow> element option" where
  "find_elem e name = List.find (\<lambda>c. tag c = lit name) (children e)"

definition findall_elem :: "element \<Rightarrow> string \<Rightarrow> element list" where
  "findall_elem e name = filter (\<lambda>c. tag c = lit name) (children e)"

text \<open>
  A variable that may hold \<open>None\<close>: an attribute or method of \<open>None\<close> raises
  \<open>AttributeError\<close>, so \<open>None.find(...)\<close> does.
\<close>

definition deref :: "element option \<Rightarrow> error + element" where
  "deref eo = (case eo of None \<Rightarrow> Inl AttributeError | Some e \<Rightarrow> Inr e)"

definition find_on :: "element option \<Rightarrow> string \<Rightarrow> error + element option" where
  "find_on eo name = bindE (deref eo) (\<lambda>e. Inr (find_elem e name))"

text \<open>\<open>for x in e\<close>: the children of \<open>e\<close>; iterating over \<open>None\<close> raises.\<close>

definition iterate :: "element option \<Rightarrow> error + element list" where
  "iterate eo = (case eo of None \<Rightarrow> Inl TypeError | Some e \<Rightarrow> Inr (children e))"

text \<open>\<open>currElem.text if (currElem is not None) else ''\<close>.\<close>

definition text_or_empty :: "element option \<Rightarrow> pystr" where
  "text_or_empty currElem = (case currElem of None \<Rightarrow> Some [] | Some e \<Rightarrow> etext e)"

text \<open>Lines 119 to 121: the loop over the article identifiers.\<close>

fun scan_doi :: "element list \<Rightarrow> Reference \<Rightarrow> error + Reference" where
  "scan_doi [] ref = Inr ref"
| "scan_doi (articleId # rest) ref =
     (case map_of (attrib articleId) (lit ''IdType'') of
        None \<Rightarrow> Inl KeyError
      | Some idType \<Rightarrow>
          scan_doi rest (if idType = lit ''doi'' then ref\<lparr>doi := etext articleId\<rparr> else ref))"

text \<open>Lines 122 to 125.\<close>

definition set_article_url :: "str \<Rightarrow> Reference \<Rightarrow> Reference" where
  "set_article_url p ref =
     (if doi ref = Some []
      then ref\<lparr>article_url := Some (lit ''https://pubmed.ncbi.nlm.nih.gov/'' @ p @ lit ''/'')\<rparr>
      else ref\<lparr>article_url := Some (lit ''https://doi.org/'' @ format_value (doi ref))\<rparr>)"

text \<open>Lines 131 to 138.\<close>

definition parse_abstract :: "element \<Rightarrow> Reference \<Rightarrow> Reference" where
  "parse_abstract article ref =
     (case find_elem article ''Abstract'' of
        None \<Rightarrow> ref
      | Some absElem \<Rightarrow>
          (let abstractText = text_or_empty (find_elem absElem ''AbstractText'');
               ref1 = (if abstractText \<noteq> None then ref\<lparr>abstract := abstractText\<rparr> else ref)
           in ref1\<lparr>copyright := text_or_empty (find_elem absElem ''CopyrightInformation'')\<rparr>))"

text \<open>Lines 140 to 158.  \<open>jissueElem\<close> is used without a test for \<open>None\<close>.\<close>

definition parse_journal :: "element \<Rightarrow> Reference \<Rightarrow> error + Reference" where
  "parse_journal article ref =
     (case find_elem article ''Journal'' of
        None \<Rightarrow> Inr ref
      | Some journalElement \<Rightarrow>
          (let ref1 = ref\<lparr>journal := text_or_empty (find_elem journalElement ''Title'')\<rparr>;
               ref2 = ref1\<lparr>issn := text_or_empty (find_elem journalElement ''ISSN'')\<rparr>;
               ref3 = ref2\<lparr>journalAb := text_or_empty (find_elem journalElement ''ISOAbbreviation'')\<rparr>;
               jissueElem = find_elem journalElement ''JournalIssue''
           in bindE (find_on jissueElem ''Volume'') (\<lambda>currElem.
              let ref4 = ref3\<lparr>volume := text_or_empty currElem\<rparr>
              in bindE (find_on jissueElem ''Issue'') (\<lambda>currElem.
              let ref5 = ref4\<lparr>issue := text_or_empty currElem\<rparr>
              in bindE (find_on jissueElem ''PubDate'') (\<lambda>dateElem.
              case dateElem of
                None \<Rightarrow> Inr ref5
              | Some d \<Rightarrow>
                  Inr (ref5\<lparr>pbyear := text_or_empty (find_elem d ''Year''),
                            pbmonth := text_or_empty (find_elem d ''Month'')\<rparr>))))))"

text \<open>Lines 160 to 165.\<close>

definition parse_pagination :: "element \<Rightarrow> Reference \<Rightarrow> Reference" where
  "parse_pagination article ref =
     (case find_elem article ''Pagination'' of
        None \<Rightarrow> ref
      | Some pagElem \<Rightarrow>
          ref\<lparr>startPage := text_or_empty (find_elem pagElem ''StartPage''),
              endPage := text_or_empty (find_elem pagElem ''EndPage'')\<rparr>)"

text \<open>Lines 168 to 180: the body of the loop over the authors.\<close>

definition parse_author :: "element \<Rightarrow> Author" where
  "parse_author authorElem =
     new_Author
       \<lparr>lastName := text_or_empty (find_elem authorElem ''LastName''),
        foreName := text_or_empty (find_elem authorElem ''ForeName''),
        initials := text_or_empty (find_elem authorElem ''Initials''),
        institution :=
          (case find_elem authorElem ''AffiliationInfo'' of
             Some affiElem \<Rightarrow>
               (case find_elem affiElem ''Affiliation'' of
                  None \<Rightarrow> Some []
                | Some currElem \<Rightarrow> etext currElem)
           | None \<Rightarrow> Some [])\<rparr>"

text \<open>
  Lines 167 and 181: \<open>article.find('AuthorList')\<close> is iterated without a test for
  \<open>None\<close>; each author is appended in document order.
\<close>

definition parse_authors :: "element \<Rightarrow> Reference \<Rightarrow> error + Reference" where
  "parse_authors article ref =
     bindE (iterate (find_elem article ''AuthorList'')) (\<lambda>authorElems.
       Inr (ref\<lparr>authors := authors ref @ map parse_author authorElems\<rparr>))"

text \<open>The body of \<open>parseXML\<close> after line 113, on the parsed document.\<close>

definition parseXML_tree :: "str \<Rightarrow> element \<Rightarrow> error + Reference" where
  "parseXML_tree p pubmedArticleSet =
     (case findall_elem pubmedArticleSet ''PubmedArticle'' of
        [] \<Rightarrow> Inl EmptyResult
      | pubmedArticle # _ \<Rightarrow>
          bindE (find_on (find_elem pubmedArticle ''PubmedData'') ''ArticleIdList'') (\<lambda>idList.
          bindE (iterate idList) (\<lambda>articleIds.
          bindE (scan_doi articleIds (new_Reference p)) (\<lambda>ref1.
          let ref2 = set_article_url p ref1
          in bindE (find_on (find_elem pubmedArticle ''MedlineCitation'') ''Article'') (\<lambda>article_opt.
             bindE (deref article_opt) (\<lambda>article.
             let ref3 = ref2\<lparr>title := text_or_empty (find_elem article ''ArticleTitle'')\<rparr>;
                 ref4 = parse_abstract article ref3
             in bindE (parse_journal article ref4) (\<lambda>ref5.
                parse_authors article (parse_pagination article ref5))))))))"

text \<open>
  \<open>parseXML\<close>.  \<open>fromstring\<close> is the XML parser of the Python library: it returns the root
  element or raises \<open>ParseError\<close>.
\<close>

definition parseXML :: "(str \<Rightarrow> error + element) \<Rightarrow> str \<Rightarrow> str \<Rightarrow> error + Reference" where
  "parseXML fromstring p xml = bindE (fromstring xml) (parseXML_tree p)"

text \<open>
  The identifier list that lines 119 to 121 scan: the children of \<open>ArticleIdList\<close> under
  \<open>PubmedData\<close> of the first \<open>PubmedArticle\<close> (empty when one of them is missing).
\<close>

definition article_ids :: "element \<Rightarrow> element list" where
  "article_ids pubmedArticleSet =
     (case findall_elem pubmedArticleSet ''PubmedArticle'' of
        [] \<Rightarrow> []
      | pubmedArticle # _ \<Rightarrow>
          (case find_elem pubmedArticle ''PubmedData'' of
             None \<Rightarrow> []
           | Some pd \<Rightarrow> (case find_elem pd ''ArticleIdList'' of None \<Rightarrow> [] | Some l \<Rightarrow> children l)))"

definition is_doi_id :: "element \<Rightarrow> bool" where
  "is_doi_id articleId \<longleftrightarrow> map_of (attrib articleId) (lit ''IdType'') = Some (lit ''doi'')"


section \<open>The Escape Table and the Text Escaper: \<open>sanitizeBibtexField\<close>\<close>

text \<open>
  The entries of the dictionary \<open>uni2tex\<close> (lines 253 to 2614), one per line as in the
  source: the key is the code point of the one-character key string, the value is the
  replacement, which is ASCII throughout.  \<open>BS\<close>, \<open>SQ\<close>, \<open>DQ\<close> and \<open>GR\<close> stand for the
  backslash, the apostrophe, the double quote and the grave accent.  The literal is cut
  where the high byte of the key changes; no key occurs twice.
\<close>

text \<open>Lines 253 to 356.\<close>

definition uni2tex_00 :: "(nat \<times> string) list" where
  "uni2tex_00 = [
     (0x0023, ''{'' @ BS @ ''#}''),
     (0x0024, ''{'' @ BS @ ''textdollar}''),
     (0x0025, ''{'' @ BS @ ''%}''),
     (0x0026, ''{'' @ BS @ ''&}''),
     (0x0027, ''{'' @ BS @ ''textquotesingle}''),
     (0x002A, ''{'' @ BS @ ''ast}''),
     (0x002B, ''$'' @ BS @ ''mathplus$''),
     (0x002D, ''-''),
     (0x003B, ''$'' @ BS @ ''mathsemicolon$''),
     (0x003C, ''$'' @ BS @ ''less$''),
     (0x003E, ''$'' @ BS @ ''greater$''),
     (0x005C, ''{'' @ BS @ ''textbackslash}''),
     (0x005E, ''{'' @ BS @ ''^{}}''),
     (0x005F, ''{'' @ BS @ ''_}''),
     (0x0060, ''{'' @ BS @ ''textasciigrave}''),
     (0x007B, ''$'' @ BS @ ''lbrace$''),
     (0x007C, ''$'' @ BS @ ''vert$''),
     (0x007D, ''$'' @ BS @ ''rbrace$''),
     (0x007E, ''{'' @ BS @ ''textasciitilde}''),
     (0x00A0, ''~''),
     (0x00A1, ''{'' @ BS @ ''textexclamdown}''),
     (0x00A2, ''{'' @ BS @ ''textcent}''),
     (0x00A3, ''{'' @ BS @ ''textsterling}''),
     (0x00A4, ''{'' @ BS @ ''textcurrency}''),
     (0x00A5, ''{'' @ BS @ ''textyen}''),
     (0x00A6, ''{'' @ BS @ ''textbrokenbar}''),
     (0x00A7, ''{'' @ BS @ ''textsection}''),
     (0x00A8, ''{'' @ BS @ ''textasciidieresis}''),
     (0x00A9, ''{'' @ BS @ ''textcopyright}''),
     (0x00AA, ''{'' @ BS @ ''textordfeminine}''),
     (0x00AB, ''{'' @ BS @ ''guillemotleft}''),
     (0x00AC, ''$'' @ BS @ ''neg$''),
     (0x00AD, ''{'' @ BS @ ''-}''),
     (0x00AE, ''{'' @ BS @ ''textregistered}''),
     (0x00AF, ''{'' @ BS @ ''textasciimacron}''),
     (0x00B0, ''{'' @ BS @ ''textdegree}''),
     (0x00B1, ''$'' @ BS @ ''pm$''),
     (0x00B2, ''{^2}''),
     (0x00B3, ''{^3}''),
     (0x00B4, ''{'' @ BS @ ''textasciiacute}''),
     (0x00B5, ''$'' @ BS @ ''mathrm{'' @ BS @ ''mu}$''),
     (0x00B6, ''{'' @ BS @ ''textparagraph}''),
     (0x00B7, ''$'' @ BS @ ''cdotp$''),
     (0x00B8, ''{'' @ BS @ ''c{}}''),
     (0x00B9, ''{^1}''),
     (0x00BA, ''{'' @ BS @ ''textordmasculine}''),
     (0x00BB, ''{'' @ BS @ ''guillemotright}''),
     (0x00BC, ''{'' @ BS @ ''textonequarter}''),
     (0x00BD, ''{'' @ BS @ ''textonehalf}''),
     (0x00BE, ''{'' @ BS @ ''textthreequarters}''),
     (0x00BF, ''{'' @ BS @ ''textquestiondown}''),
     (0x00C0, ''{'' @ BS @ GR @ ''{A}}''),
     (0x00C1, ''{'' @ BS @ SQ @ ''{A}}''),
     (0x00C2, ''{'' @ BS @ ''^{A}}''),
     (0x00C3, ''{'' @ BS @ ''~{A}}''),
     (0x00C5, ''{'' @ BS @ ''AA}''),
     (0x00C6, ''{'' @ BS @ ''AE}''),
     (0x00C7, ''{'' @ BS @ ''c{C}}''),
     (0x00C8, ''{'' @ BS @ GR @ ''{E}}''),
     (0x00C9, ''{'' @ BS @ SQ @ ''{E}}''),
     (0x00CA, ''{'' @ BS @ ''^{E}}''),
     (0x00CC, ''{'' @ BS @ GR @ ''{I}}''),
     (0x00CD, ''{'' @ BS @ SQ @ ''{I}}''),
     (0x00CE, ''{'' @ BS @ ''^{I}}''),
     (0x00D0, ''{'' @ BS @ ''DH}''),
     (0x00D1, ''{'' @ BS @ ''~{N}}''),
     (0x00D2, ''{'' @ BS @ GR @ ''{O}}''),
     (0x00D3, ''{'' @ BS @ SQ @ ''{O}}''),
     (0x00D4, ''{'' @ BS @ ''^{O}}''),
     (0x00D5, ''{'' @ BS @ ''~{O}}''),
     (0x00D7, ''{'' @ BS @ ''texttimes}''),
     (0x00D8, ''{'' @ BS @ ''O}''),
     (0x00D9, ''{'' @ BS @ GR @ ''{U}}''),
     (0x00DA, ''{'' @ BS @ SQ @ ''{U}}''),
     (0x00DB, ''{'' @ BS @ ''^{U}}''),
     (0x00DD, ''{'' @ BS @ SQ @ ''{Y}}''),
     (0x00DE, ''{'' @ BS @ ''TH}''),
     (0x00DF, ''{'' @ BS @ ''ss}''),
     (0x00E0, ''{'' @ BS @ GR @ ''{a}}''),
     (0x00E1, ''{'' @ BS @ SQ @ ''{a}}''),
     (0x00E2, ''{'' @ BS @ ''^{a}}''),
     (0x00E3, ''{'' @ BS @ ''~{a}}''),
     (0x00E5, ''{'' @ BS @ ''aa}''),
     (0x00E6, ''{'' @ BS @ ''ae}''),
     (0x00E7, ''{'' @ BS @ ''c{c}}''),
     (0x00E8, ''{'' @ BS @ GR @ ''{e}}''),
     (0x00E9, ''{'' @ BS @ SQ @ ''{e}}''),
     (0x00EA, ''{'' @ BS @ ''^{e}}''),
     (0x00EC, ''{'' @ BS @ GR @ ''{'' @ BS @ ''i}}''),
     (0x00ED, ''{'' @ BS @ SQ @ ''{'' @ BS @ ''i}}''),
     (0x00EE, ''{'' @ BS @ ''^{'' @ BS @ ''i}}''),
     (0x00F0, ''{'' @ BS @ ''dh}''),
     (0x00F1, ''{'' @ BS @ ''~{n}}''),
     (0x00F2, ''{'' @ BS @ GR @ ''{o}}''),
     (0x00F3, ''{'' @ BS @ SQ @ ''{o}}''),
     (0x00F4, ''{'' @ BS @ ''^{o}}''),
     (0x00F5, ''{'' @ BS @ ''~{o}}''),
     (0x00F7, ''$'' @ BS @ ''div$''),
     (0x00F8, ''{'' @ BS @ ''o}''),
     (0x00F9, ''{'' @ BS @ GR @ ''{u}}''),
     (0x00FA, ''{'' @ BS @ SQ @ ''{u}}''),
     (0x00FB, ''{'' @ BS @ ''^{u}}''),
     (0x00FD, ''{'' @ BS @ SQ @ ''{y}}''),
     (0x00FE, ''{'' @ BS @ ''th}'')
   ]"

text \<open>Lines 357 to 489.\<close>

definition uni2tex_01 :: "(nat \<times> string) list" where
  "uni2tex_01 = [
     (0x0100, ''{'' @ BS @ ''={A}}''),
     (0x0101, ''{'' @ BS @ ''={a}}''),
     (0x0102, ''{'' @ BS @ ''u{A}}''),
     (0x0103, ''{'' @ BS @ ''u{a}}''),
     (0x0104, ''{'' @ BS @ ''k{A}}''),
     (0x0105, ''{'' @ BS @ ''k{a}}''),
     (0x0106, ''{'' @ BS @ SQ @ ''{C}}''),
     (0x0107, ''{'' @ BS @ SQ @ ''{c}}''),
     (0x0108, ''{'' @ BS @ ''^{C}}''),
     (0x0109, ''{'' @ BS @ ''^{c}}''),
     (0x010A, ''{'' @ BS @ ''.{C}}''),
     (0x010B, ''{'' @ BS @ ''.{c}}''),
     (0x010C, ''{'' @ BS @ ''v{C}}''),
     (0x010D, ''{'' @ BS @ ''v{c}}''),
     (0x010E, ''{'' @ BS @ ''v{D}}''),
     (0x010F, ''{'' @ BS @ ''v{d}}''),
     (0x0110, ''{'' @ BS @ ''DJ}''),
     (0x0111, ''{'' @ BS @ ''dj}''),
     (0x0112, ''{'' @ BS @ ''={E}}''),
     (0x0113, ''{'' @ BS @ ''={e}}''),
     (0x0114, ''{'' @ BS @ ''u{E}}''),
     (0x0115, ''{'' @ BS @ ''u{e}}''),
     (0x0116, ''{'' @ BS @ ''.{E}}''),
     (0x0117, ''{'' @ BS @ ''.{e}}''),
     (0x0118, ''{'' @ BS @ ''k{E}}''),
     (0x0119, ''{'' @ BS @ ''k{e}}''),
     (0x011A, ''{'' @ BS @ ''v{E}}''),
     (0x011B, ''{'' @ BS @ ''v{e}}''),
     (0x011C, ''{'' @ BS @ ''^{G}}''),
     (0x011D, ''{'' @ BS @ ''^{g}}''),
     (0x011E, ''{'' @ BS @ ''u{G}}''),
     (0x011F, ''{'' @ BS @ ''u{g}}''),
     (0x0120, ''{'' @ BS @ ''.{G}}''),
     (0x0121, ''{'' @ BS @ ''.{g}}''),
     (0x0122, ''{'' @ BS @ ''c{G}}''),
     (0x0123, ''{'' @ BS @ ''c{g}}''),
     (0x0124, ''{'' @ BS @ ''^{H}}''),
     (0x0125, ''{'' @ BS @ ''^{h}}''),
     (0x0126, ''{'' @ BS @ ''fontencoding{LELA}'' @ BS @ ''selectfont'' @ BS @ ''char40}''),
     (0x0127, ''{'' @ BS @ ''Elzxh}''),
     (0x0128, ''{'' @ BS @ ''~{I}}''),
     (0x0129, ''{'' @ BS @ ''~{'' @ BS @ ''i}}''),
     (0x012A, ''{'' @ BS @ ''={I}}''),
     (0x012B, ''{'' @ BS @ ''={'' @ BS @ ''i}}''),
     (0x012C, ''{'' @ BS @ ''u{I}}''),
     (0x012D, ''{'' @ BS @ ''u{'' @ BS @ ''i}}''),
     (0x012E, ''{'' @ BS @ ''k{I}}''),
     (0x012F, ''{'' @ BS @ ''k{i}}''),
     (0x0130, ''{'' @ BS @ ''.{I}}''),
     (0x0131, ''{'' @ BS @ ''i}''),
     (0x0132, ''IJ''),
     (0x0133, ''ij''),
     (0x0134, ''{'' @ BS @ ''^{J}}''),
     (0x0135, ''{'' @ BS @ ''^{'' @ BS @ ''j}}''),
     (0x0136, ''{'' @ BS @ ''c{K}}''),
     (0x0137, ''{'' @ BS @ ''c{k}}''),
     (0x0138, ''{'' @ BS @ ''fontencoding{LELA}'' @ BS @ ''selectfont'' @ BS @ ''char91}''),
     (0x0139, ''{'' @ BS @ SQ @ ''{L}}''),
     (0x013A, ''{'' @ BS @ SQ @ ''{l}}''),
     (0x013B, ''{'' @ BS @ ''c{L}}''),
     (0x013C, ''{'' @ BS @ ''c{l}}''),
     (0x013D, ''{'' @ BS @ ''v{L}}''),
     (0x013E, ''{'' @ BS @ ''v{l}}''),
     (0x013F, ''{'' @ BS @ ''fontencoding{LELA}'' @ BS @ ''selectfont'' @ BS @ ''char201}''),
     (0x0140, ''{'' @ BS @ ''fontencoding{LELA}'' @ BS @ ''selectfont'' @ BS @ ''char202}''),
     (0x0141, ''{'' @ BS @ ''L}''),
     (0x0142, ''{'' @ BS @ ''l}''),
     (0x0143, ''{'' @ BS @ SQ @ ''{N}}''),
     (0x0144, ''{'' @ BS @ SQ @ ''{n}}''),
     (0x0145, ''{'' @ BS @ ''c{N}}''),
     (0x0146, ''{'' @ BS @ ''c{n}}''),
     (0x0147, ''{'' @ BS @ ''v{N}}''),
     (0x0148, ''{'' @ BS @ ''v{n}}''),
     (0x0149, SQ @ ''n''),
     (0x014A, ''{'' @ BS @ ''NG}''),
     (0x014B, ''{'' @ BS @ ''ng}''),
     (0x014C, ''{'' @ BS @ ''={O}}''),
     (0x014D, ''{'' @ BS @ ''={o}}''),
     (0x014E, ''{'' @ BS @ ''u{O}}''),
     (0x014F, ''{'' @ BS @ ''u{o}}''),
     (0x0150, ''{'' @ BS @ ''H{O}}''),
     (0x0151, ''{'' @ BS @ ''H{o}}''),
     (0x0152, ''{'' @ BS @ ''OE}''),
     (0x0153, ''{'' @ BS @ ''oe}''),
     (0x0154, ''{'' @ BS @ SQ @ ''{R}}''),
     (0x0155, ''{'' @ BS @ SQ @ ''{r}}''),
     (0x0156, ''{'' @ BS @ ''c{R}}''),
     (0x0157, ''{'' @ BS @ ''c{r}}''),
     (0x0158, ''{'' @ BS @ ''v{R}}''),
     (0x0159, ''{'' @ BS @ ''v{r}}''),
     (0x015A, ''{'' @ BS @ SQ @ ''{S}}''),
     (0x015B, ''{'' @ BS @ SQ @ ''{s}}''),
     (0x015C, ''{'' @ BS @ ''^{S}}''),
     (0x015D, ''{'' @ BS @ ''^{s}}''),
     (0x015E, ''{'' @ BS @ ''c{S}}''),
     (0x015F, ''{'' @ BS @ ''c{s}}''),
     (0x0160, ''{'' @ BS @ ''v{S}}''),
     (0x0161, ''{'' @ BS @ ''v{s}}''),
     (0x0162, ''{'' @ BS @ ''c{T}}''),
     (0x0163, ''{'' @ BS @ ''c{t}}''),
     (0x0164, ''{'' @ BS @ ''v{T}}''),
     (0x0165, ''{'' @ BS @ ''v{t}}''),
     (0x0166, ''{'' @ BS @ ''fontencoding{LELA}'' @ BS @ ''selectfont'' @ BS @ ''char47}''),
     (0x0167, ''{'' @ BS @ ''fontencoding{LELA}'' @ BS @ ''selectfont'' @ BS @ ''char63}''),
     (0x0168, ''{'' @ BS @ ''~{U}}''),
     (0x0169, ''{'' @ BS @ ''~{u}}''),
     (0x016A, ''{'' @ BS @ ''={U}}''),
     (0x016B, ''{'' @ BS @ ''={u}}''),
     (0x016C, ''{'' @ BS @ ''u{U}}''),
     (0x016D, ''{'' @ BS @ ''u{u}}''),
     (0x016E, ''{'' @ BS @ ''r{U}}''),
     (0x016F, ''{'' @ BS @ ''r{u}}''),
     (0x0170, ''{'' @ BS @ ''H{U}}''),
     (0x0171, ''{'' @ BS @ ''H{u}}''),
     (0x0172, ''{'' @ BS @ ''k{U}}''),
     (0x0173, ''{'' @ BS @ ''k{u}}''),
     (0x0174, ''{'' @ BS @ ''^{W}}''),
     (0x0175, ''{'' @ BS @ ''^{w}}''),
     (0x0176, ''{'' @ BS @ ''^{Y}}''),
     (0x0177, ''{'' @ BS @ ''^{y}}''),
     (0x0179, ''{'' @ BS @ SQ @ ''{Z}}''),
     (0x017A, ''{'' @ BS @ SQ @ ''{z}}''),
     (0x017B, ''{'' @ BS @ ''.{Z}}''),
     (0x017C, ''{'' @ BS @ ''.{z}}''),
     (0x017D, ''{'' @ BS @ ''v{Z}}''),
     (0x017E, ''{'' @ BS @ ''v{z}}''),
     (0x0192, ''f''),
     (0x0195, ''{'' @ BS @ ''texthvlig}''),
     (0x019E, ''{'' @ BS @ ''textnrleg}''),
     (0x01AA, ''{'' @ BS @ ''eth}''),
     (0x01BA, ''{'' @ BS @ ''fontencoding{LELA}'' @ BS @ ''selectfont'' @ BS @ ''char195}''),
     (0x01C2, ''{'' @ BS @ ''textdoublepipe}''),
     (0x01F5, ''{'' @ BS @ SQ @ ''{g}}'')
   ]"

text \<open>Lines 490 to 554.\<close>

definition uni2tex_02 :: "(nat \<times> string) list" where
  "uni2tex_02 = [
     (0x0250, ''{'' @ BS @ ''Elztrna}''),
     (0x0252, ''{'' @ BS @ ''Elztrnsa}''),
     (0x0254, ''{'' @ BS @ ''Elzopeno}''),
     (0x0256, ''{'' @ BS @ ''Elzrtld}''),
     (0x0258, ''{'' @ BS @ ''fontencoding{LEIP}'' @ BS @ ''selectfont'' @ BS @ ''char61}''),
     (0x0259, ''{'' @ BS @ ''Elzschwa}''),
     (0x025B, ''{'' @ BS @ ''varepsilon}''),
     (0x0261, ''g''),
     (0x0263, ''{'' @ BS @ ''Elzpgamma}''),
     (0x0264, ''{'' @ BS @ ''Elzpbgam}''),
     (0x0265, ''{'' @ BS @ ''Elztrnh}''),
     (0x026C, ''{'' @ BS @ ''Elzbtdl}''),
     (0x026D, ''{'' @ BS @ ''Elzrtll}''),
     (0x026F, ''{'' @ BS @ ''Elztrnm}''),
     (0x0270, ''{'' @ BS @ ''Elztrnmlr}''),
     (0x0271, ''{'' @ BS @ ''Elzltlmr}''),
     (0x0272, ''{'' @ BS @ ''Elzltln}''),
     (0x0273, ''{'' @ BS @ ''Elzrtln}''),
     (0x0277, ''{'' @ BS @ ''Elzclomeg}''),
     (0x0278, ''{'' @ BS @ ''textphi}''),
     (0x0279, ''{'' @ BS @ ''Elztrnr}''),
     (0x027A, ''{'' @ BS @ ''Elztrnrl}''),
     (0x027B, ''{'' @ BS @ ''Elzrttrnr}''),
     (0x027C, ''{'' @ BS @ ''Elzrl}''),
     (0x027D, ''{'' @ BS @ ''Elzrtlr}''),
     (0x027E, ''{'' @ BS @ ''Elzfhr}''),
     (0x027F, ''{'' @ BS @ ''fontencoding{LEIP}'' @ BS @ ''selectfont'' @ BS @ ''char202}''),
     (0x0282, ''{'' @ BS @ ''Elzrtls}''),
     (0x0283, ''{'' @ BS @ ''Elzesh}''),
     (0x0287, ''{'' @ BS @ ''Elztrnt}''),
     (0x0288, ''{'' @ BS @ ''Elzrtlt}''),
     (0x028A, ''{'' @ BS @ ''Elzpupsil}''),
     (0x028B, ''{'' @ BS @ ''Elzpscrv}''),
     (0x028C, ''{'' @ BS @ ''Elzinvv}''),
     (0x028D, ''{'' @ BS @ ''Elzinvw}''),
     (0x028E, ''{'' @ BS @ ''Elztrny}''),
     (0x0290, ''{'' @ BS @ ''Elzrtlz}''),
     (0x0292, ''{'' @ BS @ ''Elzyogh}''),
     (0x0294, ''{'' @ BS @ ''Elzglst}''),
     (0x0295, ''{'' @ BS @ ''Elzreglst}''),
     (0x0296, ''{'' @ BS @ ''Elzinglst}''),
     (0x029E, ''{'' @ BS @ ''textturnk}''),
     (0x02A4, ''{'' @ BS @ ''Elzdyogh}''),
     (0x02A7, ''{'' @ BS @ ''Elztesh}''),
     (0x02BC, SQ),
     (0x02C7, ''{'' @ BS @ ''textasciicaron}''),
     (0x02C8, ''{'' @ BS @ ''Elzverts}''),
     (0x02CC, ''{'' @ BS @ ''Elzverti}''),
     (0x02D0, ''{'' @ BS @ ''Elzlmrk}''),
     (0x02D1, ''{'' @ BS @ ''Elzhlmrk}''),
     (0x02D2, ''{'' @ BS @ ''Elzsbrhr}''),
     (0x02D3, ''{'' @ BS @ ''Elzsblhr}''),
     (0x02D4, ''{'' @ BS @ ''Elzrais}''),
     (0x02D5, ''{'' @ BS @ ''Elzlow}''),
     (0x02D8, ''{'' @ BS @ ''textasciibreve}''),
     (0x02D9, ''{'' @ BS @ ''textperiodcentered}''),
     (0x02DA, ''{'' @ BS @ ''r{}}''),
     (0x02DB, ''{'' @ BS @ ''k{}}''),
     (0x02DC, ''{'' @ BS @ ''texttildelow}''),
     (0x02DD, ''{'' @ BS @ ''H{}}''),
     (0x02E5, ''{'' @ BS @ ''tone{55}}''),
     (0x02E6, ''{'' @ BS @ ''tone{44}}''),
     (0x02E7, ''{'' @ BS @ ''tone{33}}''),
     (0x02E8, ''{'' @ BS @ ''tone{22}}''),
     (0x02E9, ''{'' @ BS @ ''tone{11}}'')
   ]"

text \<open>Lines 555 to 667.\<close>

definition uni2tex_03 :: "(nat \<times> string) list" where
  "uni2tex_03 = [
     (0x0300, ''{'' @ BS @ GR @ ''}''),
     (0x0301, ''{'' @ BS @ SQ @ ''}''),
     (0x0302, ''{'' @ BS @ ''^}''),
     (0x0303, ''{'' @ BS @ ''~}''),
     (0x0304, ''{'' @ BS @ ''=}''),
     (0x0306, ''{'' @ BS @ ''u}''),
     (0x0307, ''{'' @ BS @ ''.}''),
     (0x030A, ''{'' @ BS @ ''r}''),
     (0x030B, ''{'' @ BS @ ''H}''),
     (0x030C, ''{'' @ BS @ ''v}''),
     (0x030F, ''{'' @ BS @ ''cyrchar'' @ BS @ ''C}''),
     (0x0311, ''{'' @ BS @ ''fontencoding{LECO}'' @ BS @ ''selectfont'' @ BS @ ''char177}''),
     (0x0318, ''{'' @ BS @ ''fontencoding{LECO}'' @ BS @ ''selectfont'' @ BS @ ''char184}''),
     (0x0319, ''{'' @ BS @ ''fontencoding{LECO}'' @ BS @ ''selectfont'' @ BS @ ''char185}''),
     (0x0321, ''{'' @ BS @ ''Elzpalh}''),
     (0x0322, ''{'' @ BS @ ''Elzrh}''),
     (0x0327, ''{'' @ BS @ ''c}''),
     (0x0328, ''{'' @ BS @ ''k}''),
     (0x032A, ''{'' @ BS @ ''Elzsbbrg}''),
     (0x032B, ''{'' @ BS @ ''fontencoding{LECO}'' @ BS @ ''selectfont'' @ BS @ ''char203}''),
     (0x032F, ''{'' @ BS @ ''fontencoding{LECO}'' @ BS @ ''selectfont'' @ BS @ ''char207}''),
     (0x0335, ''{'' @ BS @ ''Elzxl}''),
     (0x0336, ''{'' @ BS @ ''Elzbar}''),
     (0x0337, ''{'' @ BS @ ''fontencoding{LECO}'' @ BS @ ''selectfont'' @ BS @ ''char215}''),
     (0x0338, ''{'' @ BS @ ''fontencoding{LECO}'' @ BS @ ''selectfont'' @ BS @ ''char216}''),
     (0x033A, ''{'' @ BS @ ''fontencoding{LECO}'' @ BS @ ''selectfont'' @ BS @ ''char218}''),
     (0x033B, ''{'' @ BS @ ''fontencoding{LECO}'' @ BS @ ''selectfont'' @ BS @ ''char219}''),
     (0x033C, ''{'' @ BS @ ''fontencoding{LECO}'' @ BS @ ''selectfont'' @ BS @ ''char220}''),
     (0x033D, ''{'' @ BS @ ''fontencoding{LECO}'' @ BS @ ''selectfont'' @ BS @ ''char221}''),
     (0x0361, ''{'' @ BS @ ''fontencoding{LECO}'' @ BS @ ''selectfont'' @ BS @ ''char225}''),
     (0x0386, ''{'' @ BS @ SQ @ ''{A}}''),
     (0x0388, ''{'' @ BS @ SQ @ ''{E}}''),
     (0x0389, ''{'' @ BS @ SQ @ ''{H}}''),
     (0x038A, ''{'' @ BS @ SQ @ ''{}{I}}''),
     (0x038C, ''{'' @ BS @ SQ @ ''{}O}''),
     (0x038E, ''$'' @ BS @ ''mathrm{'' @ SQ @ ''Y}$''),
     (0x038F, ''$'' @ BS @ ''mathrm{'' @ DQ @ BS @ ''Omega}$''),
     (0x0390, ''{'' @ BS @ ''acute{'' @ BS @ ''ddot{'' @ BS @ ''iota}}}''),
     (0x0391, ''$'' @ BS @ ''upAlpha$''),
     (0x0392, ''$'' @ BS @ ''upBeta$''),
     (0x0393, ''$'' @ BS @ ''upGamma$''),
     (0x0394, ''$'' @ BS @ ''upDelta$''),
     (0x0395, ''$'' @ BS @ ''upEpsilon$''),
     (0x0396, ''$'' @ BS @ ''upZeta$''),
     (0x0397, ''$'' @ BS @ ''upEta$''),
     (0x0398, ''$'' @ BS @ ''upTheta$''),
     (0x0399, ''$'' @ BS @ ''upIota$''),
     (0x039A, ''$'' @ BS @ ''upKappa$''),
     (0x039B, ''$'' @ BS @ ''upLambda$''),
     (0x039C, ''$'' @ BS @ ''upMu$''),
     (0x039D, ''$'' @ BS @ ''upNu$''),
     (0x039E, ''$'' @ BS @ ''upXi$''),
     (0x039F, ''$'' @ BS @ ''upOmicron$''),
     (0x03A0, ''$'' @ BS @ ''upPi$''),
     (0x03A1, ''$'' @ BS @ ''upRho$''),
     (0x03A3, ''$'' @ BS @ ''upSigma$''),
     (0x03A4, ''$'' @ BS @ ''upTau$''),
     (0x03A5, ''$'' @ BS @ ''upUpsilon$''),
     (0x03A6, ''$'' @ BS @ ''upPhi$''),
     (0x03A7, ''$'' @ BS @ ''upChi$''),
     (0x03A8, ''$'' @ BS @ ''upPsi$''),
     (0x03A9, ''$'' @ BS @ ''upOmega$''),
     (0x03AA, ''$'' @ BS @ ''mathrm{'' @ BS @ ''ddot{I}}$''),
     (0x03AB, ''$'' @ BS @ ''mathrm{'' @ BS @ ''ddot{Y}}$''),
     (0x03AC, ''{'' @ BS @ SQ @ ''{$'' @ BS @ ''alpha$}}''),
     (0x03AD, ''{'' @ BS @ ''acute{'' @ BS @ ''epsilon}}''),
     (0x03AE, ''{'' @ BS @ ''acute{'' @ BS @ ''eta}}''),
     (0x03AF, ''{'' @ BS @ ''acute{'' @ BS @ ''iota}}''),
     (0x03B0, ''{'' @ BS @ ''acute{'' @ BS @ ''ddot{'' @ BS @ ''upsilon}}}''),
     (0x03B1, ''$'' @ BS @ ''upalpha$''),
     (0x03B2, ''$'' @ BS @ ''upbeta$''),
     (0x03B3, ''$'' @ BS @ ''upgamma$''),
     (0x03B4, ''$'' @ BS @ ''updelta$''),
     (0x03B5, ''$'' @ BS @ ''upepsilon$''),
     (0x03B6, ''$'' @ BS @ ''upzeta$''),
     (0x03B7, ''$'' @ BS @ ''upeta$''),
     (0x03B8, ''{'' @ BS @ ''texttheta}''),
     (0x03B9, ''$'' @ BS @ ''upiota$''),
     (0x03BA, ''$'' @ BS @ ''upkappa$''),
     (0x03BB, ''$'' @ BS @ ''uplambda$''),
     (0x03BC, ''$'' @ BS @ ''upmu$''),
     (0x03BD, ''$'' @ BS @ ''upnu$''),
     (0x03BE, ''$'' @ BS @ ''upxi$''),
     (0x03BF, ''$'' @ BS @ ''upomicron$''),
     (0x03C0, ''$'' @ BS @ ''uppi$''),
     (0x03C1, ''$'' @ BS @ ''uprho$''),
     (0x03C2, ''$'' @ BS @ ''upvarsigma$''),
     (0x03C3, ''$'' @ BS @ ''upsigma$''),
     (0x03C4, ''$'' @ BS @ ''uptau$''),
     (0x03C5, ''$'' @ BS @ ''upupsilon$''),
     (0x03C6, ''$'' @ BS @ ''upvarphi$''),
     (0x03C7, ''$'' @ BS @ ''upchi$''),
     (0x03C8, ''$'' @ BS @ ''uppsi$''),
     (0x03C9, ''$'' @ BS @ ''upomega$''),
     (0x03CA, ''{'' @ BS @ ''ddot{'' @ BS @ ''iota}}''),
     (0x03CB, ''{'' @ BS @ ''ddot{'' @ BS @ ''upsilon}}''),
     (0x03CC, ''{'' @ BS @ SQ @ ''{o}}''),
     (0x03CD, ''{'' @ BS @ ''acute{'' @ BS @ ''upsilon}}''),
     (0x03CE, ''{'' @ BS @ ''acute{'' @ BS @ ''omega}}''),
     (0x03D0, ''{'' @ BS @ ''Pisymbol{ppi022}{87}}''),
     (0x03D1, ''{'' @ BS @ ''textvartheta}''),
     (0x03D2, ''{'' @ BS @ ''Upsilon}''),
     (0x03D5, ''$'' @ BS @ ''upphi$''),
     (0x03D6, ''$'' @ BS @ ''upvarpi$''),
     (0x03DA, ''$'' @ BS @ ''upStigma$''),
     (0x03DC, ''$'' @ BS @ ''upDigamma$''),
     (0x03DD, ''$'' @ BS @ ''updigamma$''),
     (0x03DE, ''$'' @ BS @ ''upKoppa$''),
     (0x03E0, ''$'' @ BS @ ''upSampi$''),
     (0x03F0, ''$'' @ BS @ ''upvarkappa$''),
     (0x03F1, ''$'' @ BS @ ''upvarrho$''),
     (0x03F4, ''{'' @ BS @ ''textTheta}''),
     (0x03F6, ''$'' @ BS @ ''upbackepsilon$'')
   ]"

text \<open>Lines 668 to 857.\<close>

definition uni2tex_04 :: "(nat \<times> string) list" where
  "uni2tex_04 = [
     (0x0401, ''{'' @ BS @ ''cyrchar'' @ BS @ ''CYRYO}''),
     (0x0402, ''{'' @ BS @ ''cyrchar'' @ BS @ ''CYRDJE}''),
     (0x0403, ''{'' @ BS @ ''cyrchar{'' @ BS @ DQ @ BS @ ''CYRG}}''),
     (0x0404, ''{'' @ BS @ ''cyrchar'' @ BS @ ''CYRIE}''),
     (0x0405, ''{'' @ BS @ ''cyrchar'' @ BS @ ''CYRDZE}''),
     (0x0406, ''{'' @ BS @ ''cyrchar'' @ BS @ ''CYRII}''),
     (0x0407, ''{'' @ BS @ ''cyrchar'' @ BS @ ''CYRYI}''),
     (0x0408, ''{'' @ BS @ ''cyrchar'' @ BS @ ''CYRJE}''),
     (0x0409, ''{'' @ BS @ ''cyrchar'' @ BS @ ''CYRLJE}''),
     (0x040A, ''{'' @ BS @ ''cyrchar'' @ BS @ ''CYRNJE}''),
     (0x040B, ''{'' @ BS @ ''cyrchar'' @ BS @ ''CYRTSHE}''),
     (0x040C, ''{'' @ BS @ ''cyrchar{'' @ BS @ DQ @ BS @ ''CYRK}}''),
     (0x040E, ''{'' @ BS @ ''cyrchar'' @ BS @ ''CYRUSHRT}''),
     (0x040F, ''{'' @ BS @ ''cyrchar'' @ BS @ ''CYRDZHE}''),
     (0x0410, ''{'' @ BS @ ''cyrchar'' @ BS @ ''CYRA}''),
     (0x0411, ''{'' @ BS @ ''cyrchar'' @ BS @ ''CYRB}''),
     (0x0412, ''{'' @ BS @ ''cyrchar'' @ BS @ ''CYRV}''),
     (0x0413, ''{'' @ BS @ ''cyrchar'' @ BS @ ''CYRG}''),
     (0x0414, ''{'' @ BS @ ''cyrchar'' @ BS @ ''CYRD}''),
     (0x0415, ''{'' @ BS @ ''cyrchar'' @ BS @ ''CYRE}''),
     (0x0416, ''{'' @ BS @ ''cyrchar'' @ BS @ ''CYRZH}''),
     (0x0417, ''{'' @ BS @ ''cyrchar'' @ BS @ ''CYRZ}''),
     (0x0418, ''{'' @ BS @ ''cyrchar'' @ BS @ ''CYRI}''),
     (0x0419, ''{'' @ BS @ ''cyrchar'' @ BS @ ''CYRISHRT}''),
     (0x041A, ''{'' @ BS @ ''cyrchar'' @ BS @ ''CYRK}''),
     (0x041B, ''{'' @ BS @ ''cyrchar'' @ BS @ ''CYRL}''),
     (0x041C, ''{'' @ BS @ ''cyrchar'' @ BS @ ''CYRM}''),
     (0x041D, ''{'' @ BS @ ''cyrchar'' @ BS @ ''CYRN}''),
     (0x041E, ''{'' @ BS @ ''cyrchar'' @ BS @ ''CYRO}''),
     (0x041F, ''{'' @ BS @ ''cyrchar'' @ BS @ ''CYRP}''),
     (0x0420, ''{'' @ BS @ ''cyrchar'' @ BS @ ''CYRR}''),
     (0x0421, ''{'' @ BS @ ''cyrchar'' @ BS @ ''CYRS}''),
     (0x0422, ''{'' @ BS @ ''cyrchar'' @ BS @ ''CYRT}''),
     (0x0423, ''{'' @ BS @ ''cyrchar'' @ BS @ ''CYRU}''),
     (0x0424, ''{'' @ BS @ ''cyrchar'' @ BS @ ''CYRF}''),
     (0x0425, ''{'' @ BS @ ''cyrchar'' @ BS @ ''CYRH}''),
     (0x0426, ''{'' @ BS @ ''cyrchar'' @ BS @ ''CYRC}''),
     (0x0427, ''{'' @ BS @ ''cyrchar'' @ BS @ ''CYRCH}''),
     (0x0428, ''{'' @ BS @ ''cyrchar'' @ BS @ ''CYRSH}''),
     (0x0429, ''{'' @ BS @ ''cyrchar'' @ BS @ ''CYRSHCH}''),
     (0x042A, ''{'' @ BS @ ''cyrchar'' @ BS @ ''CYRHRDSN}''),
     (0x042B, ''{'' @ BS @ ''cyrchar'' @ BS @ ''CYRERY}''),
     (0x042C, ''{'' @ BS @ ''cyrchar'' @ BS @ ''CYRSFTSN}''),
     (0x042D, ''{'' @ BS @ ''cyrchar'' @ BS @ ''CYREREV}''),
     (0x042E, ''{'' @ BS @ ''cyrchar'' @ BS @ ''CYRYU}''),
     (0x042F, ''{'' @ BS @ ''cyrchar'' @ BS @ ''CYRYA}''),
     (0x0430, ''{'' @ BS @ ''cyrchar'' @ BS @ ''cyra}''),
     (0x0431, ''{'' @ BS @ ''cyrchar'' @ BS @ ''cyrb}''),
     (0x0432, ''{'' @ BS @ ''cyrchar'' @ BS @ ''cyrv}''),
     (0x0433, ''{'' @ BS @ ''cyrchar'' @ BS @ ''cyrg}''),
     (0x0434, ''{'' @ BS @ ''cyrchar'' @ BS @ ''cyrd}''),
     (0x0435, ''{'' @ BS @ ''cyrchar'' @ BS @ ''cyre}''),
     (0x0436, ''{'' @ BS @ ''cyrchar'' @ BS @ ''cyrzh}''),
     (0x0437, ''{'' @ BS @ ''cyrchar'' @ BS @ ''cyrz}''),
     (0x0438, ''{'' @ BS @ ''cyrchar'' @ BS @ ''cyri}''),
     (0x0439, ''{'' @ BS @ ''cyrchar'' @ BS @ ''cyrishrt}''),
     (0x043A, ''{'' @ BS @ ''cyrchar'' @ BS @ ''cyrk}''),
     (0x043B, ''{'' @ BS @ ''cyrchar'' @ BS @ ''cyrl}''),
     (0x043C, ''{'' @ BS @ ''cyrchar'' @ BS @ ''cyrm}''),
     (0x043D, ''{'' @ BS @ ''cyrchar'' @ BS @ ''cyrn}''),
     (0x043E, ''{'' @ BS @ ''cyrchar'' @ BS @ ''cyro}''),
     (0x043F, ''{'' @ BS @ ''cyrchar'' @ BS @ ''cyrp}''),
     (0x0440, ''{'' @ BS @ ''cyrchar'' @ BS @ ''cyrr}''),
     (0x0441, ''{'' @ BS @ ''cyrchar'' @ BS @ ''cyrs}''),
     (0x0442, ''{'' @ BS @ ''cyrchar'' @ BS @ ''cyrt}''),
     (0x0443, ''{'' @ BS @ ''cyrchar'' @ BS @ ''cyru}''),
     (0x0444, ''{'' @ BS @ ''cyrchar'' @ BS @ ''cyrf}''),
     (0x0445, ''{'' @ BS @ ''cyrchar'' @ BS @ ''cyrh}''),
     (0x0446, ''{'' @ BS @ ''cyrchar'' @ BS @ ''cyrc}''),
     (0x0447, ''{'' @ BS @ ''cyrchar'' @ BS @ ''cyrch}''),
     (0x0448, ''{'' @ BS @ ''cyrchar'' @ BS @ ''cyrsh}''),
     (0x0449, ''{'' @ BS @ ''cyrchar'' @ BS @ ''cyrshch}''),
     (0x044A, ''{'' @ BS @ ''cyrchar'' @ BS @ ''cyrhrdsn}''),
     (0x044B, ''{'' @ BS @ ''cyrchar'' @ BS @ ''cyrery}''),
     (0x044C, ''{'' @ BS @ ''cyrchar'' @ BS @ ''cyrsftsn}''),
     (0x044D, ''{'' @ BS @ ''cyrchar'' @ BS @ ''cyrerev}''),
     (0x044E, ''{'' @ BS @ ''cyrchar'' @ BS @ ''cyryu}''),
     (0x044F, ''{'' @ BS @ ''cyrchar'' @ BS @ ''cyrya}''),
     (0x0451, ''{'' @ BS @ ''cyrchar'' @ BS @ ''cyryo}''),
     (0x0452, ''{'' @ BS @ ''cyrchar'' @ BS @ ''cyrdje}''),
     (0x0453, ''{'' @ BS @ ''cyrchar{'' @ BS @ DQ @ BS @ ''cyrg}}''),
     (0x0454, ''{'' @ BS @ ''cyrchar'' @ BS @ ''cyrie}''),
     (0x0455, ''{'' @ BS @ ''cyrchar'' @ BS @ ''cyrdze}''),
     (0x0456, ''{'' @ BS @ ''cyrchar'' @ BS @ ''cyrii}''),
     (0x0457, ''{'' @ BS @ ''cyrchar'' @ BS @ ''cyryi}''),
     (0x0458, ''{'' @ BS @ ''cyrchar'' @ BS @ ''cyrje}''),
     (0x0459, ''{'' @ BS @ ''cyrchar'' @ BS @ ''cyrlje}''),
     (0x045A, ''{'' @ BS @ ''cyrchar'' @ BS @ ''cyrnje}''),
     (0x045B, ''{'' @ BS @ ''cyrchar'' @ BS @ ''cyrtshe}''),
     (0x045C, ''{'' @ BS @ ''cyrchar{'' @ BS @ DQ @ BS @ ''cyrk}}''),
     (0x045E, ''{'' @ BS @ ''cyrchar'' @ BS @ ''cyrushrt}''),
     (0x045F, ''{'' @ BS @ ''cyrchar'' @ BS @ ''cyrdzhe}''),
     (0x0460, ''{'' @ BS @ ''cyrchar'' @ BS @ ''CYROMEGA}''),
     (0x0461, ''{'' @ BS @ ''cyrchar'' @ BS @ ''cyromega}''),
     (0x0462, ''{'' @ BS @ ''cyrchar'' @ BS @ ''CYRYAT}''),
     (0x0464, ''{'' @ BS @ ''cyrchar'' @ BS @ ''CYRIOTE}''),
     (0x0465, ''{'' @ BS @ ''cyrchar'' @ BS @ ''cyriote}''),
     (0x0466, ''{'' @ BS @ ''cyrchar'' @ BS @ ''CYRLYUS}''),
     (0x0467, ''{'' @ BS @ ''cyrchar'' @ BS @ ''cyrlyus}''),
     (0x0468, ''{'' @ BS @ ''cyrchar'' @ BS @ ''CYRIOTLYUS}''),
     (0x0469, ''{'' @ BS @ ''cyrchar'' @ BS @ ''cyriotlyus}''),
     (0x046A, ''{'' @ BS @ ''cyrchar'' @ BS @ ''CYRBYUS}''),
     (0x046C, ''{'' @ BS @ ''cyrchar'' @ BS @ ''CYRIOTBYUS}''),
     (0x046D, ''{'' @ BS @ ''cyrchar'' @ BS @ ''cyriotbyus}''),
     (0x046E, ''{'' @ BS @ ''cyrchar'' @ BS @ ''CYRKSI}''),
     (0x046F, ''{'' @ BS @ ''cyrchar'' @ BS @ ''cyrksi}''),
     (0x0470, ''{'' @ BS @ ''cyrchar'' @ BS @ ''CYRPSI}''),
     (0x0471, ''{'' @ BS @ ''cyrchar'' @ BS @ ''cyrpsi}''),
     (0x0472, ''{'' @ BS @ ''cyrchar'' @ BS @ ''CYRFITA}''),
     (0x0474, ''{'' @ BS @ ''cyrchar'' @ BS @ ''CYRIZH}''),
     (0x0478, ''{'' @ BS @ ''cyrchar'' @ BS @ ''CYRUK}''),
     (0x0479, ''{'' @ BS @ ''cyrchar'' @ BS @ ''cyruk}''),
     (0x047A, ''{'' @ BS @ ''cyrchar'' @ BS @ ''CYROMEGARND}''),
     (0x047B, ''{'' @ BS @ ''cyrchar'' @ BS @ ''cyromegarnd}''),
     (0x047C, ''{'' @ BS @ ''cyrchar'' @ BS @ ''CYROMEGATITLO}''),
     (0x047D, ''{'' @ BS @ ''cyrchar'' @ BS @ ''cyromegatitlo}''),
     (0x047E, ''{'' @ BS @ ''cyrchar'' @ BS @ ''CYROT}''),
     (0x047F, ''{'' @ BS @ ''cyrchar'' @ BS @ ''cyrot}''),
     (0x0480, ''{'' @ BS @ ''cyrchar'' @ BS @ ''CYRKOPPA}''),
     (0x0481, ''{'' @ BS @ ''cyrchar'' @ BS @ ''cyrkoppa}''),
     (0x0482, ''{'' @ BS @ ''cyrchar'' @ BS @ ''cyrthousands}''),
     (0x0488, ''{'' @ BS @ ''cyrchar'' @ BS @ ''cyrhundredthousands}''),
     (0x0489, ''{'' @ BS @ ''cyrchar'' @ BS @ ''cyrmillions}''),
     (0x048C, ''{'' @ BS @ ''cyrchar'' @ BS @ ''CYRSEMISFTSN}''),
     (0x048D, ''{'' @ BS @ ''cyrchar'' @ BS @ ''cyrsemisftsn}''),
     (0x048E, ''{'' @ BS @ ''cyrchar'' @ BS @ ''CYRRTICK}''),
     (0x048F, ''{'' @ BS @ ''cyrchar'' @ BS @ ''cyrrtick}''),
     (0x0490, ''{'' @ BS @ ''cyrchar'' @ BS @ ''CYRGUP}''),
     (0x0491, ''{'' @ BS @ ''cyrchar'' @ BS @ ''cyrgup}''),
     (0x0492, ''{'' @ BS @ ''cyrchar'' @ BS @ ''CYRGHCRS}''),
     (0x0493, ''{'' @ BS @ ''cyrchar'' @ BS @ ''cyrghcrs}''),
     (0x0494, ''{'' @ BS @ ''cyrchar'' @ BS @ ''CYRGHK}''),
     (0x0495, ''{'' @ BS @ ''cyrchar'' @ BS @ ''cyrghk}''),
     (0x0496, ''{'' @ BS @ ''cyrchar'' @ BS @ ''CYRZHDSC}''),
     (0x0497, ''{'' @ BS @ ''cyrchar'' @ BS @ ''cyrzhdsc}''),
     (0x0498, ''{'' @ BS @ ''cyrchar'' @ BS @ ''CYRZDSC}''),
     (0x0499, ''{'' @ BS @ ''cyrchar'' @ BS @ ''cyrzdsc}''),
     (0x049A, ''{'' @ BS @ ''cyrchar'' @ BS @ ''CYRKDSC}''),
     (0x049B, ''{'' @ BS @ ''cyrchar'' @ BS @ ''cyrkdsc}''),
     (0x049C, ''{'' @ BS @ ''cyrchar'' @ BS @ ''CYRKVCRS}''),
     (0x049D, ''{'' @ BS @ ''cyrchar'' @ BS @ ''cyrkvcrs}''),
     (0x049E, ''{'' @ BS @ ''cyrchar'' @ BS @ ''CYRKHCRS}''),
     (0x049F, ''{'' @ BS @ ''cyrchar'' @ BS @ ''cyrkhcrs}''),
     (0x04A0, ''{'' @ BS @ ''cyrchar'' @ BS @ ''CYRKBEAK}''),
     (0x04A1, ''{'' @ BS @ ''cyrchar'' @ BS @ ''cyrkbeak}''),
     (0x04A2, ''{'' @ BS @ ''cyrchar'' @ BS @ ''CYRNDSC}''),
     (0x04A3, ''{'' @ BS @ ''cyrchar'' @ BS @ ''cyrndsc}''),
     (0x04A4, ''{'' @ BS @ ''cyrchar'' @ BS @ ''CYRNG}''),
     (0x04A5, ''{'' @ BS @ ''cyrchar'' @ BS @ ''cyrng}''),
     (0x04A6, ''{'' @ BS @ ''cyrchar'' @ BS @ ''CYRPHK}''),
     (0x04A7, ''{'' @ BS @ ''cyrchar'' @ BS @ ''cyrphk}''),
     (0x04A8, ''{'' @ BS @ ''cyrchar'' @ BS @ ''CYRABHHA}''),
     (0x04A9, ''{'' @ BS @ ''cyrchar'' @ BS @ ''cyrabhha}''),
     (0x04AA, ''{'' @ BS @ ''cyrchar'' @ BS @ ''CYRSDSC}''),
     (0x04AB, ''{'' @ BS @ ''cyrchar'' @ BS @ ''cyrsdsc}''),
     (0x04AC, ''{'' @ BS @ ''cyrchar'' @ BS @ ''CYRTDSC}''),
     (0x04AD, ''{'' @ BS @ ''cyrchar'' @ BS @ ''cyrtdsc}''),
     (0x04AE, ''{'' @ BS @ ''cyrchar'' @ BS @ ''CYRY}''),
     (0x04AF, ''{'' @ BS @ ''cyrchar'' @ BS @ ''cyry}''),
     (0x04B0, ''{'' @ BS @ ''cyrchar'' @ BS @ ''CYRYHCRS}''),
     (0x04B1, ''{'' @ BS @ ''cyrchar'' @ BS @ ''cyryhcrs}''),
     (0x04B2, ''{'' @ BS @ ''cyrchar'' @ BS @ ''CYRHDSC}''),
     (0x04B3, ''{'' @ BS @ ''cyrchar'' @ BS @ ''cyrhdsc}''),
     (0x04B4, ''{'' @ BS @ ''cyrchar'' @ BS @ ''CYRTETSE}''),
     (0x04B5, ''{'' @ BS @ ''cyrchar'' @ BS @ ''cyrtetse}''),
     (0x04B6, ''{'' @ BS @ ''cyrchar'' @ BS @ ''CYRCHRDSC}''),
     (0x04B7, ''{'' @ BS @ ''cyrchar'' @ BS @ ''cyrchrdsc}''),
     (0x04B8, ''{'' @ BS @ ''cyrchar'' @ BS @ ''CYRCHVCRS}''),
     (0x04B9, ''{'' @ BS @ ''cyrchar'' @ BS @ ''cyrchvcrs}''),
     (0x04BA, ''{'' @ BS @ ''cyrchar'' @ BS @ ''CYRSHHA}''),
     (0x04BB, ''{'' @ BS @ ''cyrchar'' @ BS @ ''cyrshha}''),
     (0x04BC, ''{'' @ BS @ ''cyrchar'' @ BS @ ''CYRABHCH}''),
     (0x04BD, ''{'' @ BS @ ''cyrchar'' @ BS @ ''cyrabhch}''),
     (0x04BE, ''{'' @ BS @ ''cyrchar'' @ BS @ ''CYRABHCHDSC}''),
     (0x04BF, ''{'' @ BS @ ''cyrchar'' @ BS @ ''cyrabhchdsc}''),
     (0x04C0, ''{'' @ BS @ ''cyrchar'' @ BS @ ''CYRpalochka}''),
     (0x04C3, ''{'' @ BS @ ''cyrchar'' @ BS @ ''CYRKHK}''),
     (0x04C4, ''{'' @ BS @ ''cyrchar'' @ BS @ ''cyrkhk}''),
     (0x04C7, ''{'' @ BS @ ''cyrchar'' @ BS @ ''CYRNHK}''),
     (0x04C8, ''{'' @ BS @ ''cyrchar'' @ BS @ ''cyrnhk}''),
     (0x04CB, ''{'' @ BS @ ''cyrchar'' @ BS @ ''CYRCHLDSC}''),
     (0x04CC, ''{'' @ BS @ ''cyrchar'' @ BS @ ''cyrchldsc}''),
     (0x04D4, ''{'' @ BS @ ''cyrchar'' @ BS @ ''CYRAE}''),
     (0x04D5, ''{'' @ BS @ ''cyrchar'' @ BS @ ''cyrae}''),
     (0x04D8, ''{'' @ BS @ ''cyrchar'' @ BS @ ''CYRSCHWA}''),
     (0x04D9, ''{'' @ BS @ ''cyrchar'' @ BS @ ''cyrschwa}''),
     (0x04E0, ''{'' @ BS @ ''cyrchar'' @ BS @ ''CYRABHDZE}''),
     (0x04E1, ''{'' @ BS @ ''cyrchar'' @ BS @ ''cyrabhdze}''),
     (0x04E8, ''{'' @ BS @ ''cyrchar'' @ BS @ ''CYROTLD}''),
     (0x04E9, ''{'' @ BS @ ''cyrchar'' @ BS @ ''cyrotld}'')
   ]"

text \<open>Lines 858 to 899.\<close>

definition uni2tex_20 :: "(nat \<times> string) list" where
  "uni2tex_20 = [
     (0x2002, ''{'' @ BS @ ''hspace{0.6em}}''),
     (0x2003, ''{'' @ BS @ ''hspace{1em}}''),
     (0x2004, ''{'' @ BS @ ''hspace{0.33em}}''),
     (0x2005, ''{'' @ BS @ ''hspace{0.25em}}''),
     (0x2006, ''{'' @ BS @ ''hspace{0.166em}}''),
     (0x2007, ''{'' @ BS @ ''hphantom{0}}''),
     (0x2008, ''{'' @ BS @ ''hphantom{,}}''),
     (0x2009, ''{'' @ BS @ ''hspace{0.167em}}''),
     (0x200A, ''{'' @ BS @ ''mkern1mu}''),
     (0x2010, ''-''),
     (0x2013, ''{'' @ BS @ ''textendash}''),
     (0x2014, ''{'' @ BS @ ''textemdash}''),
     (0x2015, ''{'' @ BS @ ''rule{1em}{1pt}}''),
     (0x2016, ''$'' @ BS @ ''Vert$''),
     (0x2018, GR),
     (0x2019, SQ),
     (0x201A, '',''),
     (0x201B, ''{'' @ BS @ ''Elzreapos}''),
     (0x201C, ''{'' @ BS @ ''textquotedblleft}''),
     (0x201D, ''{'' @ BS @ ''textquotedblright}''),
     (0x201E, '',,''),
     (0x2020, ''{'' @ BS @ ''textdagger}''),
     (0x2021, ''{'' @ BS @ ''textdaggerdbl}''),
     (0x2022, ''{'' @ BS @ ''textbullet}''),
     (0x2024, ''.''),
     (0x2025, ''..''),
     (0x2026, ''{'' @ BS @ ''ldots}''),
     (0x2030, ''{'' @ BS @ ''textperthousand}''),
     (0x2031, ''{'' @ BS @ ''textpertenthousand}''),
     (0x2032, ''$'' @ BS @ ''prime$''),
     (0x2033, ''$'' @ BS @ ''dprime$''),
     (0x2034, ''$'' @ BS @ ''trprime$''),
     (0x2035, ''$'' @ BS @ ''backprime$''),
     (0x2039, ''{'' @ BS @ ''guilsinglleft}''),
     (0x203A, ''{'' @ BS @ ''guilsinglright}''),
     (0x2057, ''$'' @ BS @ ''qprime$''),
     (0x205F, ''{'' @ BS @ ''mkern4mu}''),
     (0x2060, ''{'' @ BS @ ''nolinebreak}''),
     (0x20A7, ''{'' @ BS @ ''ensuremath{'' @ BS @ ''Elzpes}}''),
     (0x20AC, ''{'' @ BS @ ''mbox{'' @ BS @ ''texteuro}}''),
     (0x20DB, ''$'' @ BS @ ''dddot$''),
     (0x20DC, ''$'' @ BS @ ''ddddot$'')
   ]"

text \<open>Lines 900 to 1010.\<close>

definition uni2tex_21 :: "(nat \<times> string) list" where
  "uni2tex_21 = [
     (0x2102, ''$'' @ BS @ ''BbbC$''),
     (0x210A, ''$'' @ BS @ ''mathscr{g}$''),
     (0x210B, ''$'' @ BS @ ''mscrH$''),
     (0x210C, ''$'' @ BS @ ''mfrakH$''),
     (0x210D, ''$'' @ BS @ ''BbbH$''),
     (0x210F, ''$'' @ BS @ ''hslash$''),
     (0x2110, ''$'' @ BS @ ''mscrI$''),
     (0x2111, ''$'' @ BS @ ''Im$''),
     (0x2112, ''$'' @ BS @ ''mscrL$''),
     (0x2113, ''$'' @ BS @ ''ell$''),
     (0x2115, ''$'' @ BS @ ''BbbN$''),
     (0x2116, ''{'' @ BS @ ''cyrchar'' @ BS @ ''textnumero}''),
     (0x2118, ''$'' @ BS @ ''wp$''),
     (0x2119, ''$'' @ BS @ ''BbbP$''),
     (0x211A, ''$'' @ BS @ ''BbbQ$''),
     (0x211B, ''$'' @ BS @ ''mscrR$''),
     (0x211C, ''$'' @ BS @ ''Re$''),
     (0x211D, ''$'' @ BS @ ''BbbR$''),
     (0x211E, ''{'' @ BS @ ''Elzxrat}''),
     (0x2122, ''{'' @ BS @ ''texttrademark}''),
     (0x2124, ''$'' @ BS @ ''BbbZ$''),
     (0x2126, ''{'' @ BS @ ''Omega}''),
     (0x2127, ''$'' @ BS @ ''mho$''),
     (0x2128, ''$'' @ BS @ ''mfrakZ$''),
     (0x2129, ''$'' @ BS @ ''turnediota$''),
     (0x212B, ''{'' @ BS @ ''AA}''),
     (0x212C, ''$'' @ BS @ ''mscrB$''),
     (0x212D, ''$'' @ BS @ ''mfrakC$''),
     (0x212F, ''$'' @ BS @ ''mscre$''),
     (0x2130, ''$'' @ BS @ ''mscrE$''),
     (0x2131, ''$'' @ BS @ ''mscrF$''),
     (0x2133, ''$'' @ BS @ ''mscrM$''),
     (0x2134, ''$'' @ BS @ ''mscro$''),
     (0x2135, ''$'' @ BS @ ''aleph$''),
     (0x2136, ''$'' @ BS @ ''beth$''),
     (0x2137, ''$'' @ BS @ ''gimel$''),
     (0x2138, ''$'' @ BS @ ''daleth$''),
     (0x2153, ''{'' @ BS @ ''textfrac{1}{3}}''),
     (0x2154, ''{'' @ BS @ ''textfrac{2}{3}}''),
     (0x2155, ''{'' @ BS @ ''textfrac{1}{5}}''),
     (0x2156, ''{'' @ BS @ ''textfrac{2}{5}}''),
     (0x2157, ''{'' @ BS @ ''textfrac{3}{5}}''),
     (0x2158, ''{'' @ BS @ ''textfrac{4}{5}}''),
     (0x2159, ''{'' @ BS @ ''textfrac{1}{6}}''),
     (0x215A, ''{'' @ BS @ ''textfrac{5}{6}}''),
     (0x215B, ''{'' @ BS @ ''textfrac{1}{8}}''),
     (0x215C, ''{'' @ BS @ ''textfrac{3}{8}}''),
     (0x215D, ''{'' @ BS @ ''textfrac{5}{8}}''),
     (0x215E, ''{'' @ BS @ ''textfrac{7}{8}}''),
     (0x2190, ''$'' @ BS @ ''leftarrow$''),
     (0x2191, ''$'' @ BS @ ''uparrow$''),
     (0x2192, ''$'' @ BS @ ''rightarrow$''),
     (0x2193, ''$'' @ BS @ ''downarrow$''),
     (0x2194, ''$'' @ BS @ ''leftrightarrow$''),
     (0x2195, ''$'' @ BS @ ''updownarrow$''),
     (0x2196, ''$'' @ BS @ ''nwarrow$''),
     (0x2197, ''$'' @ BS @ ''nearrow$''),
     (0x2198, ''$'' @ BS @ ''searrow$''),
     (0x2199, ''$'' @ BS @ ''swarrow$''),
     (0x219A, ''$'' @ BS @ ''nleftarrow$''),
     (0x219B, ''$'' @ BS @ ''nrightarrow$''),
     (0x219C, ''$'' @ BS @ ''leftwavearrow$''),
     (0x219D, ''$'' @ BS @ ''rightwavearrow$''),
     (0x219E, ''$'' @ BS @ ''twoheadleftarrow$''),
     (0x21A0, ''$'' @ BS @ ''twoheadrightarrow$''),
     (0x21A2, ''$'' @ BS @ ''leftarrowtail$''),
     (0x21A3, ''$'' @ BS @ ''rightarrowtail$''),
     (0x21A6, ''$'' @ BS @ ''mapsto$''),
     (0x21A9, ''$'' @ BS @ ''hookleftarrow$''),
     (0x21AA, ''$'' @ BS @ ''hookrightarrow$''),
     (0x21AB, ''$'' @ BS @ ''looparrowleft$''),
     (0x21AC, ''$'' @ BS @ ''looparrowright$''),
     (0x21AD, ''$'' @ BS @ ''leftrightsquigarrow$''),
     (0x21AE, ''$'' @ BS @ ''nleftrightarrow$''),
     (0x21B0, ''$'' @ BS @ ''Lsh$''),
     (0x21B1, ''$'' @ BS @ ''Rsh$''),
     (0x21B3, ''$'' @ BS @ ''Rdsh$''),
     (0x21B6, ''$'' @ BS @ ''curvearrowleft$''),
     (0x21B7, ''$'' @ BS @ ''curvearrowright$''),
     (0x21BA, ''$'' @ BS @ ''acwopencirclearrow$''),
     (0x21BB, ''$'' @ BS @ ''cwopencirclearrow$''),
     (0x21BC, ''$'' @ BS @ ''leftharpoonup$''),
     (0x21BD, ''$'' @ BS @ ''leftharpoondown$''),
     (0x21BE, ''$'' @ BS @ ''upharpoonright$''),
     (0x21BF, ''$'' @ BS @ ''upharpoonleft$''),
     (0x21C0, ''$'' @ BS @ ''rightharpoonup$''),
     (0x21C1, ''$'' @ BS @ ''rightharpoondown$''),
     (0x21C2, ''$'' @ BS @ ''downharpoonright$''),
     (0x21C3, ''$'' @ BS @ ''downharpoonleft$''),
     (0x21C4, ''$'' @ BS @ ''rightleftarrows$''),
     (0x21C5, ''$'' @ BS @ ''updownarrows$''),
     (0x21C6, ''$'' @ BS @ ''leftrightarrows$''),
     (0x21C7, ''$'' @ BS @ ''leftleftarrows$''),
     (0x21C8, ''$'' @ BS @ ''upuparrows$''),
     (0x21C9, ''$'' @ BS @ ''rightrightarrows$''),
     (0x21CA, ''$'' @ BS @ ''downdownarrows$''),
     (0x21CB, ''$'' @ BS @ ''leftrightharpoons$''),
     (0x21CC, ''$'' @ BS @ ''rightleftharpoons$''),
     (0x21CD, ''$'' @ BS @ ''nLeftarrow$''),
     (0x21CE, ''$'' @ BS @ ''nLeftrightarrow$''),
     (0x21CF, ''$'' @ BS @ ''nRightarrow$''),
     (0x21D0, ''$'' @ BS @ ''Leftarrow$''),
     (0x21D1, ''$'' @ BS @ ''Uparrow$''),
     (0x21D2, ''$'' @ BS @ ''Rightarrow$''),
     (0x21D3, ''$'' @ BS @ ''Downarrow$''),
     (0x21D4, ''$'' @ BS @ ''Leftrightarrow$''),
     (0x21D5, ''$'' @ BS @ ''Updownarrow$''),
     (0x21DA, ''$'' @ BS @ ''Lleftarrow$''),
     (0x21DB, ''$'' @ BS @ ''Rrightarrow$''),
     (0x21DD, ''$'' @ BS @ ''rightsquigarrow$''),
     (0x21F5, ''$'' @ BS @ ''downuparrows$'')
   ]"

text \<open>Lines 1011 to 1223.\<close>

definition uni2tex_22 :: "(nat \<times> string) list" where
  "uni2tex_22 = [
     (0x2200, ''$'' @ BS @ ''forall$''),
     (0x2201, ''$'' @ BS @ ''complement$''),
     (0x2202, ''$'' @ BS @ ''partial$''),
     (0x2203, ''$'' @ BS @ ''exists$''),
     (0x2204, ''$'' @ BS @ ''nexists$''),
     (0x2205, ''$'' @ BS @ ''varnothing$''),
     (0x2207, ''$'' @ BS @ ''nabla$''),
     (0x2208, ''$'' @ BS @ ''in$''),
     (0x2209, ''$'' @ BS @ ''notin$''),
     (0x220B, ''$'' @ BS @ ''ni$''),
     (0x220C, ''$'' @ BS @ ''nni$''),
     (0x220F, ''$'' @ BS @ ''prod$''),
     (0x2210, ''$'' @ BS @ ''coprod$''),
     (0x2211, ''$'' @ BS @ ''sum$''),
     (0x2212, ''-''),
     (0x2213, ''$'' @ BS @ ''mp$''),
     (0x2214, ''$'' @ BS @ ''dotplus$''),
     (0x2216, ''$'' @ BS @ ''smallsetminus$''),
     (0x2217, ''$'' @ BS @ ''ast$''),
     (0x2218, ''$'' @ BS @ ''vysmwhtcircle$''),
     (0x2219, ''$'' @ BS @ ''vysmblkcircle$''),
     (0x221A, ''$'' @ BS @ ''sqrt$''),
     (0x221D, ''$'' @ BS @ ''propto$''),
     (0x221E, ''$'' @ BS @ ''infty$''),
     (0x221F, ''$'' @ BS @ ''rightangle$''),
     (0x2220, ''$'' @ BS @ ''angle$''),
     (0x2221, ''$'' @ BS @ ''measuredangle$''),
     (0x2222, ''$'' @ BS @ ''sphericalangle$''),
     (0x2223, ''$'' @ BS @ ''mid$''),
     (0x2224, ''$'' @ BS @ ''nmid$''),
     (0x2225, ''$'' @ BS @ ''parallel$''),
     (0x2226, ''$'' @ BS @ ''nparallel$''),
     (0x2227, ''$'' @ BS @ ''wedge$''),
     (0x2228, ''$'' @ BS @ ''vee$''),
     (0x2229, ''$'' @ BS @ ''cap$''),
     (0x222A, ''$'' @ BS @ ''cup$''),
     (0x222B, ''$'' @ BS @ ''int$''),
     (0x222C, ''$'' @ BS @ ''iint$''),
     (0x222D, ''$'' @ BS @ ''iiint$''),
     (0x222E, ''$'' @ BS @ ''oint$''),
     (0x222F, ''$'' @ BS @ ''oiint$''),
     (0x2230, ''$'' @ BS @ ''oiiint$''),
     (0x2231, ''$'' @ BS @ ''intclockwise$''),
     (0x2232, ''$'' @ BS @ ''varointclockwise$''),
     (0x2233, ''$'' @ BS @ ''ointctrclockwise$''),
     (0x2234, ''$'' @ BS @ ''therefore$''),
     (0x2235, ''$'' @ BS @ ''because$''),
     (0x2237, ''$'' @ BS @ ''Colon$''),
     (0x2238, ''$'' @ BS @ ''dotminus$''),
     (0x223A, ''$'' @ BS @ ''dotsminusdots$''),
     (0x223B, ''$'' @ BS @ ''kernelcontraction$''),
     (0x223C, ''$'' @ BS @ ''sim$''),
     (0x223D, ''$'' @ BS @ ''backsim$''),
     (0x223E, ''$'' @ BS @ ''invlazys$''),
     (0x2240, ''$'' @ BS @ ''wr$''),
     (0x2241, ''$'' @ BS @ ''nsim$''),
     (0x2242, ''$'' @ BS @ ''eqsim$''),
     (0x2243, ''$'' @ BS @ ''simeq$''),
     (0x2244, ''$'' @ BS @ ''nsime$''),
     (0x2245, ''$'' @ BS @ ''cong$''),
     (0x2246, ''$'' @ BS @ ''simneqq$''),
     (0x2247, ''$'' @ BS @ ''ncong$''),
     (0x2248, ''$'' @ BS @ ''approx$''),
     (0x2249, ''$'' @ BS @ ''napprox$''),
     (0x224A, ''$'' @ BS @ ''approxeq$''),
     (0x224B, ''$'' @ BS @ ''approxident$''),
     (0x224C, ''$'' @ BS @ ''backcong$''),
     (0x224D, ''$'' @ BS @ ''asymp$''),
     (0x224E, ''$'' @ BS @ ''Bumpeq$''),
     (0x224F, ''$'' @ BS @ ''bumpeq$''),
     (0x2250, ''$'' @ BS @ ''doteq$''),
     (0x2251, ''$'' @ BS @ ''Doteq$''),
     (0x2252, ''$'' @ BS @ ''fallingdotseq$''),
     (0x2253, ''$'' @ BS @ ''risingdotseq$''),
     (0x2254, '':=''),
     (0x2255, ''$'' @ BS @ ''eqcolon$''),
     (0x2256, ''$'' @ BS @ ''eqcirc$''),
     (0x2257, ''$'' @ BS @ ''circeq$''),
     (0x2259, ''$'' @ BS @ ''wedgeq$''),
     (0x225A, ''$'' @ BS @ ''veeeq$''),
     (0x225B, ''$'' @ BS @ ''stareq$''),
     (0x225C, ''$'' @ BS @ ''triangleq$''),
     (0x225F, ''$'' @ BS @ ''questeq$''),
     (0x2260, ''$'' @ BS @ ''ne$''),
     (0x2261, ''$'' @ BS @ ''equiv$''),
     (0x2262, ''$'' @ BS @ ''nequiv$''),
     (0x2264, ''$'' @ BS @ ''leq$''),
     (0x2265, ''$'' @ BS @ ''geq$''),
     (0x2266, ''$'' @ BS @ ''leqq$''),
     (0x2267, ''$'' @ BS @ ''geqq$''),
     (0x2268, ''$'' @ BS @ ''lneqq$''),
     (0x2269, ''$'' @ BS @ ''gneqq$''),
     (0x226A, ''$'' @ BS @ ''ll$''),
     (0x226B, ''$'' @ BS @ ''gg$''),
     (0x226C, ''$'' @ BS @ ''between$''),
     (0x226D, ''$'' @ BS @ ''nasymp$''),
     (0x226E, ''$'' @ BS @ ''nless$''),
     (0x226F, ''$'' @ BS @ ''ngtr$''),
     (0x2270, ''$'' @ BS @ ''nleq$''),
     (0x2271, ''$'' @ BS @ ''ngeq$''),
     (0x2272, ''$'' @ BS @ ''lesssim$''),
     (0x2273, ''$'' @ BS @ ''gtrsim$''),
     (0x2274, ''$'' @ BS @ ''nlesssim$''),
     (0x2275, ''$'' @ BS @ ''ngtrsim$''),
     (0x2276, ''$'' @ BS @ ''lessgtr$''),
     (0x2277, ''$'' @ BS @ ''gtrless$''),
     (0x2278, ''$'' @ BS @ ''nlessgtr$''),
     (0x2279, ''$'' @ BS @ ''ngtrless$''),
     (0x227A, ''$'' @ BS @ ''prec$''),
     (0x227B, ''$'' @ BS @ ''succ$''),
     (0x227C, ''$'' @ BS @ ''preccurlyeq$''),
     (0x227D, ''$'' @ BS @ ''succcurlyeq$''),
     (0x227E, ''$'' @ BS @ ''precsim$''),
     (0x227F, ''$'' @ BS @ ''succsim$''),
     (0x2280, ''$'' @ BS @ ''nprec$''),
     (0x2281, ''$'' @ BS @ ''nsucc$''),
     (0x2282, ''$'' @ BS @ ''subset$''),
     (0x2283, ''$'' @ BS @ ''supset$''),
     (0x2284, ''$'' @ BS @ ''nsubset$''),
     (0x2285, ''$'' @ BS @ ''nsupset$''),
     (0x2286, ''$'' @ BS @ ''subseteq$''),
     (0x2287, ''$'' @ BS @ ''supseteq$''),
     (0x2288, ''$'' @ BS @ ''nsubseteq$''),
     (0x2289, ''$'' @ BS @ ''nsupseteq$''),
     (0x228A, ''$'' @ BS @ ''subsetneq$''),
     (0x228B, ''$'' @ BS @ ''supsetneq$''),
     (0x228E, ''$'' @ BS @ ''uplus$''),
     (0x228F, ''$'' @ BS @ ''sqsubset$''),
     (0x2290, ''$'' @ BS @ ''sqsupset$''),
     (0x2291, ''$'' @ BS @ ''sqsubseteq$''),
     (0x2292, ''$'' @ BS @ ''sqsupseteq$''),
     (0x2293, ''$'' @ BS @ ''sqcap$''),
     (0x2294, ''$'' @ BS @ ''sqcup$''),
     (0x2295, ''$'' @ BS @ ''oplus$''),
     (0x2296, ''$'' @ BS @ ''ominus$''),
     (0x2297, ''$'' @ BS @ ''otimes$''),
     (0x2298, ''$'' @ BS @ ''oslash$''),
     (0x2299, ''$'' @ BS @ ''odot$''),
     (0x229A, ''$'' @ BS @ ''circledcirc$''),
     (0x229B, ''$'' @ BS @ ''circledast$''),
     (0x229D, ''$'' @ BS @ ''circleddash$''),
     (0x229E, ''$'' @ BS @ ''boxplus$''),
     (0x229F, ''$'' @ BS @ ''boxminus$''),
     (0x22A0, ''$'' @ BS @ ''boxtimes$''),
     (0x22A1, ''$'' @ BS @ ''boxdot$''),
     (0x22A2, ''$'' @ BS @ ''vdash$''),
     (0x22A3, ''$'' @ BS @ ''dashv$''),
     (0x22A4, ''$'' @ BS @ ''top$''),
     (0x22A5, ''$'' @ BS @ ''bot$''),
     (0x22A7, ''$'' @ BS @ ''models$''),
     (0x22A8, ''$'' @ BS @ ''vDash$''),
     (0x22A9, ''$'' @ BS @ ''Vdash$''),
     (0x22AA, ''$'' @ BS @ ''Vvdash$''),
     (0x22AB, ''$'' @ BS @ ''VDash$''),
     (0x22AC, ''$'' @ BS @ ''nvdash$''),
     (0x22AD, ''$'' @ BS @ ''nvDash$''),
     (0x22AE, ''$'' @ BS @ ''nVdash$''),
     (0x22AF, ''$'' @ BS @ ''nVDash$''),
     (0x22B2, ''$'' @ BS @ ''vartriangleleft$''),
     (0x22B3, ''$'' @ BS @ ''vartriangleright$''),
     (0x22B4, ''$'' @ BS @ ''trianglelefteq$''),
     (0x22B5, ''$'' @ BS @ ''trianglerighteq$''),
     (0x22B6, ''$'' @ BS @ ''origof$''),
     (0x22B7, ''$'' @ BS @ ''imageof$''),
     (0x22B8, ''$'' @ BS @ ''multimap$''),
     (0x22B9, ''$'' @ BS @ ''hermitmatrix$''),
     (0x22BA, ''$'' @ BS @ ''intercal$''),
     (0x22BB, ''$'' @ BS @ ''veebar$''),
     (0x22BE, ''$'' @ BS @ ''measuredrightangle$''),
     (0x22C0, ''$'' @ BS @ ''bigwedge$''),
     (0x22C1, ''$'' @ BS @ ''bigvee$''),
     (0x22C2, ''$'' @ BS @ ''bigcap$''),
     (0x22C3, ''$'' @ BS @ ''bigcup$''),
     (0x22C4, ''$'' @ BS @ ''smwhtdiamond$''),
     (0x22C5, ''$'' @ BS @ ''cdot$''),
     (0x22C6, ''$'' @ BS @ ''star$''),
     (0x22C7, ''$'' @ BS @ ''divideontimes$''),
     (0x22C8, ''$'' @ BS @ ''bowtie$''),
     (0x22C9, ''$'' @ BS @ ''ltimes$''),
     (0x22CA, ''$'' @ BS @ ''rtimes$''),
     (0x22CB, ''$'' @ BS @ ''leftthreetimes$''),
     (0x22CC, ''$'' @ BS @ ''rightthreetimes$''),
     (0x22CD, ''$'' @ BS @ ''backsimeq$''),
     (0x22CE, ''$'' @ BS @ ''curlyvee$''),
     (0x22CF, ''$'' @ BS @ ''curlywedge$''),
     (0x22D0, ''$'' @ BS @ ''Subset$''),
     (0x22D1, ''$'' @ BS @ ''Supset$''),
     (0x22D2, ''$'' @ BS @ ''Cap$''),
     (0x22D3, ''$'' @ BS @ ''Cup$''),
     (0x22D4, ''$'' @ BS @ ''pitchfork$''),
     (0x22D6, ''$'' @ BS @ ''lessdot$''),
     (0x22D7, ''$'' @ BS @ ''gtrdot$''),
     (0x22D8, ''$'' @ BS @ ''lll$''),
     (0x22D9, ''$'' @ BS @ ''ggg$''),
     (0x22DA, ''$'' @ BS @ ''lesseqgtr$''),
     (0x22DB, ''$'' @ BS @ ''gtreqless$''),
     (0x22DE, ''$'' @ BS @ ''curlyeqprec$''),
     (0x22DF, ''$'' @ BS @ ''curlyeqsucc$''),
     (0x22E2, ''$'' @ BS @ ''nsqsubseteq$''),
     (0x22E3, ''$'' @ BS @ ''nsqsupseteq$''),
     (0x22E5, ''$'' @ BS @ ''sqsupsetneq$''),
     (0x22E6, ''$'' @ BS @ ''lnsim$''),
     (0x22E7, ''$'' @ BS @ ''gnsim$''),
     (0x22E8, ''$'' @ BS @ ''precnsim$''),
     (0x22E9, ''$'' @ BS @ ''succnsim$''),
     (0x22EA, ''$'' @ BS @ ''nvartriangleleft$''),
     (0x22EB, ''$'' @ BS @ ''nvartriangleright$''),
     (0x22EC, ''$'' @ BS @ ''ntrianglelefteq$''),
     (0x22ED, ''$'' @ BS @ ''ntrianglerighteq$''),
     (0x22EE, ''$'' @ BS @ ''vdots$''),
     (0x22EF, ''$'' @ BS @ ''unicodecdots$''),
     (0x22F0, ''$'' @ BS @ ''adots$''),
     (0x22F1, ''$'' @ BS @ ''ddots$'')
   ]"

text \<open>Lines 1224 to 1240.\<close>

definition uni2tex_23 :: "(nat \<times> string) list" where
  "uni2tex_23 = [
     (0x2305, ''{'' @ BS @ ''barwedge}''),
     (0x2306, ''$'' @ BS @ ''vardoublebarwedge$''),
     (0x2308, ''$'' @ BS @ ''lceil$''),
     (0x2309, ''$'' @ BS @ ''rceil$''),
     (0x230A, ''$'' @ BS @ ''lfloor$''),
     (0x230B, ''$'' @ BS @ ''rfloor$''),
     (0x2315, ''{'' @ BS @ ''recorder}''),
     (0x231C, ''$'' @ BS @ ''ulcorner$''),
     (0x231D, ''$'' @ BS @ ''urcorner$''),
     (0x231E, ''$'' @ BS @ ''llcorner$''),
     (0x231F, ''$'' @ BS @ ''lrcorner$''),
     (0x2322, ''$'' @ BS @ ''frown$''),
     (0x2323, ''$'' @ BS @ ''smile$''),
     (0x233D, ''$'' @ BS @ ''obar$''),
     (0x23A3, ''$'' @ BS @ ''lbracklend$''),
     (0x23B0, ''$'' @ BS @ ''lmoustache$''),
     (0x23B1, ''$'' @ BS @ ''rmoustache$'')
   ]"

text \<open>Lines 1241 to 1252.\<close>

definition uni2tex_24 :: "(nat \<times> string) list" where
  "uni2tex_24 = [
     (0x2423, ''{'' @ BS @ ''textvisiblespace}''),
     (0x2460, ''{'' @ BS @ ''ding{172}}''),
     (0x2461, ''{'' @ BS @ ''ding{173}}''),
     (0x2462, ''{'' @ BS @ ''ding{174}}''),
     (0x2463, ''{'' @ BS @ ''ding{175}}''),
     (0x2464, ''{'' @ BS @ ''ding{176}}''),
     (0x2465, ''{'' @ BS @ ''ding{177}}''),
     (0x2466, ''{'' @ BS @ ''ding{178}}''),
     (0x2467, ''{'' @ BS @ ''ding{179}}''),
     (0x2468, ''{'' @ BS @ ''ding{180}}''),
     (0x2469, ''{'' @ BS @ ''ding{181}}''),
     (0x24C8, ''{'' @ BS @ ''circledS}'')
   ]"

text \<open>Lines 1253 to 1286.\<close>

definition uni2tex_25 :: "(nat \<times> string) list" where
  "uni2tex_25 = [
     (0x2506, ''$'' @ BS @ ''bdtriplevdash$''),
     (0x2519, ''{'' @ BS @ ''Elzsqfnw}''),
     (0x2571, ''{'' @ BS @ ''diagup}''),
     (0x25A0, ''{'' @ BS @ ''ding{110}}''),
     (0x25A1, ''$'' @ BS @ ''mdlgwhtsquare$''),
     (0x25AA, ''$'' @ BS @ ''smblksquare$''),
     (0x25AD, ''$'' @ BS @ ''hrectangle$''),
     (0x25AF, ''$'' @ BS @ ''vrectangle$''),
     (0x25B1, ''$'' @ BS @ ''parallelogram$''),
     (0x25B2, ''{'' @ BS @ ''ding{115}}''),
     (0x25B3, ''$'' @ BS @ ''bigtriangleup$''),
     (0x25B4, ''$'' @ BS @ ''blacktriangle$''),
     (0x25B5, ''$'' @ BS @ ''vartriangle$''),
     (0x25B8, ''$'' @ BS @ ''smallblacktriangleright$''),
     (0x25B9, ''$'' @ BS @ ''smalltriangleright$''),
     (0x25BC, ''{'' @ BS @ ''ding{116}}''),
     (0x25BD, ''$'' @ BS @ ''bigtriangledown$''),
     (0x25BE, ''$'' @ BS @ ''blacktriangledown$''),
     (0x25BF, ''$'' @ BS @ ''triangledown$''),
     (0x25C2, ''$'' @ BS @ ''smallblacktriangleleft$''),
     (0x25C3, ''$'' @ BS @ ''smalltriangleleft$''),
     (0x25C6, ''{'' @ BS @ ''ding{117}}''),
     (0x25CA, ''$'' @ BS @ ''mdlgwhtlozenge$''),
     (0x25CB, ''$'' @ BS @ ''mdlgwhtcircle$''),
     (0x25CF, ''{'' @ BS @ ''ding{108}}''),
     (0x25D0, ''$'' @ BS @ ''circlelefthalfblack$''),
     (0x25D1, ''$'' @ BS @ ''circlerighthalfblack$''),
     (0x25D2, ''$'' @ BS @ ''circlebottomhalfblack$''),
     (0x25D7, ''{'' @ BS @ ''ding{119}}''),
     (0x25D8, ''$'' @ BS @ ''inversebullet$''),
     (0x25E7, ''$'' @ BS @ ''squareleftblack$''),
     (0x25E8, ''$'' @ BS @ ''squarerightblack$''),
     (0x25EA, ''$'' @ BS @ ''squarelrblack$''),
     (0x25EF, ''$'' @ BS @ ''lgwhtcircle$'')
   ]"

text \<open>Lines 1287 to 1322.\<close>

definition uni2tex_26 :: "(nat \<times> string) list" where
  "uni2tex_26 = [
     (0x2605, ''{'' @ BS @ ''ding{72}}''),
     (0x2606, ''{'' @ BS @ ''ding{73}}''),
     (0x260E, ''{'' @ BS @ ''ding{37}}''),
     (0x261B, ''{'' @ BS @ ''ding{42}}''),
     (0x261E, ''{'' @ BS @ ''ding{43}}''),
     (0x263E, ''{'' @ BS @ ''rightmoon}''),
     (0x263F, ''{'' @ BS @ ''mercury}''),
     (0x2640, ''{'' @ BS @ ''venus}''),
     (0x2642, ''{'' @ BS @ ''male}''),
     (0x2643, ''{'' @ BS @ ''jupiter}''),
     (0x2644, ''{'' @ BS @ ''saturn}''),
     (0x2645, ''{'' @ BS @ ''uranus}''),
     (0x2646, ''{'' @ BS @ ''neptune}''),
     (0x2647, ''{'' @ BS @ ''pluto}''),
     (0x2648, ''{'' @ BS @ ''aries}''),
     (0x2649, ''{'' @ BS @ ''taurus}''),
     (0x264A, ''{'' @ BS @ ''gemini}''),
     (0x264B, ''{'' @ BS @ ''cancer}''),
     (0x264C, ''{'' @ BS @ ''leo}''),
     (0x264D, ''{'' @ BS @ ''virgo}''),
     (0x264E, ''{'' @ BS @ ''libra}''),
     (0x264F, ''{'' @ BS @ ''scorpio}''),
     (0x2650, ''{'' @ BS @ ''sagittarius}''),
     (0x2651, ''{'' @ BS @ ''capricornus}''),
     (0x2652, ''{'' @ BS @ ''aquarius}''),
     (0x2653, ''{'' @ BS @ ''pisces}''),
     (0x2660, ''{'' @ BS @ ''ding{171}}''),
     (0x2662, ''$'' @ BS @ ''diamondsuit$''),
     (0x2663, ''{'' @ BS @ ''ding{168}}''),
     (0x2665, ''{'' @ BS @ ''ding{170}}''),
     (0x2666, ''{'' @ BS @ ''ding{169}}''),
     (0x2669, ''{'' @ BS @ ''quarternote}''),
     (0x266A, ''{'' @ BS @ ''eighthnote}''),
     (0x266D, ''$'' @ BS @ ''flat$''),
     (0x266E, ''$'' @ BS @ ''natural$''),
     (0x266F, ''$'' @ BS @ ''sharp$'')
   ]"

text \<open>Lines 1323 to 1492.\<close>

definition uni2tex_27 :: "(nat \<times> string) list" where
  "uni2tex_27 = [
     (0x2701, ''{'' @ BS @ ''ding{33}}''),
     (0x2702, ''{'' @ BS @ ''ding{34}}''),
     (0x2703, ''{'' @ BS @ ''ding{35}}''),
     (0x2704, ''{'' @ BS @ ''ding{36}}''),
     (0x2706, ''{'' @ BS @ ''ding{38}}''),
     (0x2707, ''{'' @ BS @ ''ding{39}}''),
     (0x2708, ''{'' @ BS @ ''ding{40}}''),
     (0x2709, ''{'' @ BS @ ''ding{41}}''),
     (0x270C, ''{'' @ BS @ ''ding{44}}''),
     (0x270D, ''{'' @ BS @ ''ding{45}}''),
     (0x270E, ''{'' @ BS @ ''ding{46}}''),
     (0x270F, ''{'' @ BS @ ''ding{47}}''),
     (0x2710, ''{'' @ BS @ ''ding{48}}''),
     (0x2711, ''{'' @ BS @ ''ding{49}}''),
     (0x2712, ''{'' @ BS @ ''ding{50}}''),
     (0x2713, ''{'' @ BS @ ''ding{51}}''),
     (0x2714, ''{'' @ BS @ ''ding{52}}''),
     (0x2715, ''{'' @ BS @ ''ding{53}}''),
     (0x2716, ''{'' @ BS @ ''ding{54}}''),
     (0x2717, ''{'' @ BS @ ''ding{55}}''),
     (0x2718, ''{'' @ BS @ ''ding{56}}''),
     (0x2719, ''{'' @ BS @ ''ding{57}}''),
     (0x271A, ''{'' @ BS @ ''ding{58}}''),
     (0x271B, ''{'' @ BS @ ''ding{59}}''),
     (0x271C, ''{'' @ BS @ ''ding{60}}''),
     (0x271D, ''{'' @ BS @ ''ding{61}}''),
     (0x271E, ''{'' @ BS @ ''ding{62}}''),
     (0x271F, ''{'' @ BS @ ''ding{63}}''),
     (0x2720, ''{'' @ BS @ ''ding{64}}''),
     (0x2721, ''{'' @ BS @ ''ding{65}}''),
     (0x2722, ''{'' @ BS @ ''ding{66}}''),
     (0x2723, ''{'' @ BS @ ''ding{67}}''),
     (0x2724, ''{'' @ BS @ ''ding{68}}''),
     (0x2725, ''{'' @ BS @ ''ding{69}}''),
     (0x2726, ''{'' @ BS @ ''ding{70}}''),
     (0x2727, ''{'' @ BS @ ''ding{71}}''),
     (0x2729, ''{'' @ BS @ ''ding{73}}''),
     (0x272A, ''{'' @ BS @ ''ding{74}}''),
     (0x272B, ''{'' @ BS @ ''ding{75}}''),
     (0x272C, ''{'' @ BS @ ''ding{76}}''),
     (0x272D, ''{'' @ BS @ ''ding{77}}''),
     (0x272E, ''{'' @ BS @ ''ding{78}}''),
     (0x272F, ''{'' @ BS @ ''ding{79}}''),
     (0x2730, ''{'' @ BS @ ''ding{80}}''),
     (0x2731, ''{'' @ BS @ ''ding{81}}''),
     (0x2732, ''{'' @ BS @ ''ding{82}}''),
     (0x2733, ''{'' @ BS @ ''ding{83}}''),
     (0x2734, ''{'' @ BS @ ''ding{84}}''),
     (0x2735, ''{'' @ BS @ ''ding{85}}''),
     (0x2736, ''{'' @ BS @ ''ding{86}}''),
     (0x2737, ''{'' @ BS @ ''ding{87}}''),
     (0x2738, ''{'' @ BS @ ''ding{88}}''),
     (0x2739, ''{'' @ BS @ ''ding{89}}''),
     (0x273A, ''{'' @ BS @ ''ding{90}}''),
     (0x273B, ''{'' @ BS @ ''ding{91}}''),
     (0x273C, ''{'' @ BS @ ''ding{92}}''),
     (0x273D, ''{'' @ BS @ ''ding{93}}''),
     (0x273E, ''{'' @ BS @ ''ding{94}}''),
     (0x273F, ''{'' @ BS @ ''ding{95}}''),
     (0x2740, ''{'' @ BS @ ''ding{96}}''),
     (0x2741, ''{'' @ BS @ ''ding{97}}''),
     (0x2742, ''{'' @ BS @ ''ding{98}}''),
     (0x2743, ''{'' @ BS @ ''ding{99}}''),
     (0x2744, ''{'' @ BS @ ''ding{100}}''),
     (0x2745, ''{'' @ BS @ ''ding{101}}''),
     (0x2746, ''{'' @ BS @ ''ding{102}}''),
     (0x2747, ''{'' @ BS @ ''ding{103}}''),
     (0x2748, ''{'' @ BS @ ''ding{104}}''),
     (0x2749, ''{'' @ BS @ ''ding{105}}''),
     (0x274A, ''{'' @ BS @ ''ding{106}}''),
     (0x274B, ''{'' @ BS @ ''ding{107}}''),
     (0x274D, ''{'' @ BS @ ''ding{109}}''),
     (0x274F, ''{'' @ BS @ ''ding{111}}''),
     (0x2750, ''{'' @ BS @ ''ding{112}}''),
     (0x2751, ''{'' @ BS @ ''ding{113}}''),
     (0x2752, ''{'' @ BS @ ''ding{114}}''),
     (0x2756, ''{'' @ BS @ ''ding{118}}''),
     (0x2758, ''{'' @ BS @ ''ding{120}}''),
     (0x2759, ''{'' @ BS @ ''ding{121}}''),
     (0x275A, ''{'' @ BS @ ''ding{122}}''),
     (0x275B, ''{'' @ BS @ ''ding{123}}''),
     (0x275C, ''{'' @ BS @ ''ding{124}}''),
     (0x275D, ''{'' @ BS @ ''ding{125}}''),
     (0x275E, ''{'' @ BS @ ''ding{126}}''),
     (0x2761, ''{'' @ BS @ ''ding{161}}''),
     (0x2762, ''{'' @ BS @ ''ding{162}}''),
     (0x2763, ''{'' @ BS @ ''ding{163}}''),
     (0x2764, ''{'' @ BS @ ''ding{164}}''),
     (0x2765, ''{'' @ BS @ ''ding{165}}''),
     (0x2766, ''{'' @ BS @ ''ding{166}}''),
     (0x2767, ''{'' @ BS @ ''ding{167}}''),
     (0x2776, ''{'' @ BS @ ''ding{182}}''),
     (0x2777, ''{'' @ BS @ ''ding{183}}''),
     (0x2778, ''{'' @ BS @ ''ding{184}}''),
     (0x2779, ''{'' @ BS @ ''ding{185}}''),
     (0x277A, ''{'' @ BS @ ''ding{186}}''),
     (0x277B, ''{'' @ BS @ ''ding{187}}''),
     (0x277C, ''{'' @ BS @ ''ding{188}}''),
     (0x277D, ''{'' @ BS @ ''ding{189}}''),
     (0x277E, ''{'' @ BS @ ''ding{190}}''),
     (0x277F, ''{'' @ BS @ ''ding{191}}''),
     (0x2780, ''{'' @ BS @ ''ding{192}}''),
     (0x2781, ''{'' @ BS @ ''ding{193}}''),
     (0x2782, ''{'' @ BS @ ''ding{194}}''),
     (0x2783, ''{'' @ BS @ ''ding{195}}''),
     (0x2784, ''{'' @ BS @ ''ding{196}}''),
     (0x2785, ''{'' @ BS @ ''ding{197}}''),
     (0x2786, ''{'' @ BS @ ''ding{198}}''),
     (0x2787, ''{'' @ BS @ ''ding{199}}''),
     (0x2788, ''{'' @ BS @ ''ding{200}}''),
     (0x2789, ''{'' @ BS @ ''ding{201}}''),
     (0x278A, ''{'' @ BS @ ''ding{202}}''),
     (0x278B, ''{'' @ BS @ ''ding{203}}''),
     (0x278C, ''{'' @ BS @ ''ding{204}}''),
     (0x278D, ''{'' @ BS @ ''ding{205}}''),
     (0x278E, ''{'' @ BS @ ''ding{206}}''),
     (0x278F, ''{'' @ BS @ ''ding{207}}''),
     (0x2790, ''{'' @ BS @ ''ding{208}}''),
     (0x2791, ''{'' @ BS @ ''ding{209}}''),
     (0x2792, ''{'' @ BS @ ''ding{210}}''),
     (0x2793, ''{'' @ BS @ ''ding{211}}''),
     (0x2794, ''{'' @ BS @ ''ding{212}}''),
     (0x2798, ''{'' @ BS @ ''ding{216}}''),
     (0x2799, ''{'' @ BS @ ''ding{217}}''),
     (0x279A, ''{'' @ BS @ ''ding{218}}''),
     (0x279B, ''{'' @ BS @ ''ding{219}}''),
     (0x279C, ''{'' @ BS @ ''ding{220}}''),
     (0x279D, ''{'' @ BS @ ''ding{221}}''),
     (0x279E, ''{'' @ BS @ ''ding{222}}''),
     (0x279F, ''{'' @ BS @ ''ding{223}}''),
     (0x27A0, ''{'' @ BS @ ''ding{224}}''),
     (0x27A1, ''{'' @ BS @ ''ding{225}}''),
     (0x27A2, ''{'' @ BS @ ''ding{226}}''),
     (0x27A3, ''{'' @ BS @ ''ding{227}}''),
     (0x27A4, ''{'' @ BS @ ''ding{228}}''),
     (0x27A5, ''{'' @ BS @ ''ding{229}}''),
     (0x27A6, ''{'' @ BS @ ''ding{230}}''),
     (0x27A7, ''{'' @ BS @ ''ding{231}}''),
     (0x27A8, ''{'' @ BS @ ''ding{232}}''),
     (0x27A9, ''{'' @ BS @ ''ding{233}}''),
     (0x27AA, ''{'' @ BS @ ''ding{234}}''),
     (0x27AB, ''{'' @ BS @ ''ding{235}}''),
     (0x27AC, ''{'' @ BS @ ''ding{236}}''),
     (0x27AD, ''{'' @ BS @ ''ding{237}}''),
     (0x27AE, ''{'' @ BS @ ''ding{238}}''),
     (0x27AF, ''{'' @ BS @ ''ding{239}}''),
     (0x27B1, ''{'' @ BS @ ''ding{241}}''),
     (0x27B2, ''{'' @ BS @ ''ding{242}}''),
     (0x27B3, ''{'' @ BS @ ''ding{243}}''),
     (0x27B4, ''{'' @ BS @ ''ding{244}}''),
     (0x27B5, ''{'' @ BS @ ''ding{245}}''),
     (0x27B6, ''{'' @ BS @ ''ding{246}}''),
     (0x27B7, ''{'' @ BS @ ''ding{247}}''),
     (0x27B8, ''{'' @ BS @ ''ding{248}}''),
     (0x27B9, ''{'' @ BS @ ''ding{249}}''),
     (0x27BA, ''{'' @ BS @ ''ding{250}}''),
     (0x27BB, ''{'' @ BS @ ''ding{251}}''),
     (0x27BC, ''{'' @ BS @ ''ding{252}}''),
     (0x27BD, ''{'' @ BS @ ''ding{253}}''),
     (0x27BE, ''{'' @ BS @ ''ding{254}}''),
     (0x27E8, ''{'' @ BS @ ''langle}''),
     (0x27E9, ''{'' @ BS @ ''rangle}''),
     (0x27F5, ''$'' @ BS @ ''longleftarrow$''),
     (0x27F6, ''$'' @ BS @ ''longrightarrow$''),
     (0x27F7, ''$'' @ BS @ ''longleftrightarrow$''),
     (0x27F8, ''$'' @ BS @ ''Longleftarrow$''),
     (0x27F9, ''$'' @ BS @ ''Longrightarrow$''),
     (0x27FA, ''$'' @ BS @ ''Longleftrightarrow$''),
     (0x27FC, ''$'' @ BS @ ''longmapsto$''),
     (0x27FF, ''$'' @ BS @ ''longrightsquigarrow$'')
   ]"

text \<open>Lines 1493 to 1553.\<close>

definition uni2tex_29 :: "(nat \<times> string) list" where
  "uni2tex_29 = [
     (0x2905, ''$'' @ BS @ ''twoheadmapsto$''),
     (0x2912, ''$'' @ BS @ ''baruparrow$''),
     (0x2913, ''$'' @ BS @ ''downarrowbar$''),
     (0x2923, ''$'' @ BS @ ''hknwarrow$''),
     (0x2924, ''$'' @ BS @ ''hknearrow$''),
     (0x2925, ''$'' @ BS @ ''hksearow$''),
     (0x2926, ''$'' @ BS @ ''hkswarow$''),
     (0x2927, ''$'' @ BS @ ''tona$''),
     (0x2928, ''$'' @ BS @ ''toea$''),
     (0x2929, ''$'' @ BS @ ''tosa$''),
     (0x292A, ''$'' @ BS @ ''towa$''),
     (0x2933, ''$'' @ BS @ ''rightcurvedarrow$''),
     (0x2936, ''$'' @ BS @ ''leftdowncurvedarrow$''),
     (0x2937, ''$'' @ BS @ ''rightdowncurvedarrow$''),
     (0x2940, ''$'' @ BS @ ''acwcirclearrow$''),
     (0x2941, ''$'' @ BS @ ''cwcirclearrow$''),
     (0x2942, ''$'' @ BS @ ''rightarrowshortleftarrow$''),
     (0x2944, ''$'' @ BS @ ''shortrightarrowleftarrow$''),
     (0x2947, ''$'' @ BS @ ''rightarrowx$''),
     (0x294E, ''$'' @ BS @ ''leftrightharpoonupup$''),
     (0x294F, ''$'' @ BS @ ''updownharpoonrightright$''),
     (0x2950, ''$'' @ BS @ ''leftrightharpoondowndown$''),
     (0x2951, ''$'' @ BS @ ''updownharpoonleftleft$''),
     (0x2952, ''$'' @ BS @ ''barleftharpoonup$''),
     (0x2953, ''$'' @ BS @ ''rightharpoonupbar$''),
     (0x2954, ''$'' @ BS @ ''barupharpoonright$''),
     (0x2955, ''$'' @ BS @ ''downharpoonrightbar$''),
     (0x2956, ''$'' @ BS @ ''barleftharpoondown$''),
     (0x2957, ''$'' @ BS @ ''rightharpoondownbar$''),
     (0x2958, ''$'' @ BS @ ''barupharpoonleft$''),
     (0x2959, ''$'' @ BS @ ''downharpoonleftbar$''),
     (0x295A, ''$'' @ BS @ ''leftharpoonupbar$''),
     (0x295B, ''$'' @ BS @ ''barrightharpoonup$''),
     (0x295C, ''$'' @ BS @ ''upharpoonrightbar$''),
     (0x295D, ''$'' @ BS @ ''bardownharpoonright$''),
     (0x295E, ''$'' @ BS @ ''leftharpoondownbar$''),
     (0x295F, ''$'' @ BS @ ''barrightharpoondown$''),
     (0x2960, ''$'' @ BS @ ''upharpoonleftbar$''),
     (0x2961, ''$'' @ BS @ ''bardownharpoonleft$''),
     (0x296E, ''$'' @ BS @ ''updownharpoonsleftright$''),
     (0x296F, ''$'' @ BS @ ''downupharpoonsleftright$''),
     (0x2970, ''$'' @ BS @ ''rightimply$''),
     (0x297C, ''$'' @ BS @ ''leftfishtail$''),
     (0x297D, ''$'' @ BS @ ''rightfishtail$''),
     (0x2980, ''$'' @ BS @ ''Vvert$''),
     (0x2985, ''$'' @ BS @ ''lParen$''),
     (0x2986, ''$'' @ BS @ ''rParen$''),
     (0x2993, ''$'' @ BS @ ''lparenless$''),
     (0x2994, ''$'' @ BS @ ''rparengtr$''),
     (0x2999, ''$'' @ BS @ ''fourvdots$''),
     (0x299C, ''$'' @ BS @ ''rightanglesqr$''),
     (0x29A0, ''$'' @ BS @ ''gtlpar$''),
     (0x29B5, ''$'' @ BS @ ''circlehbar$''),
     (0x29B6, ''$'' @ BS @ ''circledvert$''),
     (0x29CA, ''$'' @ BS @ ''triangleodot$''),
     (0x29CB, ''$'' @ BS @ ''triangleubar$''),
     (0x29CF, ''$'' @ BS @ ''ltrivb$''),
     (0x29D0, ''$'' @ BS @ ''vbrtri$''),
     (0x29DC, ''$'' @ BS @ ''iinfin$''),
     (0x29EB, ''$'' @ BS @ ''mdlgblklozenge$''),
     (0x29F4, ''$'' @ BS @ ''ruledelayed$'')
   ]"

text \<open>Lines 1554 to 1611.\<close>

definition uni2tex_2A :: "(nat \<times> string) list" where
  "uni2tex_2A = [
     (0x2A04, ''$'' @ BS @ ''biguplus$''),
     (0x2A05, ''$'' @ BS @ ''bigsqcap$''),
     (0x2A06, ''$'' @ BS @ ''bigsqcup$''),
     (0x2A07, ''$'' @ BS @ ''conjquant$''),
     (0x2A08, ''$'' @ BS @ ''disjquant$''),
     (0x2A0D, ''$'' @ BS @ ''intbar$''),
     (0x2A0F, ''$'' @ BS @ ''fint$''),
     (0x2A10, ''$'' @ BS @ ''cirfnint$''),
     (0x2A16, ''$'' @ BS @ ''sqint$''),
     (0x2A25, ''$'' @ BS @ ''plusdot$''),
     (0x2A2A, ''$'' @ BS @ ''minusdot$''),
     (0x2A2D, ''$'' @ BS @ ''opluslhrim$''),
     (0x2A2E, ''$'' @ BS @ ''oplusrhrim$''),
     (0x2A2F, ''$'' @ BS @ ''vectimes$''),
     (0x2A34, ''$'' @ BS @ ''otimeslhrim$''),
     (0x2A35, ''$'' @ BS @ ''otimesrhrim$''),
     (0x2A3C, ''$'' @ BS @ ''intprod$''),
     (0x2A3F, ''$'' @ BS @ ''amalg$''),
     (0x2A53, ''$'' @ BS @ ''Wedge$''),
     (0x2A54, ''$'' @ BS @ ''Vee$''),
     (0x2A55, ''$'' @ BS @ ''wedgeonwedge$''),
     (0x2A56, ''$'' @ BS @ ''veeonvee$''),
     (0x2A5E, ''$'' @ BS @ ''doublebarwedge$''),
     (0x2A5F, ''$'' @ BS @ ''wedgebar$''),
     (0x2A63, ''$'' @ BS @ ''veedoublebar$''),
     (0x2A6E, ''$'' @ BS @ ''asteq$''),
     (0x2A75, ''$'' @ BS @ ''eqeq$''),
     (0x2A7D, ''$'' @ BS @ ''leqslant$''),
     (0x2A7E, ''$'' @ BS @ ''geqslant$''),
     (0x2A85, ''$'' @ BS @ ''lessapprox$''),
     (0x2A86, ''$'' @ BS @ ''gtrapprox$''),
     (0x2A87, ''$'' @ BS @ ''lneq$''),
     (0x2A88, ''$'' @ BS @ ''gneq$''),
     (0x2A89, ''$'' @ BS @ ''lnapprox$''),
     (0x2A8A, ''$'' @ BS @ ''gnapprox$''),
     (0x2A8B, ''$'' @ BS @ ''lesseqqgtr$''),
     (0x2A8C, ''$'' @ BS @ ''gtreqqless$''),
     (0x2A95, ''$'' @ BS @ ''eqslantless$''),
     (0x2A96, ''$'' @ BS @ ''eqslantgtr$''),
     (0x2A9D, ''$'' @ BS @ ''simless$''),
     (0x2A9E, ''$'' @ BS @ ''simgtr$''),
     (0x2AA1, ''$'' @ BS @ ''Lt$''),
     (0x2AA2, ''$'' @ BS @ ''Gt$''),
     (0x2AAF, ''$'' @ BS @ ''preceq$''),
     (0x2AB0, ''$'' @ BS @ ''succeq$''),
     (0x2AB5, ''$'' @ BS @ ''precneqq$''),
     (0x2AB6, ''$'' @ BS @ ''succneqq$''),
     (0x2AB7, ''$'' @ BS @ ''precapprox$''),
     (0x2AB8, ''$'' @ BS @ ''succapprox$''),
     (0x2AB9, ''$'' @ BS @ ''precnapprox$''),
     (0x2ABA, ''$'' @ BS @ ''succnapprox$''),
     (0x2AC5, ''$'' @ BS @ ''subseteqq$''),
     (0x2AC6, ''$'' @ BS @ ''supseteqq$''),
     (0x2ACB, ''$'' @ BS @ ''subsetneqq$''),
     (0x2ACC, ''$'' @ BS @ ''supsetneqq$''),
     (0x2AEB, ''$'' @ BS @ ''Vbar$''),
     (0x2AF6, ''$'' @ BS @ ''threedotcolon$''),
     (0x2AFD, ''$'' @ BS @ ''sslash$'')
   ]"

text \<open>Lines 1612 to 1617.\<close>

definition uni2tex_30 :: "(nat \<times> string) list" where
  "uni2tex_30 = [
     (0x300A, ''{'' @ BS @ ''ElsevierGlyph{300A}}''),
     (0x300B, ''{'' @ BS @ ''ElsevierGlyph{300B}}''),
     (0x3018, ''$'' @ BS @ ''Lbrbrak$''),
     (0x3019, ''$'' @ BS @ ''Rbrbrak$''),
     (0x301A, ''{'' @ BS @ ''openbracketleft}''),
     (0x301B, ''{'' @ BS @ ''openbracketright}'')
   ]"

text \<open>Lines 1618 to 1622.\<close>

definition uni2tex_FB :: "(nat \<times> string) list" where
  "uni2tex_FB = [
     (0xFB00, ''ff''),
     (0xFB01, ''fi''),
     (0xFB02, ''fl''),
     (0xFB03, ''ffi''),
     (0xFB04, ''ffl'')
   ]"

text \<open>Lines 1623 to 1866.\<close>

definition uni2tex_D4 :: "(nat \<times> string) list" where
  "uni2tex_D4 = [
     (0xD400, ''$'' @ BS @ ''mbfA$''),
     (0xD401, ''$'' @ BS @ ''mbfB$''),
     (0xD402, ''$'' @ BS @ ''mbfC$''),
     (0xD403, ''$'' @ BS @ ''mbfD$''),
     (0xD404, ''$'' @ BS @ ''mbfE$''),
     (0xD405, ''$'' @ BS @ ''mbfF$''),
     (0xD406, ''$'' @ BS @ ''mbfG$''),
     (0xD407, ''$'' @ BS @ ''mbfH$''),
     (0xD408, ''$'' @ BS @ ''mbfI$''),
     (0xD409, ''$'' @ BS @ ''mbfJ$''),
     (0xD40A, ''$'' @ BS @ ''mbfK$''),
     (0xD40B, ''$'' @ BS @ ''mbfL$''),
     (0xD40C, ''$'' @ BS @ ''mbfM$''),
     (0xD40D, ''$'' @ BS @ ''mbfN$''),
     (0xD40E, ''$'' @ BS @ ''mbfO$''),
     (0xD40F, ''$'' @ BS @ ''mbfP$''),
     (0xD410, ''$'' @ BS @ ''mbfQ$''),
     (0xD411, ''$'' @ BS @ ''mbfR$''),
     (0xD412, ''$'' @ BS @ ''mbfS$''),
     (0xD413, ''$'' @ BS @ ''mbfT$''),
     (0xD414, ''$'' @ BS @ ''mbfU$''),
     (0xD415, ''$'' @ BS @ ''mbfV$''),
     (0xD416, ''$'' @ BS @ ''mbfW$''),
     (0xD417, ''$'' @ BS @ ''mbfX$''),
     (0xD418, ''$'' @ BS @ ''mbfY$''),
     (0xD419, ''$'' @ BS @ ''mbfZ$''),
     (0xD41A, ''$'' @ BS @ ''mbfa$''),
     (0xD41B, ''$'' @ BS @ ''mbfb$''),
     (0xD41C, ''$'' @ BS @ ''mbfc$''),
     (0xD41D, ''$'' @ BS @ ''mbfd$''),
     (0xD41E, ''$'' @ BS @ ''mbfe$''),
     (0xD41F, ''$'' @ BS @ ''mbff$''),
     (0xD420, ''$'' @ BS @ ''mbfg$''),
     (0xD421, ''$'' @ BS @ ''mbfh$''),
     (0xD422, ''$'' @ BS @ ''mbfi$''),
     (0xD423, ''$'' @ BS @ ''mbfj$''),
     (0xD424, ''$'' @ BS @ ''mbfk$''),
     (0xD425, ''$'' @ BS @ ''mbfl$''),
     (0xD426, ''$'' @ BS @ ''mbfm$''),
     (0xD427, ''$'' @ BS @ ''mbfn$''),
     (0xD428, ''$'' @ BS @ ''mbfo$''),
     (0xD429, ''$'' @ BS @ ''mbfp$''),
     (0xD42A, ''$'' @ BS @ ''mbfq$''),
     (0xD42B, ''$'' @ BS @ ''mbfr$''),
     (0xD42C, ''$'' @ BS @ ''mbfs$''),
     (0xD42D, ''$'' @ BS @ ''mbft$''),
     (0xD42E, ''$'' @ BS @ ''mbfu$''),
     (0xD42F, ''$'' @ BS @ ''mbfv$''),
     (0xD430, ''$'' @ BS @ ''mbfw$''),
     (0xD431, ''$'' @ BS @ ''mbfx$''),
     (0xD432, ''$'' @ BS @ ''mbfy$''),
     (0xD433, ''$'' @ BS @ ''mbfz$''),
     (0xD434, ''$'' @ BS @ ''mitA$''),
     (0xD435, ''$'' @ BS @ ''mitB$''),
     (0xD436, ''$'' @ BS @ ''mitC$''),
     (0xD437, ''$'' @ BS @ ''mitD$''),
     (0xD438, ''$'' @ BS @ ''mitE$''),
     (0xD439, ''$'' @ BS @ ''mitF$''),
     (0xD43A, ''$'' @ BS @ ''mitG$''),
     (0xD43B, ''$'' @ BS @ ''mitH$''),
     (0xD43C, ''$'' @ BS @ ''mitI$''),
     (0xD43D, ''$'' @ BS @ ''mitJ$''),
     (0xD43E, ''$'' @ BS @ ''mitK$''),
     (0xD43F, ''$'' @ BS @ ''mitL$''),
     (0xD440, ''$'' @ BS @ ''mitM$''),
     (0xD441, ''$'' @ BS @ ''mitN$''),
     (0xD442, ''$'' @ BS @ ''mitO$''),
     (0xD443, ''$'' @ BS @ ''mitP$''),
     (0xD444, ''$'' @ BS @ ''mitQ$''),
     (0xD445, ''$'' @ BS @ ''mitR$''),
     (0xD446, ''$'' @ BS @ ''mitS$''),
     (0xD447, ''$'' @ BS @ ''mitT$''),
     (0xD448, ''$'' @ BS @ ''mitU$''),
     (0xD449, ''$'' @ BS @ ''mitV$''),
     (0xD44A, ''$'' @ BS @ ''mitW$''),
     (0xD44B, ''$'' @ BS @ ''mitX$''),
     (0xD44C, ''$'' @ BS @ ''mitY$''),
     (0xD44D, ''$'' @ BS @ ''mitZ$''),
     (0xD44E, ''$'' @ BS @ ''mita$''),
     (0xD44F, ''$'' @ BS @ ''mitb$''),
     (0xD450, ''$'' @ BS @ ''mitc$''),
     (0xD451, ''$'' @ BS @ ''mitd$''),
     (0xD452, ''$'' @ BS @ ''mite$''),
     (0xD453, ''$'' @ BS @ ''mitf$''),
     (0xD454, ''$'' @ BS @ ''mitg$''),
     (0xD456, ''$'' @ BS @ ''miti$''),
     (0xD457, ''$'' @ BS @ ''mitj$''),
     (0xD458, ''$'' @ BS @ ''mitk$''),
     (0xD459, ''$'' @ BS @ ''mitl$''),
     (0xD45A, ''$'' @ BS @ ''mitm$''),
     (0xD45B, ''$'' @ BS @ ''mitn$''),
     (0xD45C, ''$'' @ BS @ ''mito$''),
     (0xD45D, ''$'' @ BS @ ''mitp$''),
     (0xD45E, ''$'' @ BS @ ''mitq$''),
     (0xD45F, ''$'' @ BS @ ''mitr$''),
     (0xD460, ''$'' @ BS @ ''mits$''),
     (0xD461, ''$'' @ BS @ ''mitt$''),
     (0xD462, ''$'' @ BS @ ''mitu$''),
     (0xD463, ''$'' @ BS @ ''mitv$''),
     (0xD464, ''$'' @ BS @ ''mitw$''),
     (0xD465, ''$'' @ BS @ ''mitx$''),
     (0xD466, ''$'' @ BS @ ''mity$''),
     (0xD467, ''$'' @ BS @ ''mitz$''),
     (0xD468, ''$'' @ BS @ ''mbfitA$''),
     (0xD469, ''$'' @ BS @ ''mbfitB$''),
     (0xD46A, ''$'' @ BS @ ''mbfitC$''),
     (0xD46B, ''$'' @ BS @ ''mbfitD$''),
     (0xD46C, ''$'' @ BS @ ''mbfitE$''),
     (0xD46D, ''$'' @ BS @ ''mbfitF$''),
     (0xD46E, ''$'' @ BS @ ''mbfitG$''),
     (0xD46F, ''$'' @ BS @ ''mbfitH$''),
     (0xD470, ''$'' @ BS @ ''mbfitI$''),
     (0xD471, ''$'' @ BS @ ''mbfitJ$''),
     (0xD472, ''$'' @ BS @ ''mbfitK$''),
     (0xD473, ''$'' @ BS @ ''mbfitL$''),
     (0xD474, ''$'' @ BS @ ''mbfitM$''),
     (0xD475, ''$'' @ BS @ ''mbfitN$''),
     (0xD476, ''$'' @ BS @ ''mbfitO$''),
     (0xD477, ''$'' @ BS @ ''mbfitP$''),
     (0xD478, ''$'' @ BS @ ''mbfitQ$''),
     (0xD479, ''$'' @ BS @ ''mbfitR$''),
     (0xD47A, ''$'' @ BS @ ''mbfitS$''),
     (0xD47B, ''$'' @ BS @ ''mbfitT$''),
     (0xD47C, ''$'' @ BS @ ''mbfitU$''),
     (0xD47D, ''$'' @ BS @ ''mbfitV$''),
     (0xD47E, ''$'' @ BS @ ''mbfitW$''),
     (0xD47F, ''$'' @ BS @ ''mbfitX$''),
     (0xD480, ''$'' @ BS @ ''mbfitY$''),
     (0xD481, ''$'' @ BS @ ''mbfitZ$''),
     (0xD482, ''$'' @ BS @ ''mbfita$''),
     (0xD483, ''$'' @ BS @ ''mbfitb$''),
     (0xD484, ''$'' @ BS @ ''mbfitc$''),
     (0xD485, ''$'' @ BS @ ''mbfitd$''),
     (0xD486, ''$'' @ BS @ ''mbfite$''),
     (0xD487, ''$'' @ BS @ ''mbfitf$''),
     (0xD488, ''$'' @ BS @ ''mbfitg$''),
     (0xD489, ''$'' @ BS @ ''mbfith$''),
     (0xD48A, ''$'' @ BS @ ''mbfiti$''),
     (0xD48B, ''$'' @ BS @ ''mbfitj$''),
     (0xD48C, ''$'' @ BS @ ''mbfitk$''),
     (0xD48D, ''$'' @ BS @ ''mbfitl$''),
     (0xD48E, ''$'' @ BS @ ''mbfitm$''),
     (0xD48F, ''$'' @ BS @ ''mbfitn$''),
     (0xD490, ''$'' @ BS @ ''mbfito$''),
     (0xD491, ''$'' @ BS @ ''mbfitp$''),
     (0xD492, ''$'' @ BS @ ''mbfitq$''),
     (0xD493, ''$'' @ BS @ ''mbfitr$''),
     (0xD494, ''$'' @ BS @ ''mbfits$''),
     (0xD495, ''$'' @ BS @ ''mbfitt$''),
     (0xD496, ''$'' @ BS @ ''mbfitu$''),
     (0xD497, ''$'' @ BS @ ''mbfitv$''),
     (0xD498, ''$'' @ BS @ ''mbfitw$''),
     (0xD499, ''$'' @ BS @ ''mbfitx$''),
     (0xD49A, ''$'' @ BS @ ''mbfity$''),
     (0xD49B, ''$'' @ BS @ ''mbfitz$''),
     (0xD49C, ''$'' @ BS @ ''mscrA$''),
     (0xD49E, ''$'' @ BS @ ''mscrC$''),
     (0xD49F, ''$'' @ BS @ ''mscrD$''),
     (0xD4A2, ''$'' @ BS @ ''mscrG$''),
     (0xD4A5, ''$'' @ BS @ ''mscrJ$''),
     (0xD4A6, ''$'' @ BS @ ''mscrK$''),
     (0xD4A9, ''$'' @ BS @ ''mscrN$''),
     (0xD4AA, ''$'' @ BS @ ''mscrO$''),
     (0xD4AB, ''$'' @ BS @ ''mscrP$''),
     (0xD4AC, ''$'' @ BS @ ''mscrQ$''),
     (0xD4AE, ''$'' @ BS @ ''mscrS$''),
     (0xD4AF, ''$'' @ BS @ ''mscrT$''),
     (0xD4B0, ''$'' @ BS @ ''mscrU$''),
     (0xD4B1, ''$'' @ BS @ ''mscrV$''),
     (0xD4B2, ''$'' @ BS @ ''mscrW$''),
     (0xD4B3, ''$'' @ BS @ ''mscrX$''),
     (0xD4B4, ''$'' @ BS @ ''mscrY$''),
     (0xD4B5, ''$'' @ BS @ ''mscrZ$''),
     (0xD4B6, ''$'' @ BS @ ''mscra$''),
     (0xD4B7, ''$'' @ BS @ ''mscrb$''),
     (0xD4B8, ''$'' @ BS @ ''mscrc$''),
     (0xD4B9, ''$'' @ BS @ ''mscrd$''),
     (0xD4BB, ''$'' @ BS @ ''mscrf$''),
     (0xD4BD, ''$'' @ BS @ ''mscrh$''),
     (0xD4BE, ''$'' @ BS @ ''mscri$''),
     (0xD4BF, ''$'' @ BS @ ''mscrj$''),
     (0xD4C0, ''$'' @ BS @ ''mscrk$''),
     (0xD4C1, ''$'' @ BS @ ''mscrl$''),
     (0xD4C2, ''$'' @ BS @ ''mscrm$''),
     (0xD4C3, ''$'' @ BS @ ''mscrn$''),
     (0xD4C5, ''$'' @ BS @ ''mscrp$''),
     (0xD4C6, ''$'' @ BS @ ''mscrq$''),
     (0xD4C7, ''$'' @ BS @ ''mscrr$''),
     (0xD4C8, ''$'' @ BS @ ''mscrs$''),
     (0xD4C9, ''$'' @ BS @ ''mscrt$''),
     (0xD4CA, ''$'' @ BS @ ''mscru$''),
     (0xD4CB, ''$'' @ BS @ ''mscrv$''),
     (0xD4CC, ''$'' @ BS @ ''mscrw$''),
     (0xD4CD, ''$'' @ BS @ ''mscrx$''),
     (0xD4CE, ''$'' @ BS @ ''mscry$''),
     (0xD4CF, ''$'' @ BS @ ''mscrz$''),
     (0xD4D0, ''$'' @ BS @ ''mbfscrA$''),
     (0xD4D1, ''$'' @ BS @ ''mbfscrB$''),
     (0xD4D2, ''$'' @ BS @ ''mbfscrC$''),
     (0xD4D3, ''$'' @ BS @ ''mbfscrD$''),
     (0xD4D4, ''$'' @ BS @ ''mbfscrE$''),
     (0xD4D5, ''$'' @ BS @ ''mbfscrF$''),
     (0xD4D6, ''$'' @ BS @ ''mbfscrG$''),
     (0xD4D7, ''$'' @ BS @ ''mbfscrH$''),
     (0xD4D8, ''$'' @ BS @ ''mbfscrI$''),
     (0xD4D9, ''$'' @ BS @ ''mbfscrJ$''),
     (0xD4DA, ''$'' @ BS @ ''mbfscrK$''),
     (0xD4DB, ''$'' @ BS @ ''mbfscrL$''),
     (0xD4DC, ''$'' @ BS @ ''mbfscrM$''),
     (0xD4DD, ''$'' @ BS @ ''mbfscrN$''),
     (0xD4DE, ''$'' @ BS @ ''mbfscrO$''),
     (0xD4DF, ''$'' @ BS @ ''mbfscrP$''),
     (0xD4E0, ''$'' @ BS @ ''mbfscrQ$''),
     (0xD4E1, ''$'' @ BS @ ''mbfscrR$''),
     (0xD4E2, ''$'' @ BS @ ''mbfscrS$''),
     (0xD4E3, ''$'' @ BS @ ''mbfscrT$''),
     (0xD4E4, ''$'' @ BS @ ''mbfscrU$''),
     (0xD4E5, ''$'' @ BS @ ''mbfscrV$''),
     (0xD4E6, ''$'' @ BS @ ''mbfscrW$''),
     (0xD4E7, ''$'' @ BS @ ''mbfscrX$''),
     (0xD4E8, ''$'' @ BS @ ''mbfscrY$''),
     (0xD4E9, ''$'' @ BS @ ''mbfscrZ$''),
     (0xD4EA, ''$'' @ BS @ ''mbfscra$''),
     (0xD4EB, ''$'' @ BS @ ''mbfscrb$''),
     (0xD4EC, ''$'' @ BS @ ''mbfscrc$''),
     (0xD4ED, ''$'' @ BS @ ''mbfscrd$''),
     (0xD4EE, ''$'' @ BS @ ''mbfscre$''),
     (0xD4EF, ''$'' @ BS @ ''mbfscrf$''),
     (0xD4F0, ''$'' @ BS @ ''mbfscrg$''),
     (0xD4F1, ''$'' @ BS @ ''mbfscrh$''),
     (0xD4F2, ''$'' @ BS @ ''mbfscri$''),
     (0xD4F3, ''$'' @ BS @ ''mbfscrj$''),
     (0xD4F4, ''$'' @ BS @ ''mbfscrk$''),
     (0xD4F5, ''$'' @ BS @ ''mbfscrl$''),
     (0xD4F6, ''$'' @ BS @ ''mbfscrm$''),
     (0xD4F7, ''$'' @ BS @ ''mbfscrn$''),
     (0xD4F8, ''$'' @ BS @ ''mbfscro$''),
     (0xD4F9, ''$'' @ BS @ ''mbfscrp$''),
     (0xD4FA, ''$'' @ BS @ ''mbfscrq$''),
     (0xD4FB, ''$'' @ BS @ ''mbfscrr$''),
     (0xD4FC, ''$'' @ BS @ ''mbfscrs$''),
     (0xD4FD, ''$'' @ BS @ ''mbfscrt$''),
     (0xD4FE, ''$'' @ BS @ ''mbfscru$''),
     (0xD4FF, ''$'' @ BS @ ''mbfscrv$'')
   ]"

text \<open>Lines 1867 to 2110.\<close>

definition uni2tex_D5 :: "(nat \<times> string) list" where
  "uni2tex_D5 = [
     (0xD500, ''$'' @ BS @ ''mbfscrw$''),
     (0xD501, ''$'' @ BS @ ''mbfscrx$''),
     (0xD502, ''$'' @ BS @ ''mbfscry$''),
     (0xD503, ''$'' @ BS @ ''mbfscrz$''),
     (0xD504, ''$'' @ BS @ ''mfrakA$''),
     (0xD505, ''$'' @ BS @ ''mfrakB$''),
     (0xD507, ''$'' @ BS @ ''mfrakD$''),
     (0xD508, ''$'' @ BS @ ''mfrakE$''),
     (0xD509, ''$'' @ BS @ ''mfrakF$''),
     (0xD50A, ''$'' @ BS @ ''mfrakG$''),
     (0xD50D, ''$'' @ BS @ ''mfrakJ$''),
     (0xD50E, ''$'' @ BS @ ''mfrakK$''),
     (0xD50F, ''$'' @ BS @ ''mfrakL$''),
     (0xD510, ''$'' @ BS @ ''mfrakM$''),
     (0xD511, ''$'' @ BS @ ''mfrakN$''),
     (0xD512, ''$'' @ BS @ ''mfrakO$''),
     (0xD513, ''$'' @ BS @ ''mfrakP$''),
     (0xD514, ''$'' @ BS @ ''mfrakQ$''),
     (0xD516, ''$'' @ BS @ ''mfrakS$''),
     (0xD517, ''$'' @ BS @ ''mfrakT$''),
     (0xD518, ''$'' @ BS @ ''mfrakU$''),
     (0xD519, ''$'' @ BS @ ''mfrakV$''),
     (0xD51A, ''$'' @ BS @ ''mfrakW$''),
     (0xD51B, ''$'' @ BS @ ''mfrakX$''),
     (0xD51C, ''$'' @ BS @ ''mfrakY$''),
     (0xD51E, ''$'' @ BS @ ''mfraka$''),
     (0xD51F, ''$'' @ BS @ ''mfrakb$''),
     (0xD520, ''$'' @ BS @ ''mfrakc$''),
     (0xD521, ''$'' @ BS @ ''mfrakd$''),
     (0xD522, ''$'' @ BS @ ''mfrake$''),
     (0xD523, ''$'' @ BS @ ''mfrakf$''),
     (0xD524, ''$'' @ BS @ ''mfrakg$''),
     (0xD525, ''$'' @ BS @ ''mfrakh$''),
     (0xD526, ''$'' @ BS @ ''mfraki$''),
     (0xD527, ''$'' @ BS @ ''mfrakj$''),
     (0xD528, ''$'' @ BS @ ''mfrakk$''),
     (0xD529, ''$'' @ BS @ ''mfrakl$''),
     (0xD52A, ''$'' @ BS @ ''mfrakm$''),
     (0xD52B, ''$'' @ BS @ ''mfrakn$''),
     (0xD52C, ''$'' @ BS @ ''mfrako$''),
     (0xD52D, ''$'' @ BS @ ''mfrakp$''),
     (0xD52E, ''$'' @ BS @ ''mfrakq$''),
     (0xD52F, ''$'' @ BS @ ''mfrakr$''),
     (0xD530, ''$'' @ BS @ ''mfraks$''),
     (0xD531, ''$'' @ BS @ ''mfrakt$''),
     (0xD532, ''$'' @ BS @ ''mfraku$''),
     (0xD533, ''$'' @ BS @ ''mfrakv$''),
     (0xD534, ''$'' @ BS @ ''mfrakw$''),
     (0xD535, ''$'' @ BS @ ''mfrakx$''),
     (0xD536, ''$'' @ BS @ ''mfraky$''),
     (0xD537, ''$'' @ BS @ ''mfrakz$''),
     (0xD538, ''$'' @ BS @ ''BbbA$''),
     (0xD539, ''$'' @ BS @ ''BbbB$''),
     (0xD53B, ''$'' @ BS @ ''BbbD$''),
     (0xD53C, ''$'' @ BS @ ''BbbE$''),
     (0xD53D, ''$'' @ BS @ ''BbbF$''),
     (0xD53E, ''$'' @ BS @ ''BbbG$''),
     (0xD540, ''$'' @ BS @ ''BbbI$''),
     (0xD541, ''$'' @ BS @ ''BbbJ$''),
     (0xD542, ''$'' @ BS @ ''BbbK$''),
     (0xD543, ''$'' @ BS @ ''BbbL$''),
     (0xD544, ''$'' @ BS @ ''BbbM$''),
     (0xD546, ''$'' @ BS @ ''BbbO$''),
     (0xD54A, ''$'' @ BS @ ''BbbS$''),
     (0xD54B, ''$'' @ BS @ ''BbbT$''),
     (0xD54C, ''$'' @ BS @ ''BbbU$''),
     (0xD54D, ''$'' @ BS @ ''BbbV$''),
     (0xD54E, ''$'' @ BS @ ''BbbW$''),
     (0xD54F, ''$'' @ BS @ ''BbbX$''),
     (0xD550, ''$'' @ BS @ ''BbbY$''),
     (0xD552, ''$'' @ BS @ ''Bbba$''),
     (0xD553, ''$'' @ BS @ ''Bbbb$''),
     (0xD554, ''$'' @ BS @ ''Bbbc$''),
     (0xD555, ''$'' @ BS @ ''Bbbd$''),
     (0xD556, ''$'' @ BS @ ''Bbbe$''),
     (0xD557, ''$'' @ BS @ ''Bbbf$''),
     (0xD558, ''$'' @ BS @ ''Bbbg$''),
     (0xD559, ''$'' @ BS @ ''Bbbh$''),
     (0xD55A, ''$'' @ BS @ ''Bbbi$''),
     (0xD55B, ''$'' @ BS @ ''Bbbj$''),
     (0xD55C, ''$'' @ BS @ ''Bbbk$''),
     (0xD55D, ''$'' @ BS @ ''Bbbl$''),
     (0xD55E, ''$'' @ BS @ ''Bbbm$''),
     (0xD55F, ''$'' @ BS @ ''Bbbn$''),
     (0xD560, ''$'' @ BS @ ''Bbbo$''),
     (0xD561, ''$'' @ BS @ ''Bbbp$''),
     (0xD562, ''$'' @ BS @ ''Bbbq$''),
     (0xD563, ''$'' @ BS @ ''Bbbr$''),
     (0xD564, ''$'' @ BS @ ''Bbbs$''),
     (0xD565, ''$'' @ BS @ ''Bbbt$''),
     (0xD566, ''$'' @ BS @ ''Bbbu$''),
     (0xD567, ''$'' @ BS @ ''Bbbv$''),
     (0xD568, ''$'' @ BS @ ''Bbbw$''),
     (0xD569, ''$'' @ BS @ ''Bbbx$''),
     (0xD56A, ''$'' @ BS @ ''Bbby$''),
     (0xD56B, ''$'' @ BS @ ''Bbbz$''),
     (0xD56C, ''$'' @ BS @ ''mbffrakA$''),
     (0xD56D, ''$'' @ BS @ ''mbffrakB$''),
     (0xD56E, ''$'' @ BS @ ''mbffrakC$''),
     (0xD56F, ''$'' @ BS @ ''mbffrakD$''),
     (0xD570, ''$'' @ BS @ ''mbffrakE$''),
     (0xD571, ''$'' @ BS @ ''mbffrakF$''),
     (0xD572, ''$'' @ BS @ ''mbffrakG$''),
     (0xD573, ''$'' @ BS @ ''mbffrakH$''),
     (0xD574, ''$'' @ BS @ ''mbffrakI$''),
     (0xD575, ''$'' @ BS @ ''mbffrakJ$''),
     (0xD576, ''$'' @ BS @ ''mbffrakK$''),
     (0xD577, ''$'' @ BS @ ''mbffrakL$''),
     (0xD578, ''$'' @ BS @ ''mbffrakM$''),
     (0xD579, ''$'' @ BS @ ''mbffrakN$''),
     (0xD57A, ''$'' @ BS @ ''mbffrakO$''),
     (0xD57B, ''$'' @ BS @ ''mbffrakP$''),
     (0xD57C, ''$'' @ BS @ ''mbffrakQ$''),
     (0xD57D, ''$'' @ BS @ ''mbffrakR$''),
     (0xD57E, ''$'' @ BS @ ''mbffrakS$''),
     (0xD57F, ''$'' @ BS @ ''mbffrakT$''),
     (0xD580, ''$'' @ BS @ ''mbffrakU$''),
     (0xD581, ''$'' @ BS @ ''mbffrakV$''),
     (0xD582, ''$'' @ BS @ ''mbffrakW$''),
     (0xD583, ''$'' @ BS @ ''mbffrakX$''),
     (0xD584, ''$'' @ BS @ ''mbffrakY$''),
     (0xD585, ''$'' @ BS @ ''mbffrakZ$''),
     (0xD586, ''$'' @ BS @ ''mbffraka$''),
     (0xD587, ''$'' @ BS @ ''mbffrakb$''),
     (0xD588, ''$'' @ BS @ ''mbffrakc$''),
     (0xD589, ''$'' @ BS @ ''mbffrakd$''),
     (0xD58A, ''$'' @ BS @ ''mbffrake$''),
     (0xD58B, ''$'' @ BS @ ''mbffrakf$''),
     (0xD58C, ''$'' @ BS @ ''mbffrakg$''),
     (0xD58D, ''$'' @ BS @ ''mbffrakh$''),
     (0xD58E, ''$'' @ BS @ ''mbffraki$''),
     (0xD58F, ''$'' @ BS @ ''mbffrakj$''),
     (0xD590, ''$'' @ BS @ ''mbffrakk$''),
     (0xD591, ''$'' @ BS @ ''mbffrakl$''),
     (0xD592, ''$'' @ BS @ ''mbffrakm$''),
     (0xD593, ''$'' @ BS @ ''mbffrakn$''),
     (0xD594, ''$'' @ BS @ ''mbffrako$''),
     (0xD595, ''$'' @ BS @ ''mbffrakp$''),
     (0xD596, ''$'' @ BS @ ''mbffrakq$''),
     (0xD597, ''$'' @ BS @ ''mbffrakr$''),
     (0xD598, ''$'' @ BS @ ''mbffraks$''),
     (0xD599, ''$'' @ BS @ ''mbffrakt$''),
     (0xD59A, ''$'' @ BS @ ''mbffraku$''),
     (0xD59B, ''$'' @ BS @ ''mbffrakv$''),
     (0xD59C, ''$'' @ BS @ ''mbffrakw$''),
     (0xD59D, ''$'' @ BS @ ''mbffrakx$''),
     (0xD59E, ''$'' @ BS @ ''mbffraky$''),
     (0xD59F, ''$'' @ BS @ ''mbffrakz$''),
     (0xD5A0, ''$'' @ BS @ ''msansA$''),
     (0xD5A1, ''$'' @ BS @ ''msansB$''),
     (0xD5A2, ''$'' @ BS @ ''msansC$''),
     (0xD5A3, ''$'' @ BS @ ''msansD$''),
     (0xD5A4, ''$'' @ BS @ ''msansE$''),
     (0xD5A5, ''$'' @ BS @ ''msansF$''),
     (0xD5A6, ''$'' @ BS @ ''msansG$''),
     (0xD5A7, ''$'' @ BS @ ''msansH$''),
     (0xD5A8, ''$'' @ BS @ ''msansI$''),
     (0xD5A9, ''$'' @ BS @ ''msansJ$''),
     (0xD5AA, ''$'' @ BS @ ''msansK$''),
     (0xD5AB, ''$'' @ BS @ ''msansL$''),
     (0xD5AC, ''$'' @ BS @ ''msansM$''),
     (0xD5AD, ''$'' @ BS @ ''msansN$''),
     (0xD5AE, ''$'' @ BS @ ''msansO$''),
     (0xD5AF, ''$'' @ BS @ ''msansP$''),
     (0xD5B0, ''$'' @ BS @ ''msansQ$''),
     (0xD5B1, ''$'' @ BS @ ''msansR$''),
     (0xD5B2, ''$'' @ BS @ ''msansS$''),
     (0xD5B3, ''$'' @ BS @ ''msansT$''),
     (0xD5B4, ''$'' @ BS @ ''msansU$''),
     (0xD5B5, ''$'' @ BS @ ''msansV$''),
     (0xD5B6, ''$'' @ BS @ ''msansW$''),
     (0xD5B7, ''$'' @ BS @ ''msansX$''),
     (0xD5B8, ''$'' @ BS @ ''msansY$''),
     (0xD5B9, ''$'' @ BS @ ''msansZ$''),
     (0xD5BA, ''$'' @ BS @ ''msansa$''),
     (0xD5BB, ''$'' @ BS @ ''msansb$''),
     (0xD5BC, ''$'' @ BS @ ''msansc$''),
     (0xD5BD, ''$'' @ BS @ ''msansd$''),
     (0xD5BE, ''$'' @ BS @ ''msanse$''),
     (0xD5BF, ''$'' @ BS @ ''msansf$''),
     (0xD5C0, ''$'' @ BS @ ''msansg$''),
     (0xD5C1, ''$'' @ BS @ ''msansh$''),
     (0xD5C2, ''$'' @ BS @ ''msansi$''),
     (0xD5C3, ''$'' @ BS @ ''msansj$''),
     (0xD5C4, ''$'' @ BS @ ''msansk$''),
     (0xD5C5, ''$'' @ BS @ ''msansl$''),
     (0xD5C6, ''$'' @ BS @ ''msansm$''),
     (0xD5C7, ''$'' @ BS @ ''msansn$''),
     (0xD5C8, ''$'' @ BS @ ''msanso$''),
     (0xD5C9, ''$'' @ BS @ ''msansp$''),
     (0xD5CA, ''$'' @ BS @ ''msansq$''),
     (0xD5CB, ''$'' @ BS @ ''msansr$''),
     (0xD5CC, ''$'' @ BS @ ''msanss$''),
     (0xD5CD, ''$'' @ BS @ ''msanst$''),
     (0xD5CE, ''$'' @ BS @ ''msansu$''),
     (0xD5CF, ''$'' @ BS @ ''msansv$''),
     (0xD5D0, ''$'' @ BS @ ''msansw$''),
     (0xD5D1, ''$'' @ BS @ ''msansx$''),
     (0xD5D2, ''$'' @ BS @ ''msansy$''),
     (0xD5D3, ''$'' @ BS @ ''msansz$''),
     (0xD5D4, ''$'' @ BS @ ''mbfsansA$''),
     (0xD5D5, ''$'' @ BS @ ''mbfsansB$''),
     (0xD5D6, ''$'' @ BS @ ''mbfsansC$''),
     (0xD5D7, ''$'' @ BS @ ''mbfsansD$''),
     (0xD5D8, ''$'' @ BS @ ''mbfsansE$''),
     (0xD5D9, ''$'' @ BS @ ''mbfsansF$''),
     (0xD5DA, ''$'' @ BS @ ''mbfsansG$''),
     (0xD5DB, ''$'' @ BS @ ''mbfsansH$''),
     (0xD5DC, ''$'' @ BS @ ''mbfsansI$''),
     (0xD5DD, ''$'' @ BS @ ''mbfsansJ$''),
     (0xD5DE, ''$'' @ BS @ ''mbfsansK$''),
     (0xD5DF, ''$'' @ BS @ ''mbfsansL$''),
     (0xD5E0, ''$'' @ BS @ ''mbfsansM$''),
     (0xD5E1, ''$'' @ BS @ ''mbfsansN$''),
     (0xD5E2, ''$'' @ BS @ ''mbfsansO$''),
     (0xD5E3, ''$'' @ BS @ ''mbfsansP$''),
     (0xD5E4, ''$'' @ BS @ ''mbfsansQ$''),
     (0xD5E5, ''$'' @ BS @ ''mbfsansR$''),
     (0xD5E6, ''$'' @ BS @ ''mbfsansS$''),
     (0xD5E7, ''$'' @ BS @ ''mbfsansT$''),
     (0xD5E8, ''$'' @ BS @ ''mbfsansU$''),
     (0xD5E9, ''$'' @ BS @ ''mbfsansV$''),
     (0xD5EA, ''$'' @ BS @ ''mbfsansW$''),
     (0xD5EB, ''$'' @ BS @ ''mbfsansX$''),
     (0xD5EC, ''$'' @ BS @ ''mbfsansY$''),
     (0xD5ED, ''$'' @ BS @ ''mbfsansZ$''),
     (0xD5EE, ''$'' @ BS @ ''mbfsansa$''),
     (0xD5EF, ''$'' @ BS @ ''mbfsansb$''),
     (0xD5F0, ''$'' @ BS @ ''mbfsansc$''),
     (0xD5F1, ''$'' @ BS @ ''mbfsansd$''),
     (0xD5F2, ''$'' @ BS @ ''mbfsanse$''),
     (0xD5F3, ''$'' @ BS @ ''mbfsansf$''),
     (0xD5F4, ''$'' @ BS @ ''mbfsansg$''),
     (0xD5F5, ''$'' @ BS @ ''mbfsansh$''),
     (0xD5F6, ''$'' @ BS @ ''mbfsansi$''),
     (0xD5F7, ''$'' @ BS @ ''mbfsansj$''),
     (0xD5F8, ''$'' @ BS @ ''mbfsansk$''),
     (0xD5F9, ''$'' @ BS @ ''mbfsansl$''),
     (0xD5FA, ''$'' @ BS @ ''mbfsansm$''),
     (0xD5FB, ''$'' @ BS @ ''mbfsansn$''),
     (0xD5FC, ''$'' @ BS @ ''mbfsanso$''),
     (0xD5FD, ''$'' @ BS @ ''mbfsansp$''),
     (0xD5FE, ''$'' @ BS @ ''mbfsansq$''),
     (0xD5FF, ''$'' @ BS @ ''mbfsansr$'')
   ]"

text \<open>Lines 2111 to 2362.\<close>

definition uni2tex_D6 :: "(nat \<times> string) list" where
  "uni2tex_D6 = [
     (0xD600, ''$'' @ BS @ ''mbfsanss$''),
     (0xD601, ''$'' @ BS @ ''mbfsanst$''),
     (0xD602, ''$'' @ BS @ ''mbfsansu$''),
     (0xD603, ''$'' @ BS @ ''mbfsansv$''),
     (0xD604, ''$'' @ BS @ ''mbfsansw$''),
     (0xD605, ''$'' @ BS @ ''mbfsansx$''),
     (0xD606, ''$'' @ BS @ ''mbfsansy$''),
     (0xD607, ''$'' @ BS @ ''mbfsansz$''),
     (0xD608, ''$'' @ BS @ ''mitsansA$''),
     (0xD609, ''$'' @ BS @ ''mitsansB$''),
     (0xD60A, ''$'' @ BS @ ''mitsansC$''),
     (0xD60B, ''$'' @ BS @ ''mitsansD$''),
     (0xD60C, ''$'' @ BS @ ''mitsansE$''),
     (0xD60D, ''$'' @ BS @ ''mitsansF$''),
     (0xD60E, ''$'' @ BS @ ''mitsansG$''),
     (0xD60F, ''$'' @ BS @ ''mitsansH$''),
     (0xD610, ''$'' @ BS @ ''mitsansI$''),
     (0xD611, ''$'' @ BS @ ''mitsansJ$''),
     (0xD612, ''$'' @ BS @ ''mitsansK$''),
     (0xD613, ''$'' @ BS @ ''mitsansL$''),
     (0xD614, ''$'' @ BS @ ''mitsansM$''),
     (0xD615, ''$'' @ BS @ ''mitsansN$''),
     (0xD616, ''$'' @ BS @ ''mitsansO$''),
     (0xD617, ''$'' @ BS @ ''mitsansP$''),
     (0xD618, ''$'' @ BS @ ''mitsansQ$''),
     (0xD619, ''$'' @ BS @ ''mitsansR$''),
     (0xD61A, ''$'' @ BS @ ''mitsansS$''),
     (0xD61B, ''$'' @ BS @ ''mitsansT$''),
     (0xD61C, ''$'' @ BS @ ''mitsansU$''),
     (0xD61D, ''$'' @ BS @ ''mitsansV$''),
     (0xD61E, ''$'' @ BS @ ''mitsansW$''),
     (0xD61F, ''$'' @ BS @ ''mitsansX$''),
     (0xD620, ''$'' @ BS @ ''mitsansY$''),
     (0xD621, ''$'' @ BS @ ''mitsansZ$''),
     (0xD622, ''$'' @ BS @ ''mitsansa$''),
     (0xD623, ''$'' @ BS @ ''mitsansb$''),
     (0xD624, ''$'' @ BS @ ''mitsansc$''),
     (0xD625, ''$'' @ BS @ ''mitsansd$''),
     (0xD626, ''$'' @ BS @ ''mitsanse$''),
     (0xD627, ''$'' @ BS @ ''mitsansf$''),
     (0xD628, ''$'' @ BS @ ''mitsansg$''),
     (0xD629, ''$'' @ BS @ ''mitsansh$''),
     (0xD62A, ''$'' @ BS @ ''mitsansi$''),
     (0xD62B, ''$'' @ BS @ ''mitsansj$''),
     (0xD62C, ''$'' @ BS @ ''mitsansk$''),
     (0xD62D, ''$'' @ BS @ ''mitsansl$''),
     (0xD62E, ''$'' @ BS @ ''mitsansm$''),
     (0xD62F, ''$'' @ BS @ ''mitsansn$''),
     (0xD630, ''$'' @ BS @ ''mitsanso$''),
     (0xD631, ''$'' @ BS @ ''mitsansp$''),
     (0xD632, ''$'' @ BS @ ''mitsansq$''),
     (0xD633, ''$'' @ BS @ ''mitsansr$''),
     (0xD634, ''$'' @ BS @ ''mitsanss$''),
     (0xD635, ''$'' @ BS @ ''mitsanst$''),
     (0xD636, ''$'' @ BS @ ''mitsansu$''),
     (0xD637, ''$'' @ BS @ ''mitsansv$''),
     (0xD638, ''$'' @ BS @ ''mitsansw$''),
     (0xD639, ''$'' @ BS @ ''mitsansx$''),
     (0xD63A, ''$'' @ BS @ ''mitsansy$''),
     (0xD63B, ''$'' @ BS @ ''mitsansz$''),
     (0xD63C, ''$'' @ BS @ ''mbfitsansA$''),
     (0xD63D, ''$'' @ BS @ ''mbfitsansB$''),
     (0xD63E, ''$'' @ BS @ ''mbfitsansC$''),
     (0xD63F, ''$'' @ BS @ ''mbfitsansD$''),
     (0xD640, ''$'' @ BS @ ''mbfitsansE$''),
     (0xD641, ''$'' @ BS @ ''mbfitsansF$''),
     (0xD642, ''$'' @ BS @ ''mbfitsansG$''),
     (0xD643, ''$'' @ BS @ ''mbfitsansH$''),
     (0xD644, ''$'' @ BS @ ''mbfitsansI$''),
     (0xD645, ''$'' @ BS @ ''mbfitsansJ$''),
     (0xD646, ''$'' @ BS @ ''mbfitsansK$''),
     (0xD647, ''$'' @ BS @ ''mbfitsansL$''),
     (0xD648, ''$'' @ BS @ ''mbfitsansM$''),
     (0xD649, ''$'' @ BS @ ''mbfitsansN$''),
     (0xD64A, ''$'' @ BS @ ''mbfitsansO$''),
     (0xD64B, ''$'' @ BS @ ''mbfitsansP$''),
     (0xD64C, ''$'' @ BS @ ''mbfitsansQ$''),
     (0xD64D, ''$'' @ BS @ ''mbfitsansR$''),
     (0xD64E, ''$'' @ BS @ ''mbfitsansS$''),
     (0xD64F, ''$'' @ BS @ ''mbfitsansT$''),
     (0xD650, ''$'' @ BS @ ''mbfitsansU$''),
     (0xD651, ''$'' @ BS @ ''mbfitsansV$''),
     (0xD652, ''$'' @ BS @ ''mbfitsansW$''),
     (0xD653, ''$'' @ BS @ ''mbfitsansX$''),
     (0xD654, ''$'' @ BS @ ''mbfitsansY$''),
     (0xD655, ''$'' @ BS @ ''mbfitsansZ$''),
     (0xD656, ''$'' @ BS @ ''mbfitsansa$''),
     (0xD657, ''$'' @ BS @ ''mbfitsansb$''),
     (0xD658, ''$'' @ BS @ ''mbfitsansc$''),
     (0xD659, ''$'' @ BS @ ''mbfitsansd$''),
     (0xD65A, ''$'' @ BS @ ''mbfitsanse$''),
     (0xD65B, ''$'' @ BS @ ''mbfitsansf$''),
     (0xD65C, ''$'' @ BS @ ''mbfitsansg$''),
     (0xD65D, ''$'' @ BS @ ''mbfitsansh$''),
     (0xD65E, ''$'' @ BS @ ''mbfitsansi$''),
     (0xD65F, ''$'' @ BS @ ''mbfitsansj$''),
     (0xD660, ''$'' @ BS @ ''mbfitsansk$''),
     (0xD661, ''$'' @ BS @ ''mbfitsansl$''),
     (0xD662, ''$'' @ BS @ ''mbfitsansm$''),
     (0xD663, ''$'' @ BS @ ''mbfitsansn$''),
     (0xD664, ''$'' @ BS @ ''mbfitsanso$''),
     (0xD665, ''$'' @ BS @ ''mbfitsansp$''),
     (0xD666, ''$'' @ BS @ ''mbfitsansq$''),
     (0xD667, ''$'' @ BS @ ''mbfitsansr$''),
     (0xD668, ''$'' @ BS @ ''mbfitsanss$''),
     (0xD669, ''$'' @ BS @ ''mbfitsanst$''),
     (0xD66A, ''$'' @ BS @ ''mbfitsansu$''),
     (0xD66B, ''$'' @ BS @ ''mbfitsansv$''),
     (0xD66C, ''$'' @ BS @ ''mbfitsansw$''),
     (0xD66D, ''$'' @ BS @ ''mbfitsansx$''),
     (0xD66E, ''$'' @ BS @ ''mbfitsansy$''),
     (0xD66F, ''$'' @ BS @ ''mbfitsansz$''),
     (0xD670, ''$'' @ BS @ ''mttA$''),
     (0xD671, ''$'' @ BS @ ''mttB$''),
     (0xD672, ''$'' @ BS @ ''mttC$''),
     (0xD673, ''$'' @ BS @ ''mttD$''),
     (0xD674, ''$'' @ BS @ ''mttE$''),
     (0xD675, ''$'' @ BS @ ''mttF$''),
     (0xD676, ''$'' @ BS @ ''mttG$''),
     (0xD677, ''$'' @ BS @ ''mttH$''),
     (0xD678, ''$'' @ BS @ ''mttI$''),
     (0xD679, ''$'' @ BS @ ''mttJ$''),
     (0xD67A, ''$'' @ BS @ ''mttK$''),
     (0xD67B, ''$'' @ BS @ ''mttL$''),
     (0xD67C, ''$'' @ BS @ ''mttM$''),
     (0xD67D, ''$'' @ BS @ ''mttN$''),
     (0xD67E, ''$'' @ BS @ ''mttO$''),
     (0xD67F, ''$'' @ BS @ ''mttP$''),
     (0xD680, ''$'' @ BS @ ''mttQ$''),
     (0xD681, ''$'' @ BS @ ''mttR$''),
     (0xD682, ''$'' @ BS @ ''mttS$''),
     (0xD683, ''$'' @ BS @ ''mttT$''),
     (0xD684, ''$'' @ BS @ ''mttU$''),
     (0xD685, ''$'' @ BS @ ''mttV$''),
     (0xD686, ''$'' @ BS @ ''mttW$''),
     (0xD687, ''$'' @ BS @ ''mttX$''),
     (0xD688, ''$'' @ BS @ ''mttY$''),
     (0xD689, ''$'' @ BS @ ''mttZ$''),
     (0xD68A, ''$'' @ BS @ ''mtta$''),
     (0xD68B, ''$'' @ BS @ ''mttb$''),
     (0xD68C, ''$'' @ BS @ ''mttc$''),
     (0xD68D, ''$'' @ BS @ ''mttd$''),
     (0xD68E, ''$'' @ BS @ ''mtte$''),
     (0xD68F, ''$'' @ BS @ ''mttf$''),
     (0xD690, ''$'' @ BS @ ''mttg$''),
     (0xD691, ''$'' @ BS @ ''mtth$''),
     (0xD692, ''$'' @ BS @ ''mtti$''),
     (0xD693, ''$'' @ BS @ ''mttj$''),
     (0xD694, ''$'' @ BS @ ''mttk$''),
     (0xD695, ''$'' @ BS @ ''mttl$''),
     (0xD696, ''$'' @ BS @ ''mttm$''),
     (0xD697, ''$'' @ BS @ ''mttn$''),
     (0xD698, ''$'' @ BS @ ''mtto$''),
     (0xD699, ''$'' @ BS @ ''mttp$''),
     (0xD69A, ''$'' @ BS @ ''mttq$''),
     (0xD69B, ''$'' @ BS @ ''mttr$''),
     (0xD69C, ''$'' @ BS @ ''mtts$''),
     (0xD69D, ''$'' @ BS @ ''mttt$''),
     (0xD69E, ''$'' @ BS @ ''mttu$''),
     (0xD69F, ''$'' @ BS @ ''mttv$''),
     (0xD6A0, ''$'' @ BS @ ''mttw$''),
     (0xD6A1, ''$'' @ BS @ ''mttx$''),
     (0xD6A2, ''$'' @ BS @ ''mtty$''),
     (0xD6A3, ''$'' @ BS @ ''mttz$''),
     (0xD6A8, ''$'' @ BS @ ''mbfAlpha$''),
     (0xD6A9, ''$'' @ BS @ ''mbfBeta$''),
     (0xD6AA, ''$'' @ BS @ ''mbfGamma$''),
     (0xD6AB, ''$'' @ BS @ ''mbfDelta$''),
     (0xD6AC, ''$'' @ BS @ ''mbfEpsilon$''),
     (0xD6AD, ''$'' @ BS @ ''mbfZeta$''),
     (0xD6AE, ''$'' @ BS @ ''mbfEta$''),
     (0xD6AF, ''$'' @ BS @ ''mbfTheta$''),
     (0xD6B0, ''$'' @ BS @ ''mbfIota$''),
     (0xD6B1, ''$'' @ BS @ ''mbfKappa$''),
     (0xD6B2, ''$'' @ BS @ ''mbfLambda$''),
     (0xD6B3, ''$'' @ BS @ ''mbfMu$''),
     (0xD6B4, ''$'' @ BS @ ''mbfNu$''),
     (0xD6B5, ''$'' @ BS @ ''mbfXi$''),
     (0xD6B6, ''$'' @ BS @ ''mbfOmicron$''),
     (0xD6B7, ''$'' @ BS @ ''mbfPi$''),
     (0xD6B8, ''$'' @ BS @ ''mbfRho$''),
     (0xD6B9, ''$'' @ BS @ ''mathbf{'' @ BS @ ''vartheta}$''),
     (0xD6BA, ''$'' @ BS @ ''mbfSigma$''),
     (0xD6BB, ''$'' @ BS @ ''mbfTau$''),
     (0xD6BC, ''$'' @ BS @ ''mbfUpsilon$''),
     (0xD6BD, ''$'' @ BS @ ''mbfPhi$''),
     (0xD6BE, ''$'' @ BS @ ''mbfChi$''),
     (0xD6BF, ''$'' @ BS @ ''mbfPsi$''),
     (0xD6C0, ''$'' @ BS @ ''mbfOmega$''),
     (0xD6C1, ''$'' @ BS @ ''mbfnabla$''),
     (0xD6C2, ''$'' @ BS @ ''mbfalpha$''),
     (0xD6C3, ''$'' @ BS @ ''mbfbeta$''),
     (0xD6C4, ''$'' @ BS @ ''mbfgamma$''),
     (0xD6C5, ''$'' @ BS @ ''mbfdelta$''),
     (0xD6C6, ''$'' @ BS @ ''mbfepsilon$''),
     (0xD6C7, ''$'' @ BS @ ''mbfzeta$''),
     (0xD6C8, ''$'' @ BS @ ''mbfeta$''),
     (0xD6C9, ''$'' @ BS @ ''mbftheta$''),
     (0xD6CA, ''$'' @ BS @ ''mbfiota$''),
     (0xD6CB, ''$'' @ BS @ ''mbfkappa$''),
     (0xD6CC, ''$'' @ BS @ ''mbflambda$''),
     (0xD6CD, ''$'' @ BS @ ''mbfmu$''),
     (0xD6CE, ''$'' @ BS @ ''mbfnu$''),
     (0xD6CF, ''$'' @ BS @ ''mbfxi$''),
     (0xD6D0, ''$'' @ BS @ ''mbfomicron$''),
     (0xD6D1, ''$'' @ BS @ ''mbfpi$''),
     (0xD6D2, ''$'' @ BS @ ''mbfrho$''),
     (0xD6D3, ''$'' @ BS @ ''mbfvarsigma$''),
     (0xD6D4, ''$'' @ BS @ ''mbfsigma$''),
     (0xD6D5, ''$'' @ BS @ ''mbftau$''),
     (0xD6D6, ''$'' @ BS @ ''mbfupsilon$''),
     (0xD6D7, ''$'' @ BS @ ''mbfvarphi$''),
     (0xD6D8, ''$'' @ BS @ ''mbfchi$''),
     (0xD6D9, ''$'' @ BS @ ''mbfpsi$''),
     (0xD6DA, ''$'' @ BS @ ''mbfomega$''),
     (0xD6DB, ''$'' @ BS @ ''mbfpartial$''),
     (0xD6DC, ''$'' @ BS @ ''mbfvarepsilon$''),
     (0xD6DD, ''$'' @ BS @ ''mathbf{'' @ BS @ ''vartheta}$''),
     (0xD6DE, ''$'' @ BS @ ''mathbf{'' @ BS @ ''varkappa}$''),
     (0xD6DF, ''$'' @ BS @ ''mathbf{'' @ BS @ ''phi}$''),
     (0xD6E0, ''$'' @ BS @ ''mathbf{'' @ BS @ ''varrho}$''),
     (0xD6E1, ''$'' @ BS @ ''mathbf{'' @ BS @ ''varpi}$''),
     (0xD6E2, ''$'' @ BS @ ''mitAlpha$''),
     (0xD6E3, ''$'' @ BS @ ''mitBeta$''),
     (0xD6E4, ''$'' @ BS @ ''mitGamma$''),
     (0xD6E5, ''$'' @ BS @ ''mitDelta$''),
     (0xD6E6, ''$'' @ BS @ ''mitEpsilon$''),
     (0xD6E7, ''$'' @ BS @ ''mitZeta$''),
     (0xD6E8, ''$'' @ BS @ ''mitEta$''),
     (0xD6E9, ''$'' @ BS @ ''mitTheta$''),
     (0xD6EA, ''$'' @ BS @ ''mitIota$''),
     (0xD6EB, ''$'' @ BS @ ''mitKappa$''),
     (0xD6EC, ''$'' @ BS @ ''mitLambda$''),
     (0xD6ED, ''$'' @ BS @ ''mitMu$''),
     (0xD6EE, ''$'' @ BS @ ''mitNu$''),
     (0xD6EF, ''$'' @ BS @ ''mitXi$''),
     (0xD6F0, ''$'' @ BS @ ''mitOmicron$''),
     (0xD6F1, ''$'' @ BS @ ''mitPi$''),
     (0xD6F2, ''$'' @ BS @ ''mitRho$''),
     (0xD6F3, ''$'' @ BS @ ''mathmit{'' @ BS @ ''vartheta}$''),
     (0xD6F4, ''$'' @ BS @ ''mitSigma$''),
     (0xD6F5, ''$'' @ BS @ ''mitTau$''),
     (0xD6F6, ''$'' @ BS @ ''mitUpsilon$''),
     (0xD6F7, ''$'' @ BS @ ''mitPhi$''),
     (0xD6F8, ''$'' @ BS @ ''mitChi$''),
     (0xD6F9, ''$'' @ BS @ ''mitPsi$''),
     (0xD6FA, ''$'' @ BS @ ''mitOmega$''),
     (0xD6FB, ''$'' @ BS @ ''mitnabla$''),
     (0xD6FC, ''$'' @ BS @ ''mitalpha$''),
     (0xD6FD, ''$'' @ BS @ ''mitbeta$''),
     (0xD6FE, ''$'' @ BS @ ''mitgamma$''),
     (0xD6FF, ''$'' @ BS @ ''mitdelta$'')
   ]"

text \<open>Lines 2363 to 2614.\<close>

definition uni2tex_D7 :: "(nat \<times> string) list" where
  "uni2tex_D7 = [
     (0xD700, ''$'' @ BS @ ''mitepsilon$''),
     (0xD701, ''$'' @ BS @ ''mitzeta$''),
     (0xD702, ''$'' @ BS @ ''miteta$''),
     (0xD703, ''$'' @ BS @ ''mittheta$''),
     (0xD704, ''$'' @ BS @ ''mitiota$''),
     (0xD705, ''$'' @ BS @ ''mitkappa$''),
     (0xD706, ''$'' @ BS @ ''mitlambda$''),
     (0xD707, ''$'' @ BS @ ''mitmu$''),
     (0xD708, ''$'' @ BS @ ''mitnu$''),
     (0xD709, ''$'' @ BS @ ''mitxi$''),
     (0xD70A, ''$'' @ BS @ ''mitomicron$''),
     (0xD70B, ''$'' @ BS @ ''mitpi$''),
     (0xD70C, ''$'' @ BS @ ''mitrho$''),
     (0xD70D, ''$'' @ BS @ ''mitvarsigma$''),
     (0xD70E, ''$'' @ BS @ ''mitsigma$''),
     (0xD70F, ''$'' @ BS @ ''mittau$''),
     (0xD710, ''$'' @ BS @ ''mitupsilon$''),
     (0xD711, ''$'' @ BS @ ''mitphi$''),
     (0xD712, ''$'' @ BS @ ''mitchi$''),
     (0xD713, ''$'' @ BS @ ''mitpsi$''),
     (0xD714, ''$'' @ BS @ ''mitomega$''),
     (0xD715, ''$'' @ BS @ ''mitpartial$''),
     (0xD716, ''$'' @ BS @ ''mitvarepsilon$''),
     (0xD717, ''$'' @ BS @ ''mathmit{'' @ BS @ ''vartheta}$''),
     (0xD718, ''$'' @ BS @ ''mathmit{'' @ BS @ ''varkappa}$''),
     (0xD719, ''$'' @ BS @ ''mathmit{'' @ BS @ ''phi}$''),
     (0xD71A, ''$'' @ BS @ ''mathmit{'' @ BS @ ''varrho}$''),
     (0xD71B, ''$'' @ BS @ ''mathmit{'' @ BS @ ''varpi}$''),
     (0xD71C, ''$'' @ BS @ ''mbfitAlpha$''),
     (0xD71D, ''$'' @ BS @ ''mbfitBeta$''),
     (0xD71E, ''$'' @ BS @ ''mbfitGamma$''),
     (0xD71F, ''$'' @ BS @ ''mbfitDelta$''),
     (0xD720, ''$'' @ BS @ ''mbfitEpsilon$''),
     (0xD721, ''$'' @ BS @ ''mbfitZeta$''),
     (0xD722, ''$'' @ BS @ ''mbfitEta$''),
     (0xD723, ''$'' @ BS @ ''mbfitTheta$''),
     (0xD724, ''$'' @ BS @ ''mbfitIota$''),
     (0xD725, ''$'' @ BS @ ''mbfitKappa$''),
     (0xD726, ''$'' @ BS @ ''mbfitLambda$''),
     (0xD727, ''$'' @ BS @ ''mbfitMu$''),
     (0xD728, ''$'' @ BS @ ''mbfitNu$''),
     (0xD729, ''$'' @ BS @ ''mbfitXi$''),
     (0xD72A, ''$'' @ BS @ ''mbfitOmicron$''),
     (0xD72B, ''$'' @ BS @ ''mbfitPi$''),
     (0xD72C, ''$'' @ BS @ ''mbfitRho$''),
     (0xD72D, ''$'' @ BS @ ''mathbit{O}$''),
     (0xD72E, ''$'' @ BS @ ''mbfitSigma$''),
     (0xD72F, ''$'' @ BS @ ''mbfitTau$''),
     (0xD730, ''$'' @ BS @ ''mbfitUpsilon$''),
     (0xD731, ''$'' @ BS @ ''mbfitPhi$''),
     (0xD732, ''$'' @ BS @ ''mbfitChi$''),
     (0xD733, ''$'' @ BS @ ''mbfitPsi$''),
     (0xD734, ''$'' @ BS @ ''mbfitOmega$''),
     (0xD735, ''$'' @ BS @ ''mbfitnabla$''),
     (0xD736, ''$'' @ BS @ ''mbfitalpha$''),
     (0xD737, ''$'' @ BS @ ''mbfitbeta$''),
     (0xD738, ''$'' @ BS @ ''mbfitgamma$''),
     (0xD739, ''$'' @ BS @ ''mbfitdelta$''),
     (0xD73A, ''$'' @ BS @ ''mbfitepsilon$''),
     (0xD73B, ''$'' @ BS @ ''mbfitzeta$''),
     (0xD73C, ''$'' @ BS @ ''mbfiteta$''),
     (0xD73D, ''$'' @ BS @ ''mbfittheta$''),
     (0xD73E, ''$'' @ BS @ ''mbfitiota$''),
     (0xD73F, ''$'' @ BS @ ''mbfitkappa$''),
     (0xD740, ''$'' @ BS @ ''mbfitlambda$''),
     (0xD741, ''$'' @ BS @ ''mbfitmu$''),
     (0xD742, ''$'' @ BS @ ''mbfitnu$''),
     (0xD743, ''$'' @ BS @ ''mbfitxi$''),
     (0xD744, ''$'' @ BS @ ''mbfitomicron$''),
     (0xD745, ''$'' @ BS @ ''mbfitpi$''),
     (0xD746, ''$'' @ BS @ ''mbfitrho$''),
     (0xD747, ''$'' @ BS @ ''mbfitvarsigma$''),
     (0xD748, ''$'' @ BS @ ''mbfitsigma$''),
     (0xD749, ''$'' @ BS @ ''mbfittau$''),
     (0xD74A, ''$'' @ BS @ ''mbfitupsilon$''),
     (0xD74B, ''$'' @ BS @ ''mbfitphi$''),
     (0xD74C, ''$'' @ BS @ ''mbfitchi$''),
     (0xD74D, ''$'' @ BS @ ''mbfitpsi$''),
     (0xD74E, ''$'' @ BS @ ''mbfitomega$''),
     (0xD74F, ''$'' @ BS @ ''mbfitpartial$''),
     (0xD750, ''$'' @ BS @ ''mbfitvarepsilon$''),
     (0xD751, ''$'' @ BS @ ''mathbit{'' @ BS @ ''vartheta}$''),
     (0xD752, ''$'' @ BS @ ''mathbit{'' @ BS @ ''varkappa}$''),
     (0xD753, ''$'' @ BS @ ''mathbit{'' @ BS @ ''phi}$''),
     (0xD754, ''$'' @ BS @ ''mathbit{'' @ BS @ ''varrho}$''),
     (0xD755, ''$'' @ BS @ ''mathbit{'' @ BS @ ''varpi}$''),
     (0xD756, ''$'' @ BS @ ''mbfsansAlpha$''),
     (0xD757, ''$'' @ BS @ ''mbfsansBeta$''),
     (0xD758, ''$'' @ BS @ ''mbfsansGamma$''),
     (0xD759, ''$'' @ BS @ ''mbfsansDelta$''),
     (0xD75A, ''$'' @ BS @ ''mbfsansEpsilon$''),
     (0xD75B, ''$'' @ BS @ ''mbfsansZeta$''),
     (0xD75C, ''$'' @ BS @ ''mbfsansEta$''),
     (0xD75D, ''$'' @ BS @ ''mbfsansTheta$''),
     (0xD75E, ''$'' @ BS @ ''mbfsansIota$''),
     (0xD75F, ''$'' @ BS @ ''mbfsansKappa$''),
     (0xD760, ''$'' @ BS @ ''mbfsansLambda$''),
     (0xD761, ''$'' @ BS @ ''mbfsansMu$''),
     (0xD762, ''$'' @ BS @ ''mbfsansNu$''),
     (0xD763, ''$'' @ BS @ ''mbfsansXi$''),
     (0xD764, ''$'' @ BS @ ''mbfsansOmicron$''),
     (0xD765, ''$'' @ BS @ ''mbfsansPi$''),
     (0xD766, ''$'' @ BS @ ''mbfsansRho$''),
     (0xD767, ''$'' @ BS @ ''mathsfbf{'' @ BS @ ''vartheta}$''),
     (0xD768, ''$'' @ BS @ ''mbfsansSigma$''),
     (0xD769, ''$'' @ BS @ ''mbfsansTau$''),
     (0xD76A, ''$'' @ BS @ ''mbfsansUpsilon$''),
     (0xD76B, ''$'' @ BS @ ''mbfsansPhi$''),
     (0xD76C, ''$'' @ BS @ ''mbfsansChi$''),
     (0xD76D, ''$'' @ BS @ ''mbfsansPsi$''),
     (0xD76E, ''$'' @ BS @ ''mbfsansOmega$''),
     (0xD76F, ''$'' @ BS @ ''mbfsansnabla$''),
     (0xD770, ''$'' @ BS @ ''mbfsansalpha$''),
     (0xD771, ''$'' @ BS @ ''mbfsansbeta$''),
     (0xD772, ''$'' @ BS @ ''mbfsansgamma$''),
     (0xD773, ''$'' @ BS @ ''mbfsansdelta$''),
     (0xD774, ''$'' @ BS @ ''mbfsansepsilon$''),
     (0xD775, ''$'' @ BS @ ''mbfsanszeta$''),
     (0xD776, ''$'' @ BS @ ''mbfsanseta$''),
     (0xD777, ''$'' @ BS @ ''mbfsanstheta$''),
     (0xD778, ''$'' @ BS @ ''mbfsansiota$''),
     (0xD779, ''$'' @ BS @ ''mbfsanskappa$''),
     (0xD77A, ''$'' @ BS @ ''mbfsanslambda$''),
     (0xD77B, ''$'' @ BS @ ''mbfsansmu$''),
     (0xD77C, ''$'' @ BS @ ''mbfsansnu$''),
     (0xD77D, ''$'' @ BS @ ''mbfsansxi$''),
     (0xD77E, ''$'' @ BS @ ''mbfsansomicron$''),
     (0xD77F, ''$'' @ BS @ ''mbfsanspi$''),
     (0xD780, ''$'' @ BS @ ''mbfsansrho$''),
     (0xD781, ''$'' @ BS @ ''mbfsansvarsigma$''),
     (0xD782, ''$'' @ BS @ ''mbfsanssigma$''),
     (0xD783, ''$'' @ BS @ ''mbfsanstau$''),
     (0xD784, ''$'' @ BS @ ''mbfsansupsilon$''),
     (0xD785, ''$'' @ BS @ ''mbfsansphi$''),
     (0xD786, ''$'' @ BS @ ''mbfsanschi$''),
     (0xD787, ''$'' @ BS @ ''mbfsanspsi$''),
     (0xD788, ''$'' @ BS @ ''mbfsansomega$''),
     (0xD789, ''$'' @ BS @ ''mbfsanspartial$''),
     (0xD78A, ''$'' @ BS @ ''mbfsansvarepsilon$''),
     (0xD78B, ''$'' @ BS @ ''mathsfbf{'' @ BS @ ''vartheta}$''),
     (0xD78C, ''$'' @ BS @ ''mathsfbf{'' @ BS @ ''varkappa}$''),
     (0xD78D, ''$'' @ BS @ ''mathsfbf{'' @ BS @ ''phi}$''),
     (0xD78E, ''$'' @ BS @ ''mathsfbf{'' @ BS @ ''varrho}$''),
     (0xD78F, ''$'' @ BS @ ''mathsfbf{'' @ BS @ ''varpi}$''),
     (0xD790, ''$'' @ BS @ ''mbfitsansAlpha$''),
     (0xD791, ''$'' @ BS @ ''mbfitsansBeta$''),
     (0xD792, ''$'' @ BS @ ''mbfitsansGamma$''),
     (0xD793, ''$'' @ BS @ ''mbfitsansDelta$''),
     (0xD794, ''$'' @ BS @ ''mbfitsansEpsilon$''),
     (0xD795, ''$'' @ BS @ ''mbfitsansZeta$''),
     (0xD796, ''$'' @ BS @ ''mbfitsansEta$''),
     (0xD797, ''$'' @ BS @ ''mbfitsansTheta$''),
     (0xD798, ''$'' @ BS @ ''mbfitsansIota$''),
     (0xD799, ''$'' @ BS @ ''mbfitsansKappa$''),
     (0xD79A, ''$'' @ BS @ ''mbfitsansLambda$''),
     (0xD79B, ''$'' @ BS @ ''mbfitsansMu$''),
     (0xD79C, ''$'' @ BS @ ''mbfitsansNu$''),
     (0xD79D, ''$'' @ BS @ ''mbfitsansXi$''),
     (0xD79E, ''$'' @ BS @ ''mbfitsansOmicron$''),
     (0xD79F, ''$'' @ BS @ ''mbfitsansPi$''),
     (0xD7A0, ''$'' @ BS @ ''mbfitsansRho$''),
     (0xD7A1, ''$'' @ BS @ ''mathsfbfsl{'' @ BS @ ''vartheta}$''),
     (0xD7A2, ''$'' @ BS @ ''mbfitsansSigma$''),
     (0xD7A3, ''$'' @ BS @ ''mbfitsansTau$''),
     (0xD7A4, ''$'' @ BS @ ''mbfitsansUpsilon$''),
     (0xD7A5, ''$'' @ BS @ ''mbfitsansPhi$''),
     (0xD7A6, ''$'' @ BS @ ''mbfitsansChi$''),
     (0xD7A7, ''$'' @ BS @ ''mbfitsansPsi$''),
     (0xD7A8, ''$'' @ BS @ ''mbfitsansOmega$''),
     (0xD7A9, ''$'' @ BS @ ''mbfitsansnabla$''),
     (0xD7AA, ''$'' @ BS @ ''mbfitsansalpha$''),
     (0xD7AB, ''$'' @ BS @ ''mbfitsansbeta$''),
     (0xD7AC, ''$'' @ BS @ ''mbfitsansgamma$''),
     (0xD7AD, ''$'' @ BS @ ''mbfitsansdelta$''),
     (0xD7AE, ''$'' @ BS @ ''mbfitsansepsilon$''),
     (0xD7AF, ''$'' @ BS @ ''mbfitsanszeta$''),
     (0xD7B0, ''$'' @ BS @ ''mbfitsanseta$''),
     (0xD7B1, ''$'' @ BS @ ''mbfitsanstheta$''),
     (0xD7B2, ''$'' @ BS @ ''mbfitsansiota$''),
     (0xD7B3, ''$'' @ BS @ ''mbfitsanskappa$''),
     (0xD7B4, ''$'' @ BS @ ''mbfitsanslambda$''),
     (0xD7B5, ''$'' @ BS @ ''mbfitsansmu$''),
     (0xD7B6, ''$'' @ BS @ ''mbfitsansnu$''),
     (0xD7B7, ''$'' @ BS @ ''mbfitsansxi$''),
     (0xD7B8, ''$'' @ BS @ ''mbfitsansomicron$''),
     (0xD7B9, ''$'' @ BS @ ''mbfitsanspi$''),
     (0xD7BA, ''$'' @ BS @ ''mbfitsansrho$''),
     (0xD7BB, ''$'' @ BS @ ''mbfitsansvarsigma$''),
     (0xD7BC, ''$'' @ BS @ ''mbfitsanssigma$''),
     (0xD7BD, ''$'' @ BS @ ''mbfitsanstau$''),
     (0xD7BE, ''$'' @ BS @ ''mbfitsansupsilon$''),
     (0xD7BF, ''$'' @ BS @ ''mbfitsansphi$''),
     (0xD7C0, ''$'' @ BS @ ''mbfitsanschi$''),
     (0xD7C1, ''$'' @ BS @ ''mbfitsanspsi$''),
     (0xD7C2, ''$'' @ BS @ ''mbfitsansomega$''),
     (0xD7C3, ''$'' @ BS @ ''mbfitsanspartial$''),
     (0xD7C4, ''$'' @ BS @ ''mbfitsansvarepsilon$''),
     (0xD7C5, ''$'' @ BS @ ''mathsfbfsl{'' @ BS @ ''vartheta}$''),
     (0xD7C6, ''$'' @ BS @ ''mathsfbfsl{'' @ BS @ ''varkappa}$''),
     (0xD7C7, ''$'' @ BS @ ''mathsfbfsl{'' @ BS @ ''phi}$''),
     (0xD7C8, ''$'' @ BS @ ''mathsfbfsl{'' @ BS @ ''varrho}$''),
     (0xD7C9, ''$'' @ BS @ ''mathsfbfsl{'' @ BS @ ''varpi}$''),
     (0xD7CE, ''$'' @ BS @ ''mbfzero$''),
     (0xD7CF, ''$'' @ BS @ ''mbfone$''),
     (0xD7D0, ''$'' @ BS @ ''mbftwo$''),
     (0xD7D1, ''$'' @ BS @ ''mbfthree$''),
     (0xD7D2, ''$'' @ BS @ ''mbffour$''),
     (0xD7D3, ''$'' @ BS @ ''mbffive$''),
     (0xD7D4, ''$'' @ BS @ ''mbfsix$''),
     (0xD7D5, ''$'' @ BS @ ''mbfseven$''),
     (0xD7D6, ''$'' @ BS @ ''mbfeight$''),
     (0xD7D7, ''$'' @ BS @ ''mbfnine$''),
     (0xD7D8, ''$'' @ BS @ ''Bbbzero$''),
     (0xD7D9, ''$'' @ BS @ ''Bbbone$''),
     (0xD7DA, ''$'' @ BS @ ''Bbbtwo$''),
     (0xD7DB, ''$'' @ BS @ ''Bbbthree$''),
     (0xD7DC, ''$'' @ BS @ ''Bbbfour$''),
     (0xD7DD, ''$'' @ BS @ ''Bbbfive$''),
     (0xD7DE, ''$'' @ BS @ ''Bbbsix$''),
     (0xD7DF, ''$'' @ BS @ ''Bbbseven$''),
     (0xD7E0, ''$'' @ BS @ ''Bbbeight$''),
     (0xD7E1, ''$'' @ BS @ ''Bbbnine$''),
     (0xD7E2, ''$'' @ BS @ ''msanszero$''),
     (0xD7E3, ''$'' @ BS @ ''msansone$''),
     (0xD7E4, ''$'' @ BS @ ''msanstwo$''),
     (0xD7E5, ''$'' @ BS @ ''msansthree$''),
     (0xD7E6, ''$'' @ BS @ ''msansfour$''),
     (0xD7E7, ''$'' @ BS @ ''msansfive$''),
     (0xD7E8, ''$'' @ BS @ ''msanssix$''),
     (0xD7E9, ''$'' @ BS @ ''msansseven$''),
     (0xD7EA, ''$'' @ BS @ ''msanseight$''),
     (0xD7EB, ''$'' @ BS @ ''msansnine$''),
     (0xD7EC, ''$'' @ BS @ ''mbfsanszero$''),
     (0xD7ED, ''$'' @ BS @ ''mbfsansone$''),
     (0xD7EE, ''$'' @ BS @ ''mbfsanstwo$''),
     (0xD7EF, ''$'' @ BS @ ''mbfsansthree$''),
     (0xD7F0, ''$'' @ BS @ ''mbfsansfour$''),
     (0xD7F1, ''$'' @ BS @ ''mbfsansfive$''),
     (0xD7F2, ''$'' @ BS @ ''mbfsanssix$''),
     (0xD7F3, ''$'' @ BS @ ''mbfsansseven$''),
     (0xD7F4, ''$'' @ BS @ ''mbfsanseight$''),
     (0xD7F5, ''$'' @ BS @ ''mbfsansnine$''),
     (0xD7F6, ''$'' @ BS @ ''mttzero$''),
     (0xD7F7, ''$'' @ BS @ ''mttone$''),
     (0xD7F8, ''$'' @ BS @ ''mtttwo$''),
     (0xD7F9, ''$'' @ BS @ ''mttthree$''),
     (0xD7FA, ''$'' @ BS @ ''mttfour$''),
     (0xD7FB, ''$'' @ BS @ ''mttfive$''),
     (0xD7FC, ''$'' @ BS @ ''mttsix$''),
     (0xD7FD, ''$'' @ BS @ ''mttseven$''),
     (0xD7FE, ''$'' @ BS @ ''mtteight$''),
     (0xD7FF, ''$'' @ BS @ ''mttnine$'')
   ]"

text \<open>The dictionary literal \<open>uni2tex\<close>, in the order of the source.\<close>

definition uni2tex :: "(nat \<times> string) list" where
  "uni2tex =
     uni2tex_00 @ uni2tex_01 @ uni2tex_02 @ uni2tex_03 @ uni2tex_04 @ uni2tex_20 @
     uni2tex_21 @ uni2tex_22 @ uni2tex_23 @ uni2tex_24 @ uni2tex_25 @ uni2tex_26 @
     uni2tex_27 @ uni2tex_29 @ uni2tex_2A @ uni2tex_30 @ uni2tex_FB @ uni2tex_D4 @
     uni2tex_D5 @ uni2tex_D6 @ uni2tex_D7"

text \<open>\<open>uni2tex.get(c, c)\<close>, for one character \<open>c\<close> of the text.\<close>

definition uni2tex_get :: "nat \<Rightarrow> str" where
  "uni2tex_get c = (case map_of uni2tex c of None \<Rightarrow> [c] | Some r \<Rightarrow> lit r)"

text \<open>
  Line 2616: \<open>''.join((map(lambda c: uni2tex.get(c, c), text)))\<close>.  The first function is
  the expression on a string; the second is the call on a variable that may hold
  \<open>None\<close>, over which \<open>map\<close> cannot iterate.
\<close>

definition sanitizeBibtexField :: "str \<Rightarrow> str" where
  "sanitizeBibtexField text = join [] (map uni2tex_get text)"

definition sanitizeBibtexField_call :: "pystr \<Rightarrow> error + str" where
  "sanitizeBibtexField_call v =
     (case v of None \<Rightarrow> Inl TypeError | Some text \<Rightarrow> Inr (sanitizeBibtexField text))"


text \<open>
  The shape of the table.  The keys of each part have the same high byte and increase
  strictly, and the parts have different high bytes; so no key occurs twice, and the
  association list read from the front is the dictionary.  \<open>ascii_keys\<close> are the keys below
  U+00A0.
\<close>

definition key_row :: "nat \<Rightarrow> (nat \<times> string) list \<Rightarrow> bool" where
  "key_row h chunk \<longleftrightarrow>
     list_all (\<lambda>p. h * 256 \<le> fst p \<and> fst p < (h + 1) * 256) chunk \<and>
     sorted_wrt (<) (map fst chunk)"

definition uni2tex_rows :: "(nat \<times> (nat \<times> string) list) list" where
  "uni2tex_rows =
     [(0x00, uni2tex_00), (0x01, uni2tex_01), (0x02, uni2tex_02), (0x03, uni2tex_03),
      (0x04, uni2tex_04), (0x20, uni2tex_20), (0x21, uni2tex_21), (0x22, uni2tex_22),
      (0x23, uni2tex_23), (0x24, uni2tex_24), (0x25, uni2tex_25), (0x26, uni2tex_26),
      (0x27, uni2tex_27), (0x29, uni2tex_29), (0x2A, uni2tex_2A), (0x30, uni2tex_30),
      (0xFB, uni2tex_FB), (0xD4, uni2tex_D4), (0xD5, uni2tex_D5), (0xD6, uni2tex_D6),
      (0xD7, uni2tex_D7)]"

definition ascii_keys :: "nat set" where
  "ascii_keys =
     {0x23, 0x24, 0x25, 0x26, 0x27, 0x2A, 0x2B, 0x2D, 0x3B, 0x3C, 0x3E, 0x5C, 0x5E, 0x5F,
      0x60, 0x7B, 0x7C, 0x7D, 0x7E}"


section \<open>The Filename Sanitizer: \<open>sanitizeFileName\<close>\<close>

definition sanitizeFileName :: "str \<Rightarrow> error + str" where
  "sanitizeFileName text =
     (let result = translate
            [(ord (CHR ''{''), None),
             (ord (CHR ''}''), None),
             (ord (CHR ''[''), None),
             (ord (CHR '']''), None),
             (ord (CHR 0x22), None),
             (ord (CHR ''/''), Some (lit '' '')),
             (ord (CHR ''?''), None)] text
      in bindE (getitem result (- 1)) (\<lambda>final.
           if final = ord (CHR ''.'') then Inr (slice_until result (- 1)) else Inr result))"


section \<open>The BibTeX Serializer: \<open>createBibtexContent\<close>\<close>

text \<open>
  A \<open>StringIO\<close> is modelled by the text written to it so far.  \<open>write\<close> raises
  \<open>TypeError\<close> when its argument is \<open>None\<close>.
\<close>

definition write_to :: "str \<Rightarrow> pystr \<Rightarrow> error + str" where
  "write_to stringBuffer v =
     (case v of None \<Rightarrow> Inl TypeError | Some s \<Rightarrow> Inr (stringBuffer @ s))"

definition appendFormattedField :: "str \<Rightarrow> string \<Rightarrow> pystr \<Rightarrow> error + str" where
  "appendFormattedField stringBuffer name v =
     bindE (write_to stringBuffer (Some (lit ''   '' @ lit name @ lit ('' = '' @ DQ)))) (\<lambda>b1.
     bindE (write_to b1 v) (\<lambda>b2.
     write_to b2 (Some (lit (DQ @ '',\<newline>'')))))"

definition formatAuthor :: "Author \<Rightarrow> error + str" where
  "formatAuthor author =
     bindE (py_add (lastName author) (Some (lit '', ''))) (\<lambda>s1.
     bindE (py_add (Some s1) (initials author)) (\<lambda>s2.
     py_add (Some s2) (Some (lit ''.''))))"

text \<open>Lines 2626 to 2629.\<close>

definition authorsText_of :: "Reference \<Rightarrow> error + str" where
  "authorsText_of reference =
     (if length (authors reference) > 0
      then bindE (map_raise formatAuthor (authors reference)) (\<lambda>parts.
             Inr (join (lit '' and '') parts))
      else Inr [])"

text \<open>Lines 2631 to 2634.\<close>

definition pages_of :: "Reference \<Rightarrow> error + pystr" where
  "pages_of reference =
     (if endPage reference \<noteq> Some []
      then bindE (py_add (startPage reference) (Some (lit ''--''))) (\<lambda>s.
           bindE (py_add (Some s) (endPage reference)) (\<lambda>t. Inr (Some t)))
      else Inr (startPage reference))"

text \<open>Lines 2637 to 2640.\<close>

definition theJournal_of :: "Reference \<Rightarrow> pystr" where
  "theJournal_of reference =
     (if journalAb reference \<noteq> Some [] then journalAb reference else journal reference)"

text \<open>Lines 2642 to 2650: the text of the \<open>notes\<close> buffer.\<close>

definition notes_of :: "Reference \<Rightarrow> str \<Rightarrow> error + str" where
  "notes_of reference p =
     bindE (if doi reference \<noteq> Some []
            then bindE (write_to [] (Some (lit (''[DOI:'' @ BS @ ''href{https://dx.doi.org/'')))) (\<lambda>n1.
                 bindE (py_add (doi reference) (Some (lit ''}{''))) (\<lambda>s1.
                 bindE (py_add (Some s1) (doi reference)) (\<lambda>s2.
                 bindE (py_add (Some s2) (Some (lit ''}] [''))) (\<lambda>s3.
                 write_to n1 (Some s3)))))
            else write_to [] (Some (lit ''[''))) (\<lambda>n2.
     bindE (write_to n2 (Some (lit (''PubMed:'' @ BS @ ''href{https://www.ncbi.nlm.nih.gov/pubmed/'')))) (\<lambda>n3.
     bindE (write_to n3 (Some (p @ lit ''}{'' @ p @ lit ''}''))) (\<lambda>n4.
     write_to n4 (Some (lit '']'')))))"

text \<open>Lines 2652 to 2674.\<close>

definition createBibtexContent :: "Reference \<Rightarrow> str \<Rightarrow> error + str" where
  "createBibtexContent reference p =
     bindE (authorsText_of reference) (\<lambda>authorsText.
     bindE (pages_of reference) (\<lambda>pages.
     let theJournal = theJournal_of reference in
     bindE (notes_of reference p) (\<lambda>notes.
     bindE (write_to [] (Some (lit ''% '' @ p @ lit ''\<newline>''))) (\<lambda>r1.
     bindE (write_to r1 (Some (lit ''@Article{pmid'' @ p @ lit '',\<newline>''))) (\<lambda>r2.
     bindE (sanitizeBibtexField_call (title reference)) (\<lambda>t.
     bindE (write_to r2 (Some (lit (''   title = '' @ DQ @ ''{'') @ t @ lit (''}'' @ DQ @ '',\<newline>'')))) (\<lambda>r3.
     bindE (sanitizeBibtexField_call (Some authorsText)) (\<lambda>a.
     bindE (appendFormattedField r3 ''author'' (Some a)) (\<lambda>r4.
     bindE (sanitizeBibtexField_call theJournal) (\<lambda>j.
     bindE (appendFormattedField r4 ''journal'' (Some j)) (\<lambda>r5.
     bindE (appendFormattedField r5 ''volume'' (volume reference)) (\<lambda>r6.
     bindE (appendFormattedField r6 ''number'' (issue reference)) (\<lambda>r7.
     bindE (appendFormattedField r7 ''pages'' pages) (\<lambda>r8.
     bindE (appendFormattedField r8 ''year'' (pbyear reference)) (\<lambda>r9.
     bindE (appendFormattedField r9 ''month'' (pbmonth reference)) (\<lambda>r10.
     bindE (if issn reference \<noteq> Some []
            then appendFormattedField r10 ''issn'' (issn reference)
            else Inr r10) (\<lambda>r11.
     bindE (if copyright reference \<noteq> Some []
            then bindE (sanitizeBibtexField_call (copyright reference)) (\<lambda>c.
                   appendFormattedField r11 ''copyright'' (Some c))
            else Inr r11) (\<lambda>r12.
     bindE (write_to r12 (Some (lit (''   abstract = '' @ DQ @ ''{'')))) (\<lambda>r13.
     bindE (sanitizeBibtexField_call (abstract reference)) (\<lambda>ab.
     bindE (write_to r13 (Some ab)) (\<lambda>r14.
     bindE (write_to r14 (Some (lit (''}'' @ DQ @ '',\<newline>'')))) (\<lambda>r15.
     bindE (write_to r15 (Some (lit ''   note = {'' @ notes @ lit ''}''))) (\<lambda>r16.
     write_to r16 (Some (lit ''\<newline>}\<newline>'')))))))))))))))))))))))))"


section \<open>The title of a BibTeX text: \<open>getTitle\<close>\<close>

text \<open>
  \<open>re.search(r'title = (.*?)\n', s)\<close>.  At a position of \<open>s\<close> the pattern matches when
  \<open>title = \<close> starts there and a line feed follows; the dot does not match a line feed
  and \<open>*?\<close> is lazy, so the match ends at the first line feed.  The search takes the
  leftmost position with a match; \<open>group()\<close> is the matched text.
\<close>

definition match_title_at :: "str \<Rightarrow> str option" where
  "match_title_at s =
     (let pat = lit ''title = ''; rest = drop (length pat) s
      in if take (length pat) s = pat \<and> ord (CHR ''\<newline>'') \<in> set rest
         then Some (pat @ takeWhile (\<lambda>c. c \<noteq> ord (CHR ''\<newline>'')) rest @ lit ''\<newline>'')
         else None)"

fun search_title :: "str \<Rightarrow> str option" where
  "search_title [] = match_title_at []"
| "search_title (c # cs) =
     (case match_title_at (c # cs) of Some m \<Rightarrow> Some m | None \<Rightarrow> search_title cs)"

text \<open>Lines 2703 to 2708; \<open>group\<close> on the \<open>None\<close> of a failed search raises.\<close>

definition getTitle :: "str \<Rightarrow> error + str" where
  "getTitle bibtex_content =
     (case search_title bibtex_content of
        None \<Rightarrow> Inl AttributeError
      | Some matched \<Rightarrow>
          Inr (translate [(ord (CHR ''{''), None), (ord (CHR ''}''), None)]
                 (rstrip (lit ''},\<newline>'') (lstrip (lit ''title = {'') matched))))"


section \<open>The wording of the specification\<close>

text \<open>
  The Text Escaper in the words of the specification: code point by code point, a key of
  the Escape Table is replaced by its substitution and any other code point is kept.
\<close>

definition escape_table_keys :: "nat set" where
  "escape_table_keys = fst ` set uni2tex"

definition escape_code_point :: "nat \<Rightarrow> str" where
  "escape_code_point c =
     (if c \<in> escape_table_keys then lit (the (map_of uni2tex c)) else [c])"

primrec escape_spec :: "str \<Rightarrow> str" where
  "escape_spec [] = []"
| "escape_spec (c # cs) = escape_code_point c @ escape_spec cs"

text \<open>
  The Filename Sanitizer in the words of the specification, before the trailing dot is
  looked at: the characters \<open>{ } [ ] " ?\<close> are removed and every \<open>/\<close> becomes a space.
\<close>

definition removals_spec :: "str \<Rightarrow> str" where
  "removals_spec text =
     map (\<lambda>c. if c = ord (CHR ''/'') then ord (CHR '' '') else c)
       (filter (\<lambda>c. c \<notin> {ord (CHR ''{''), ord (CHR ''}''), ord (CHR ''[''), ord (CHR '']''),
                          ord (CHR 0x22), ord (CHR ''?'')}) text)"

text \<open>
  The BibTeX Serializer in the words of the specification: an author is rendered as
  \<open><lastName>, <initials>.\<close> and a field is written as \<open>   <name> = "<value>",\<close> followed by
  a line feed.
\<close>

definition author_spec :: "Author \<Rightarrow> str" where
  "author_spec a = the (lastName a) @ lit '', '' @ the (initials a) @ lit ''.''"

definition field_line :: "string \<Rightarrow> str \<Rightarrow> str" where
  "field_line name v = lit ''   '' @ lit name @ lit ('' = '' @ DQ) @ v @ lit (DQ @ '',\<newline>'')"


section \<open>Example inputs\<close>

text \<open>A record with one author, a journal, a year and a page range.\<close>

definition example_reference :: Reference where
  "example_reference =
     (new_Reference (lit ''31726262''))
       \<lparr>title := Some (lit ''A Study''),
        authors := [new_Author\<lparr>lastName := Some (lit ''Smith''), initials := Some (lit ''J'')\<rparr>],
        journal := Some (lit ''Nature''),
        startPage := Some (lit ''100''),
        endPage := Some (lit ''110''),
        pbyear := Some (lit ''2019'')\<rparr>"

text \<open>A record with an end page and no start page.\<close>

definition end_page_only :: Reference where
  "end_page_only = (new_Reference (lit ''1''))\<lparr>endPage := Some (lit ''5'')\<rparr>"

text \<open>A record whose only author has a last name that starts with an apostrophe.\<close>

definition apostrophe_author :: Reference where
  "apostrophe_author =
     (new_Reference (lit ''1''))
       \<lparr>authors := [new_Author\<lparr>lastName := Some (lit (SQ @ ''t Hooft'')),
                               initials := Some (lit ''G'')\<rparr>]\<rparr>"

text \<open>
  PubMed documents as \<open>fromstring\<close> returns them: an element without attributes that only
  holds children, one that only holds text, and an \<open>ArticleId\<close> with its \<open>IdType\<close>.
\<close>

definition node :: "string \<Rightarrow> element list \<Rightarrow> element" where
  "node name cs = Element (lit name) [] None cs"

definition leaf :: "string \<Rightarrow> string \<Rightarrow> element" where
  "leaf name t = Element (lit name) [] (Some (lit t)) []"

definition article_id :: "string \<Rightarrow> string \<Rightarrow> element" where
  "article_id idType t = Element (lit ''ArticleId'') [(lit ''IdType'', lit idType)] (Some (lit t)) []"

definition pubmed_document :: "element list \<Rightarrow> element list \<Rightarrow> element" where
  "pubmed_document articleChildren ids =
     node ''PubmedArticleSet''
       [node ''PubmedArticle''
          [node ''MedlineCitation'' [node ''Article'' articleChildren],
           node ''PubmedData'' [node ''ArticleIdList'' ids]]]"

text \<open>A complete record with a DOI.\<close>

definition document_with_doi :: element where
  "document_with_doi =
     pubmed_document
       [node ''Journal''
          [leaf ''ISSN'' ''0028-0836'',
           node ''JournalIssue''
             [leaf ''Volume'' ''12'', node ''PubDate'' [leaf ''Year'' ''2019'']],
           leaf ''Title'' ''Nature''],
        leaf ''ArticleTitle'' ''A Study'',
        node ''AuthorList'' [node ''Author'' [leaf ''LastName'' ''Smith'', leaf ''Initials'' ''J'']]]
       [article_id ''pubmed'' ''31726262'', article_id ''doi'' ''10.1000/x'']"

text \<open>The same record without a DOI.\<close>

definition document_without_doi :: element where
  "document_without_doi =
     pubmed_document
       [node ''Journal''
          [node ''JournalIssue''
             [leaf ''Volume'' ''12'', node ''PubDate'' [leaf ''Year'' ''2019'']],
           leaf ''Title'' ''Nature''],
        leaf ''ArticleTitle'' ''A Study'',
        node ''AuthorList'' [node ''Author'' [leaf ''LastName'' ''Smith'', leaf ''Initials'' ''J'']]]
       [article_id ''pubmed'' ''31726262'']"

text \<open>
  The same record with a DOI identifier that has no text, \<open><ArticleId IdType="doi"/>\<close>.
\<close>

definition document_with_textless_doi :: element where
  "document_with_textless_doi =
     pubmed_document
       [node ''Journal''
          [node ''JournalIssue''
             [leaf ''Volume'' ''12'', node ''PubDate'' [leaf ''Year'' ''2019'']],
           leaf ''Title'' ''Nature''],
        leaf ''ArticleTitle'' ''A Study'',
        node ''AuthorList'' [node ''Author'' [leaf ''LastName'' ''Smith'', leaf ''Initials'' ''J'']]]
       [article_id ''pubmed'' ''31726262'',
        Element (lit ''ArticleId'') [(lit ''IdType'', lit ''doi'')] None []]"

text \<open>A record whose \<open>Journal\<close> has no \<open>JournalIssue\<close>.\<close>

definition document_without_journal_issue :: element where
  "document_without_journal_issue =
     pubmed_document
       [node ''Journal'' [leaf ''Title'' ''Nature''],
        leaf ''ArticleTitle'' ''A Study'',
        node ''AuthorList'' [node ''Author'' [leaf ''LastName'' ''Smith'', leaf ''Initials'' ''J'']]]
       [article_id ''pubmed'' ''31726262'']"

text \<open>A record without authors: its \<open>Article\<close> has no \<open>AuthorList\<close>.\<close>

definition document_without_author_list :: element where
  "document_without_author_list =
     pubmed_document
       [node ''Journal''
          [node ''JournalIssue''
             [leaf ''Volume'' ''12'', node ''PubDate'' [leaf ''Year'' ''2019'']],
           leaf ''Title'' ''Nature''],
        leaf ''ArticleTitle'' ''A Study'']
       [article_id ''pubmed'' ''31726262'']"

text \<open>The records that \<open>parseXML\<close> builds from the two complete documents.\<close>

definition reference_with_doi :: Reference where
  "reference_with_doi =
     (new_Reference (lit ''31726262''))
       \<lparr>title := Some (lit ''A Study''),
        authors := [new_Author\<lparr>lastName := Some (lit ''Smith''), initials := Some (lit ''J'')\<rparr>],
        journal := Some (lit ''Nature''),
        volume := Some (lit ''12''),
        doi := Some (lit ''10.1000/x''),
        pbyear := Some (lit ''2019''),
        issn := Some (lit ''0028-0836''),
        article_url := Some (lit ''https://doi.org/10.1000/x'')\<rparr>"

definition reference_without_doi :: Reference where
  "reference_without_doi =
     (new_Reference (lit ''31726262''))
       \<lparr>title := Some (lit ''A Study''),
        authors := [new_Author\<lparr>lastName := Some (lit ''Smith''), initials := Some (lit ''J'')\<rparr>],
        journal := Some (lit ''Nature''),
        volume := Some (lit ''12''),
        pbyear := Some (lit ''2019''),
        article_url := Some (lit ''https://pubmed.ncbi.nlm.nih.gov/31726262/'')\<rparr>"

text \<open>The record that \<open>parseXML\<close> builds from the document with the DOI without text.\<close>

definition reference_textless_doi :: Reference where
  "reference_textless_doi =
     (new_Reference (lit ''31726262''))
       \<lparr>title := Some (lit ''A Study''),
        authors := [new_Author\<lparr>lastName := Some (lit ''Smith''), initials := Some (lit ''J'')\<rparr>],
        journal := Some (lit ''Nature''),
        volume := Some (lit ''12''),
        doi := None,
        pbyear := Some (lit ''2019''),
        article_url := Some (lit ''https://doi.org/None'')\<rparr>"


section \<open>Facts about the Python primitives\<close>

lemma ord_simps:
  "ord (CHR ''{'') = 123" "ord (CHR ''}'') = 125" "ord (CHR ''['') = 91" "ord (CHR '']'') = 93"
  "ord (CHR 0x22) = 34" "ord (CHR ''/'') = 47" "ord (CHR ''?'') = 63" "ord (CHR ''.'') = 46"
  "ord (CHR '' '') = 32" "ord (CHR ''\<newline>'') = 10"
  by (simp_all add: ord_def)

lemma lit_append: "lit (a @ b) = lit a @ lit b"
  by (simp add: lit_def)

lemma bindE_Inr: "bindE (Inr x) f = f x"
  by (simp add: bindE_def)

lemma bindE_Inl: "bindE (Inl e) f = Inl e"
  by (simp add: bindE_def)

lemma getitem_last: "xs \<noteq> [] \<Longrightarrow> getitem xs (- 1) = Inr (last xs)"
  by (cases xs rule: rev_cases) (simp_all add: getitem_def nat_add_distrib)

lemma getitem_Nil: "getitem [] i = Inl IndexError"
  by (simp add: getitem_def)

lemma slice_until_butlast: "slice_until xs (- 1) = butlast xs"
  by (cases xs rule: rev_cases) (simp_all add: slice_until_def Let_def)

lemma join_empty_sep: "join [] xs = concat xs"
  by (induction "[] :: str" xs rule: join.induct) simp_all

lemma write_to_Some: "write_to b (Some s) = Inr (b @ s)"
  by (simp add: write_to_def)

lemma py_add_Some: "py_add (Some x) (Some y) = Inr (x @ y)"
  by (simp add: py_add_def)

lemma translate_removals:
  "translate
     [(ord (CHR ''{''), None), (ord (CHR ''}''), None), (ord (CHR ''[''), None),
      (ord (CHR '']''), None), (ord (CHR 0x22), None), (ord (CHR ''/''), Some (lit '' '')),
      (ord (CHR ''?''), None)] t = removals_spec t"
  by (induction t) (simp_all add: translate_def removals_spec_def ord_simps lit_def)


section \<open>Facts about the Escape Table\<close>

lemma uni2tex_get_spec: "uni2tex_get c = escape_code_point c"
proof (cases "map_of uni2tex c")
  case None
  then have "c \<notin> fst ` set uni2tex"
    by (simp add: map_of_eq_None_iff)
  with None show ?thesis
    by (simp add: uni2tex_get_def escape_code_point_def escape_table_keys_def)
next
  case (Some r)
  then have "c \<in> fst ` set uni2tex"
    by (metis map_of_eq_None_iff option.distinct(1))
  with Some show ?thesis
    by (simp add: uni2tex_get_def escape_code_point_def escape_table_keys_def)
qed

lemma sanitizeBibtexField_Nil: "sanitizeBibtexField [] = []"
  by (simp add: sanitizeBibtexField_def)

lemma sanitizeBibtexField_Cons:
  "sanitizeBibtexField (c # cs) = uni2tex_get c @ sanitizeBibtexField cs"
  by (simp add: sanitizeBibtexField_def join_empty_sep)

text \<open>The entries for the ASCII and Latin-1 characters come first, so they decide.\<close>

lemma uni2tex_lookup_00: "map_of uni2tex_00 k = Some v \<Longrightarrow> map_of uni2tex k = Some v"
  by (simp add: uni2tex_def)

lemma uni2tex_00_at:
  "map_of uni2tex_00 0x23 = Some (''{'' @ BS @ ''#}'')"
  "map_of uni2tex_00 0x27 = Some (''{'' @ BS @ ''textquotesingle}'')"
  "map_of uni2tex_00 0x5C = Some (''{'' @ BS @ ''textbackslash}'')"
  "map_of uni2tex_00 0x7B = Some (''$'' @ BS @ ''lbrace$'')"
  "map_of uni2tex_00 0x7D = Some (''$'' @ BS @ ''rbrace$'')"
  "map_of uni2tex_00 0xE9 = Some (''{'' @ BS @ SQ @ ''{e}}'')"
  by (simp_all add: uni2tex_00_def)

lemma uni2tex_get_at:
  "uni2tex_get 0x23 = lit (''{'' @ BS @ ''#}'')"
  "uni2tex_get 0x27 = lit (''{'' @ BS @ ''textquotesingle}'')"
  "uni2tex_get 0x5C = lit (''{'' @ BS @ ''textbackslash}'')"
  "uni2tex_get 0x7B = lit (''$'' @ BS @ ''lbrace$'')"
  "uni2tex_get 0x7D = lit (''$'' @ BS @ ''rbrace$'')"
  "uni2tex_get 0xE9 = lit (''{'' @ BS @ SQ @ ''{e}}'')"
  by (simp_all add: uni2tex_get_def uni2tex_lookup_00 [OF uni2tex_00_at(1)]
      uni2tex_lookup_00 [OF uni2tex_00_at(2)] uni2tex_lookup_00 [OF uni2tex_00_at(3)]
      uni2tex_lookup_00 [OF uni2tex_00_at(4)] uni2tex_lookup_00 [OF uni2tex_00_at(5)]
      uni2tex_lookup_00 [OF uni2tex_00_at(6)])

text \<open>The shape of the table: no key occurs twice, and plain ASCII text is not changed.\<close>

lemma uni2tex_key_rows:
  "key_row 0x00 uni2tex_00" "key_row 0x01 uni2tex_01" "key_row 0x02 uni2tex_02"
  "key_row 0x03 uni2tex_03" "key_row 0x04 uni2tex_04" "key_row 0x20 uni2tex_20"
  "key_row 0x21 uni2tex_21" "key_row 0x22 uni2tex_22" "key_row 0x23 uni2tex_23"
  "key_row 0x24 uni2tex_24" "key_row 0x25 uni2tex_25" "key_row 0x26 uni2tex_26"
  "key_row 0x27 uni2tex_27" "key_row 0x29 uni2tex_29" "key_row 0x2A uni2tex_2A"
  "key_row 0x30 uni2tex_30" "key_row 0xFB uni2tex_FB" "key_row 0xD4 uni2tex_D4"
  "key_row 0xD5 uni2tex_D5" "key_row 0xD6 uni2tex_D6" "key_row 0xD7 uni2tex_D7"
  unfolding key_row_def
  by (simp_all add: uni2tex_00_def uni2tex_01_def uni2tex_02_def uni2tex_03_def uni2tex_04_def
      uni2tex_20_def uni2tex_21_def uni2tex_22_def uni2tex_23_def uni2tex_24_def uni2tex_25_def
      uni2tex_26_def uni2tex_27_def uni2tex_29_def uni2tex_2A_def uni2tex_30_def uni2tex_FB_def
      uni2tex_D4_def uni2tex_D5_def uni2tex_D6_def uni2tex_D7_def
      sorted_wrt2 sorted_wrt1 del: sorted_wrt.simps)


lemma uni2tex_concat_rows: "uni2tex = concat (map snd uni2tex_rows)"
  by (simp add: uni2tex_def uni2tex_rows_def)

lemma uni2tex_rows_ok: "list_all (\<lambda>(h, chunk). key_row h chunk) uni2tex_rows"
  using uni2tex_key_rows by (simp add: uni2tex_rows_def)

lemma key_row_keys: "key_row h chunk \<Longrightarrow> k \<in> fst ` set chunk \<Longrightarrow> k div 256 = h"
proof -
  assume row: "key_row h chunk" and "k \<in> fst ` set chunk"
  then obtain p where "p \<in> set chunk" and "k = fst p"
    by auto
  with row have "h * 256 \<le> k" and "k < (h + 1) * 256"
    by (auto simp: key_row_def list_all_iff)
  then show "k div 256 = h"
    by (metis add.commute div_nat_eqI mult.commute plus_1_eq_Suc)
qed

lemma key_row_distinct: "key_row h chunk \<Longrightarrow> distinct (map fst chunk)"
  by (simp add: key_row_def strict_sorted_iff)

lemma rows_distinct:
  "list_all (\<lambda>(h, chunk). key_row h chunk) rows \<Longrightarrow> distinct (map fst rows) \<Longrightarrow>
   distinct (map fst (concat (map snd rows)))"
proof (induction rows)
  case Nil
  then show ?case by simp
next
  case (Cons row rows)
  obtain h chunk where row: "row = (h, chunk)"
    by (cases row)
  from Cons.prems row have here: "key_row h chunk"
    and others: "list_all (\<lambda>(h, chunk). key_row h chunk) rows"
    and fresh: "h \<notin> fst ` set rows" and rest: "distinct (map fst rows)"
    by auto
  have "fst ` set chunk \<inter> fst ` set (concat (map snd rows)) = {}"
  proof (rule ccontr)
    assume "fst ` set chunk \<inter> fst ` set (concat (map snd rows)) \<noteq> {}"
    then obtain k where k: "k \<in> fst ` set chunk"
      and "k \<in> fst ` set (concat (map snd rows))"
      by auto
    then obtain chunk' where "chunk' \<in> snd ` set rows" and k': "k \<in> fst ` set chunk'"
      by auto
    then obtain h' where other: "(h', chunk') \<in> set rows"
      by auto
    with others have "key_row h' chunk'"
      by (auto simp: list_all_iff)
    with k' key_row_keys [OF here k] have "h' = h"
      by (simp add: key_row_keys)
    with other fresh show False
      by force
  qed
  with Cons.IH [OF others rest] key_row_distinct [OF here] row show ?case
    by simp
qed

lemma uni2tex_keys_distinct: "distinct (map fst uni2tex)"
  unfolding uni2tex_concat_rows
  by (rule rows_distinct [OF uni2tex_rows_ok]) (simp add: uni2tex_rows_def)

lemma rows_miss:
  "list_all (\<lambda>(h, chunk). key_row h chunk) rows \<Longrightarrow> k div 256 \<notin> fst ` set rows \<Longrightarrow>
   map_of (concat (map snd rows)) k = None"
proof (induction rows)
  case Nil
  then show ?case by simp
next
  case (Cons row rows)
  obtain h chunk where row: "row = (h, chunk)"
    by (cases row)
  from Cons.prems row have here: "key_row h chunk" and "k div 256 \<noteq> h"
    by auto
  then have "map_of chunk k = None"
    using key_row_keys [OF here, of k] by (auto simp: map_of_eq_None_iff)
  with Cons row show ?case
    by (simp add: map_add_def)
qed

lemma uni2tex_low: "k < 256 \<Longrightarrow> map_of uni2tex k = map_of uni2tex_00 k"
proof -
  assume "k < 256"
  then have row: "k div 256 = 0"
    by simp
  have parts: "uni2tex = uni2tex_00 @ concat (map snd (tl uni2tex_rows))"
    by (simp add: uni2tex_def uni2tex_rows_def)
  have "list_all (\<lambda>(h, chunk). key_row h chunk) (tl uni2tex_rows)"
    using uni2tex_key_rows by (simp add: uni2tex_rows_def)
  moreover have "k div 256 \<notin> fst ` set (tl uni2tex_rows)"
    unfolding row by (simp add: uni2tex_rows_def)
  ultimately have "map_of (concat (map snd (tl uni2tex_rows))) k = None"
    by (rule rows_miss)
  then show ?thesis
    unfolding parts by (simp add: map_add_def split: option.split)
qed

lemma uni2tex_00_ascii: "list_all (\<lambda>p. fst p \<in> ascii_keys \<or> 0xA0 \<le> fst p) uni2tex_00"
  by (simp add: uni2tex_00_def ascii_keys_def)

lemma uni2tex_get_plain: "c < 0xA0 \<Longrightarrow> c \<notin> ascii_keys \<Longrightarrow> uni2tex_get c = [c]"
proof -
  assume c: "c < 0xA0" "c \<notin> ascii_keys"
  with uni2tex_00_ascii have "c \<notin> fst ` set uni2tex_00"
    by (auto simp: list_all_iff)
  then have "map_of uni2tex_00 c = None"
    by (simp add: map_of_eq_None_iff)
  with c(1) uni2tex_low [of c] show ?thesis
    by (simp add: uni2tex_get_def)
qed

lemma sanitizeBibtexField_plain:
  "list_all (\<lambda>c. c < 0xA0 \<and> c \<notin> ascii_keys) s \<Longrightarrow> sanitizeBibtexField s = s"
  by (induction s) (simp_all add: sanitizeBibtexField_Nil sanitizeBibtexField_Cons uni2tex_get_plain)


section \<open>Facts about the serializer on records whose fields are strings\<close>

lemma appendFormattedField_Some:
  "appendFormattedField b name (Some v) = Inr (b @ field_line name v)"
  by (simp add: appendFormattedField_def field_line_def write_to_Some bindE_Inr)

lemma formatAuthor_typed: "author_typed a \<Longrightarrow> formatAuthor a = Inr (author_spec a)"
  by (auto simp: author_typed_def formatAuthor_def author_spec_def py_add_Some bindE_Inr)

lemma map_raise_formatAuthor:
  "list_all author_typed as \<Longrightarrow> map_raise formatAuthor as = Inr (map author_spec as)"
  by (induction as) (simp_all add: formatAuthor_typed bindE_Inr)

lemma authorsText_typed:
  assumes "reference_typed r"
  shows "authorsText_of r = Inr (join (lit '' and '') (map author_spec (authors r)))"
proof (cases "authors r = []")
  case True
  then show ?thesis
    by (simp add: authorsText_of_def)
next
  case False
  from assms have "list_all author_typed (authors r)"
    by (simp add: reference_typed_def)
  then have "map_raise formatAuthor (authors r) = Inr (map author_spec (authors r))"
    by (rule map_raise_formatAuthor)
  with False show ?thesis
    by (simp add: authorsText_of_def bindE_Inr)
qed

lemma pages_typed:
  "reference_typed r \<Longrightarrow>
   pages_of r =
     Inr (Some (if endPage r \<noteq> Some []
                then the (startPage r) @ lit ''--'' @ the (endPage r)
                else the (startPage r)))"
  by (auto simp: reference_typed_def pages_of_def py_add_Some bindE_Inr)

lemma notes_typed:
  "reference_typed r \<Longrightarrow>
   notes_of r p =
     Inr ((if doi r \<noteq> Some []
           then lit (''[DOI:'' @ BS @ ''href{https://dx.doi.org/'') @ the (doi r) @ lit ''}{'' @
                the (doi r) @ lit ''}] [''
           else lit ''['') @
          lit (''PubMed:'' @ BS @ ''href{https://www.ncbi.nlm.nih.gov/pubmed/'') @
          p @ lit ''}{'' @ p @ lit ''}'' @ lit '']'')"
  by (auto simp: reference_typed_def notes_of_def py_add_Some write_to_Some bindE_Inr)

lemma theJournal_typed: "reference_typed r \<Longrightarrow> theJournal_of r \<noteq> None"
  by (simp add: reference_typed_def theJournal_of_def)

lemma sanitizeBibtexField_call_Some:
  "sanitizeBibtexField_call (Some s) = Inr (sanitizeBibtexField s)"
  by (simp add: sanitizeBibtexField_call_def)

lemma createBibtexContent_typed:
  assumes "reference_typed r"
  shows "createBibtexContent r p =
    Inr (lit ''% '' @ p @ lit ''\<newline>'' @
         lit ''@Article{pmid'' @ p @ lit '',\<newline>'' @
         lit (''   title = '' @ DQ @ ''{'') @ sanitizeBibtexField (the (title r)) @
           lit (''}'' @ DQ @ '',\<newline>'') @
         field_line ''author''
           (sanitizeBibtexField (join (lit '' and '') (map author_spec (authors r)))) @
         field_line ''journal'' (sanitizeBibtexField (the (theJournal_of r))) @
         field_line ''volume'' (the (volume r)) @
         field_line ''number'' (the (issue r)) @
         field_line ''pages''
           (if endPage r \<noteq> Some []
            then the (startPage r) @ lit ''--'' @ the (endPage r)
            else the (startPage r)) @
         field_line ''year'' (the (pbyear r)) @
         field_line ''month'' (the (pbmonth r)) @
         (if issn r \<noteq> Some [] then field_line ''issn'' (the (issn r)) else []) @
         (if copyright r \<noteq> Some []
          then field_line ''copyright'' (sanitizeBibtexField (the (copyright r))) else []) @
         lit (''   abstract = '' @ DQ @ ''{'') @ sanitizeBibtexField (the (abstract r)) @
           lit (''}'' @ DQ @ '',\<newline>'') @
         lit ''   note = {'' @
           (if doi r \<noteq> Some []
            then lit (''[DOI:'' @ BS @ ''href{https://dx.doi.org/'') @ the (doi r) @ lit ''}{'' @
                 the (doi r) @ lit ''}] [''
            else lit ''['') @
           lit (''PubMed:'' @ BS @ ''href{https://www.ncbi.nlm.nih.gov/pubmed/'') @
           p @ lit ''}{'' @ p @ lit ''}'' @ lit '']'' @
         lit ''}'' @
         lit ''\<newline>}\<newline>'')"
proof -
  from assms obtain t j vol iss yr mo isn cr ab where fields:
    "title r = Some t" "theJournal_of r = Some j" "volume r = Some vol" "issue r = Some iss"
    "pbyear r = Some yr" "pbmonth r = Some mo" "issn r = Some isn" "copyright r = Some cr"
    "abstract r = Some ab"
    using theJournal_typed [OF assms] by (auto simp: reference_typed_def)
  show ?thesis
    unfolding createBibtexContent_def Let_def
    by (simp add: authorsText_typed [OF assms] pages_typed [OF assms] notes_typed [OF assms]
        fields bindE_Inr write_to_Some appendFormattedField_Some sanitizeBibtexField_call_Some)
qed


section \<open>Facts about the extractor\<close>

lemma bindE_InrE:
  assumes "bindE m f = Inr y"
  obtains x where "m = Inr x" and "f x = Inr y"
  using assms by (cases m) (simp_all add: bindE_def)

lemma scan_doi_doi:
  "scan_doi ids r = Inr r' \<Longrightarrow>
   doi r' = (case filter is_doi_id ids of [] \<Rightarrow> doi r | d # ds \<Rightarrow> etext (last (d # ds)))"
proof (induction ids arbitrary: r)
  case Nil
  then show ?case by simp
next
  case (Cons a ids)
  from Cons.prems obtain idType where
    key: "map_of (attrib a) (lit ''IdType'') = Some idType" and
    rest: "scan_doi ids (if idType = lit ''doi'' then r\<lparr>doi := etext a\<rparr> else r) = Inr r'"
    by (auto split: option.splits)
  from Cons.IH [OF rest] key show ?case
    by (auto simp: is_doi_id_def split: list.splits)
qed

lemma parse_abstract_keeps:
  "doi (parse_abstract a r) = doi r" "article_url (parse_abstract a r) = article_url r"
  by (simp_all add: parse_abstract_def Let_def split: option.splits)

lemma parse_pagination_keeps:
  "doi (parse_pagination a r) = doi r" "article_url (parse_pagination a r) = article_url r"
  by (simp_all add: parse_pagination_def split: option.splits)

lemma parse_journal_keeps:
  assumes "parse_journal a r = Inr r'"
  shows "doi r' = doi r \<and> article_url r' = article_url r"
proof (cases "find_elem a ''Journal''")
  case None
  with assms show ?thesis by (simp add: parse_journal_def)
next
  case (Some j)
  with assms show ?thesis
    unfolding parse_journal_def Let_def
    by (auto elim!: bindE_InrE split: option.splits)
qed

lemma parse_authors_keeps:
  assumes "parse_authors a r = Inr r'"
  shows "doi r' = doi r \<and> article_url r' = article_url r"
  using assms unfolding parse_authors_def by (auto elim!: bindE_InrE)

lemma set_article_url_doi: "doi (set_article_url p r) = doi r"
  by (simp add: set_article_url_def)

lemma parseXML_tree_url:
  assumes "parseXML_tree p root = Inr ref"
  obtains ref1 where "scan_doi (article_ids root) (new_Reference p) = Inr ref1"
    and "doi ref = doi ref1" and "article_url ref = article_url (set_article_url p ref1)"
proof -
  from assms obtain pubmedArticle rest where
    arts: "findall_elem root ''PubmedArticle'' = pubmedArticle # rest"
    by (auto simp: parseXML_tree_def split: list.splits)
  from assms arts obtain idList articleIds ref1 article_opt article ref5 where
    steps: "find_on (find_elem pubmedArticle ''PubmedData'') ''ArticleIdList'' = Inr idList"
      "iterate idList = Inr articleIds"
      "scan_doi articleIds (new_Reference p) = Inr ref1"
      "parse_journal article
         (parse_abstract article
            ((set_article_url p ref1)\<lparr>title := text_or_empty (find_elem article ''ArticleTitle'')\<rparr>))
       = Inr ref5"
      "parse_authors article (parse_pagination article ref5) = Inr ref"
    unfolding parseXML_tree_def Let_def
    by (auto elim!: bindE_InrE)
  from steps(1,2) arts have ids: "article_ids root = articleIds"
    by (auto simp: article_ids_def find_on_def deref_def iterate_def elim!: bindE_InrE
        split: option.splits)
  from parse_authors_keeps [OF steps(5)] parse_journal_keeps [OF steps(4)]
  have "doi ref = doi ref1" "article_url ref = article_url (set_article_url p ref1)"
    by (simp_all add: parse_pagination_keeps parse_abstract_keeps set_article_url_doi)
  with steps(3) ids that show ?thesis by simp
qed

lemma doi_url_differs:
  "lit ''https://doi.org/'' @ x \<noteq> lit ''https://pubmed.ncbi.nlm.nih.gov/'' @ y"
  by (simp add: lit_def ord_def)


section \<open>Facts about the example inputs\<close>

lemmas document_defs =
  pubmed_document_def node_def leaf_def article_id_def

lemmas parse_defs =
  parseXML_tree_def findall_elem_def find_elem_def find_on_def deref_def iterate_def
  text_or_empty_def set_article_url_def parse_abstract_def parse_journal_def
  parse_pagination_def parse_authors_def parse_author_def new_Reference_def new_Author_def
  format_value_def bindE_def Let_def

lemma example_reference_typed: "reference_typed example_reference"
  by (simp add: reference_typed_def example_reference_def new_Reference_def author_typed_def
      new_Author_def)

lemma end_page_only_typed: "reference_typed end_page_only"
  by (simp add: reference_typed_def end_page_only_def new_Reference_def)

lemma apostrophe_author_typed: "reference_typed apostrophe_author"
  by (simp add: reference_typed_def apostrophe_author_def new_Reference_def author_typed_def
      new_Author_def)

lemma parse_document_with_doi:
  "parseXML_tree (lit ''31726262'') document_with_doi = Inr reference_with_doi"
  by (simp add: document_with_doi_def reference_with_doi_def document_defs parse_defs lit_def
      ord_def)

lemma parse_document_without_doi:
  "parseXML_tree (lit ''31726262'') document_without_doi = Inr reference_without_doi"
  by (simp add: document_without_doi_def reference_without_doi_def document_defs parse_defs
      lit_def ord_def)

lemma article_ids_document_with_doi:
  "article_ids document_with_doi =
     [article_id ''pubmed'' ''31726262'', article_id ''doi'' ''10.1000/x'']"
  by (simp add: article_ids_def document_with_doi_def pubmed_document_def node_def
      findall_elem_def find_elem_def lit_def ord_def)

lemma parse_document_with_textless_doi:
  "parseXML_tree (lit ''31726262'') document_with_textless_doi = Inr reference_textless_doi"
  by (simp add: document_with_textless_doi_def reference_textless_doi_def document_defs
      parse_defs lit_def ord_def)


section \<open>The article URL of an extracted record\<close>

text \<open>
  What lines 119 to 125 compute, for every record that \<open>parseXML\<close> returns: the PubMed
  landing page when \<open>doi\<close> is the empty string, and \<open>https://doi.org/\<close> followed by the
  formatted \<open>doi\<close> otherwise, where a \<open>doi\<close> that is \<open>None\<close> is formatted as the text \<open>None\<close>.
  No later step of the extraction changes either field.  When the identifier list
  holds an identifier of type \<open>doi\<close> and no such identifier has the empty string as
  its text, the PubMed form is not used.
\<close>

lemma parsed_article_url:
  assumes "parseXML fromstring p xml = Inr ref"
  shows "article_url ref =
           Some (if doi ref = Some []
                 then lit ''https://pubmed.ncbi.nlm.nih.gov/'' @ p @ lit ''/''
                 else lit ''https://doi.org/'' @ format_value (doi ref)) \<and>
         (\<forall>root. fromstring xml = Inr root \<longrightarrow>
            (\<exists>a \<in> set (article_ids root). is_doi_id a) \<longrightarrow>
            (\<forall>a \<in> set (article_ids root). is_doi_id a \<longrightarrow> etext a \<noteq> Some []) \<longrightarrow>
            article_url ref = Some (lit ''https://doi.org/'' @ format_value (doi ref)) \<and>
            article_url ref \<noteq> Some (lit ''https://pubmed.ncbi.nlm.nih.gov/'' @ p @ lit ''/''))"
proof -
  from assms obtain root where root: "fromstring xml = Inr root"
    and tree: "parseXML_tree p root = Inr ref"
    unfolding parseXML_def by (auto elim!: bindE_InrE)
  from tree obtain ref1 where
    scan: "scan_doi (article_ids root) (new_Reference p) = Inr ref1" and
    same: "doi ref = doi ref1" and
    url: "article_url ref = article_url (set_article_url p ref1)"
    by (rule parseXML_tree_url)
  have first: "article_url ref =
           Some (if doi ref = Some []
                 then lit ''https://pubmed.ncbi.nlm.nih.gov/'' @ p @ lit ''/''
                 else lit ''https://doi.org/'' @ format_value (doi ref))"
    by (simp add: url same set_article_url_def)
  have second: "doi ref \<noteq> Some []"
    if some: "\<exists>a \<in> set (article_ids root). is_doi_id a"
    and texts: "\<forall>a \<in> set (article_ids root). is_doi_id a \<longrightarrow> etext a \<noteq> Some []"
  proof -
    from some obtain d ds where ds: "filter is_doi_id (article_ids root) = d # ds"
      by (cases "filter is_doi_id (article_ids root)") (auto simp: filter_empty_conv)
    then have "last (d # ds) \<in> set (filter is_doi_id (article_ids root))"
      by (metis last_in_set list.distinct(1))
    with texts have "etext (last (d # ds)) \<noteq> Some []"
      by simp
    with scan_doi_doi [OF scan] ds same show ?thesis
      by simp
  qed
  from first second root show ?thesis
    by (auto simp: doi_url_differs)
qed

lemma parsed_article_url_examples:
  "parseXML (\<lambda>xml. Inr document_with_doi) (lit ''31726262'') [] = Inr reference_with_doi \<and>
   article_ids document_with_doi =
     [article_id ''pubmed'' ''31726262'', article_id ''doi'' ''10.1000/x''] \<and>
   \<not> is_doi_id (article_id ''pubmed'' ''31726262'') \<and>
   is_doi_id (article_id ''doi'' ''10.1000/x'') \<and>
   etext (article_id ''doi'' ''10.1000/x'') = Some (lit ''10.1000/x'') \<and>
   doi reference_with_doi = Some (lit ''10.1000/x'') \<and>
   article_url reference_with_doi = Some (lit ''https://doi.org/10.1000/x'') \<and>
   article_url reference_with_doi \<noteq> Some (lit ''https://pubmed.ncbi.nlm.nih.gov/31726262/'') \<and>
   parseXML (\<lambda>xml. Inr document_without_doi) (lit ''31726262'') [] = Inr reference_without_doi \<and>
   doi reference_without_doi = Some [] \<and>
   article_url reference_without_doi = Some (lit ''https://pubmed.ncbi.nlm.nih.gov/31726262/'')"
proof -
  have with_doi:
    "parseXML (\<lambda>xml. Inr document_with_doi) (lit ''31726262'') [] = Inr reference_with_doi"
    by (simp add: parseXML_def bindE_Inr parse_document_with_doi)
  have without_doi:
    "parseXML (\<lambda>xml. Inr document_without_doi) (lit ''31726262'') [] = Inr reference_without_doi"
    by (simp add: parseXML_def bindE_Inr parse_document_without_doi)
  have ids: "\<not> is_doi_id (article_id ''pubmed'' ''31726262'')"
    "is_doi_id (article_id ''doi'' ''10.1000/x'')"
    "etext (article_id ''doi'' ''10.1000/x'') = Some (lit ''10.1000/x'')"
    by (simp_all add: is_doi_id_def article_id_def lit_def ord_def)
  have dois: "doi reference_with_doi = Some (lit ''10.1000/x'')"
    "doi reference_without_doi = Some []"
    by (simp_all add: reference_with_doi_def reference_without_doi_def new_Reference_def)
  have nonempty: "lit ''10.1000/x'' \<noteq> []"
    by (simp add: lit_def)
  have carried: "\<exists>a \<in> set (article_ids document_with_doi). is_doi_id a"
    by (simp add: article_ids_document_with_doi ids)
  have texts: "\<forall>a \<in> set (article_ids document_with_doi). is_doi_id a \<longrightarrow> etext a \<noteq> Some []"
    by (simp add: article_ids_document_with_doi ids nonempty)
  from parsed_article_url [OF with_doi] carried texts
  have "article_url reference_with_doi = Some (lit ''https://doi.org/10.1000/x'')"
    and "article_url reference_with_doi \<noteq> Some (lit ''https://pubmed.ncbi.nlm.nih.gov/31726262/'')"
    by (simp_all add: dois format_value_def lit_def)
  moreover from parsed_article_url [OF without_doi]
  have "article_url reference_without_doi =
      Some (lit ''https://pubmed.ncbi.nlm.nih.gov/31726262/'')"
    by (simp add: dois lit_def)
  ultimately show ?thesis
    using with_doi without_doi ids dois article_ids_document_with_doi by simp
qed



section \<open>The claims\<close>

text \<open>
  Claim C1.  The claim: when an optional nested node is absent, in particular
  \<open>JournalIssue\<close> under \<open>Journal\<close> or \<open>AuthorList\<close> under \<open>Article\<close>, \<open>parseXML\<close> returns a
  \<open>Reference\<close> with empty fields instead of raising.  The code tests \<open>Abstract\<close>,
  \<open>Journal\<close>, \<open>PubDate\<close>, \<open>Pagination\<close> and \<open>AffiliationInfo\<close> for \<open>None\<close>, but not
  \<open>JournalIssue\<close> and not \<open>AuthorList\<close>: on a record without \<open>JournalIssue\<close> it raises
  \<open>AttributeError\<close> (line 149), and on a record without \<open>AuthorList\<close> it raises \<open>TypeError\<close>
  (line 167).
\<close>

theorem parseXML_raises_on_missing_nodes:
  "parseXML_tree (lit ''31726262'') document_without_journal_issue = Inl AttributeError \<and>
   parseXML_tree (lit ''31726262'') document_without_author_list = Inl TypeError"
  by (simp add: document_without_journal_issue_def document_without_author_list_def
      document_defs parse_defs lit_def ord_def)

text \<open>
  Claim C2.  The claim: \<open>article_url\<close> is \<open>https://doi.org/<doi>\<close> when \<open>doi\<close> is non-empty
  and the PubMed landing page of the identifier otherwise.  For a record whose
  identifier of type \<open>doi\<close> has no text, line 121 stores the \<open>None\<close> of \<open>articleId.text\<close> in
  \<open>doi\<close>; \<open>None == ''\<close> is false at line 122, so line 125 formats \<open>None\<close> into the URL:
  \<open>parseXML\<close> returns a \<open>Reference\<close> with \<open>doi = None\<close> and the URL \<open>https://doi.org/None\<close>,
  which is neither the resolver URL of a DOI nor the PubMed landing page.  The
  abstract text is tested for \<open>None\<close> before it is stored (line 135); the identifier
  text is not.
\<close>

theorem article_url_of_textless_doi:
  "parseXML (\<lambda>xml. Inr document_with_textless_doi) (lit ''31726262'') [] =
     Inr reference_textless_doi \<and>
   doi reference_textless_doi = None \<and>
   article_url reference_textless_doi = Some (lit ''https://doi.org/None'') \<and>
   article_url reference_textless_doi \<noteq>
     Some (lit ''https://pubmed.ncbi.nlm.nih.gov/31726262/'')"
proof -
  have "parseXML (\<lambda>xml. Inr document_with_textless_doi) (lit ''31726262'') [] =
      Inr reference_textless_doi"
    by (simp add: parseXML_def bindE_Inr parse_document_with_textless_doi)
  moreover have "doi reference_textless_doi = None"
    and "article_url reference_textless_doi = Some (lit ''https://doi.org/None'')"
    by (simp_all add: reference_textless_doi_def new_Reference_def)
  moreover have "lit ''https://doi.org/None'' \<noteq> lit ''https://pubmed.ncbi.nlm.nih.gov/31726262/''"
    by (simp add: lit_def ord_def)
  ultimately show ?thesis
    by simp
qed

text \<open>
  Claim C3, as stated: the pages value is \<open>startPage + "--" + endPage\<close> when both
  are non-empty and \<open>startPage\<close> otherwise.  It fails on a record with an end page and
  no start page: the code tests \<open>endPage\<close> only, so the value is \<open>--5\<close> and not the
  empty start page.
\<close>

theorem pages_without_start_page_counterexample:
  "startPage end_page_only = Some [] \<and>
   endPage end_page_only = Some (lit ''5'') \<and>
   pages_of end_page_only = Inr (Some (lit ''--5'')) \<and>
   pages_of end_page_only \<noteq> Inr (startPage end_page_only) \<and>
   createBibtexContent end_page_only (lit ''1'') =
     Inr (lit ''% 1\<newline>@Article{pmid1,\<newline>'' @
          lit (''   title = '' @ DQ @ ''{}'' @ DQ @ '',\<newline>'') @
          field_line ''author'' [] @
          field_line ''journal'' [] @
          field_line ''volume'' [] @
          field_line ''number'' [] @
          field_line ''pages'' (lit ''--5'') @
          field_line ''year'' [] @
          field_line ''month'' [] @
          lit (''   abstract = '' @ DQ @ ''{}'' @ DQ @ '',\<newline>'') @
          lit (''   note = {[PubMed:'' @ BS @
               ''href{https://www.ncbi.nlm.nih.gov/pubmed/1}{1}]}\<newline>}\<newline>''))"
proof -
  have fields: "startPage end_page_only = Some []" "endPage end_page_only = Some (lit ''5'')"
    by (simp_all add: end_page_only_def new_Reference_def)
  have pages: "pages_of end_page_only = Inr (Some (lit ''--5''))"
    by (simp add: pages_typed [OF end_page_only_typed] fields lit_def)
  have differ: "pages_of end_page_only \<noteq> Inr (startPage end_page_only)"
    by (simp add: pages fields lit_def)
  have out: "createBibtexContent end_page_only (lit ''1'') =
     Inr (lit ''% 1\<newline>@Article{pmid1,\<newline>'' @
          lit (''   title = '' @ DQ @ ''{}'' @ DQ @ '',\<newline>'') @
          field_line ''author'' [] @
          field_line ''journal'' [] @
          field_line ''volume'' [] @
          field_line ''number'' [] @
          field_line ''pages'' (lit ''--5'') @
          field_line ''year'' [] @
          field_line ''month'' [] @
          lit (''   abstract = '' @ DQ @ ''{}'' @ DQ @ '',\<newline>'') @
          lit (''   note = {[PubMed:'' @ BS @
               ''href{https://www.ncbi.nlm.nih.gov/pubmed/1}{1}]}\<newline>}\<newline>''))"
    unfolding createBibtexContent_typed [OF end_page_only_typed]
    by (simp add: end_page_only_def new_Reference_def theJournal_of_def
        sanitizeBibtexField_Nil lit_def)
  from fields pages differ out show ?thesis by simp
qed

text \<open>
  Claim C3, amended.  For every \<open>Reference\<close> whose fields are strings, the value of
  \<open>pages\<close> is \<open>startPage + "--" + endPage\<close> when \<open>endPage\<close> is non-empty, whether or
  not \<open>startPage\<close> is, and is \<open>startPage\<close> exactly when \<open>endPage\<close> is empty; the output
  has the line of the \<open>pages\<close> field with that value, between the lines of \<open>number\<close> and
  \<open>year\<close>.
\<close>

theorem pages_joined_when_end_page:
  assumes "reference_typed r"
  shows "pages_of r =
           Inr (Some (if endPage r \<noteq> Some []
                      then the (startPage r) @ lit ''--'' @ the (endPage r)
                      else the (startPage r))) \<and>
         (\<exists>pre post. createBibtexContent r p =
            Inr (pre @
                 field_line ''number'' (the (issue r)) @
                 field_line ''pages''
                   (if endPage r \<noteq> Some []
                    then the (startPage r) @ lit ''--'' @ the (endPage r)
                    else the (startPage r)) @
                 field_line ''year'' (the (pbyear r)) @ post))"
proof
  show "pages_of r =
           Inr (Some (if endPage r \<noteq> Some []
                      then the (startPage r) @ lit ''--'' @ the (endPage r)
                      else the (startPage r)))"
    using assms by (rule pages_typed)
  show "\<exists>pre post. createBibtexContent r p =
            Inr (pre @
                 field_line ''number'' (the (issue r)) @
                 field_line ''pages''
                   (if endPage r \<noteq> Some []
                    then the (startPage r) @ lit ''--'' @ the (endPage r)
                    else the (startPage r)) @
                 field_line ''year'' (the (pbyear r)) @ post)"
    unfolding createBibtexContent_typed [OF assms]
    by (rule exI [of _ "lit ''% '' @ p @ lit ''\<newline>'' @
         lit ''@Article{pmid'' @ p @ lit '',\<newline>'' @
         lit (''   title = '' @ DQ @ ''{'') @ sanitizeBibtexField (the (title r)) @
           lit (''}'' @ DQ @ '',\<newline>'') @
         field_line ''author''
           (sanitizeBibtexField (join (lit '' and '') (map author_spec (authors r)))) @
         field_line ''journal'' (sanitizeBibtexField (the (theJournal_of r))) @
         field_line ''volume'' (the (volume r))"], rule exI)
       (simp only: append_assoc sum.inject append_same_eq same_append_eq)
qed

theorem pages_joined_when_end_page_witness:
  "reference_typed example_reference \<and>
   pages_of example_reference = Inr (Some (lit ''100--110'')) \<and>
   (\<exists>pre post. createBibtexContent example_reference (lit ''31726262'') =
      Inr (pre @ field_line ''number'' [] @ field_line ''pages'' (lit ''100--110'') @
           field_line ''year'' (lit ''2019'') @ post))"
proof -
  have pages: "(if endPage example_reference \<noteq> Some []
          then the (startPage example_reference) @ lit ''--'' @ the (endPage example_reference)
          else the (startPage example_reference)) = lit ''100--110''"
    by (simp add: example_reference_def new_Reference_def lit_def)
  have others: "the (issue example_reference) = []" "the (pbyear example_reference) = lit ''2019''"
    by (simp_all add: example_reference_def new_Reference_def)
  from pages_joined_when_end_page [OF example_reference_typed, of "lit ''31726262''"]
  show ?thesis
    unfolding pages others using example_reference_typed by simp
qed

text \<open>
  Claim C4.  The claim: \<open>sanitizeFileName\<close> returns a string on every input, the empty
  result being guarded in the trailing-dot test.  The code reads \<open>result[-1]\<close> without
  a guard: on the empty string, and on \<open>?\<close>, which the removals reduce to the empty
  string, it raises \<open>IndexError\<close>.
\<close>

theorem sanitizeFileName_empty_raises:
  "sanitizeFileName [] = Inl IndexError \<and> sanitizeFileName (lit ''?'') = Inl IndexError"
  by (simp add: sanitizeFileName_def translate_def getitem_Nil bindE_def lit_def ord_def)

text \<open>
  Claim C5.  The claim: from a text with a line \<open>title = {T},\<close> the function returns
  \<open>T\<close> without braces, whatever \<open>T\<close> begins or ends with.  \<open>lstrip('title = {')\<close> removes
  every leading character that occurs in its argument, so it also eats the start of a
  title that begins with one of \<open>t i l e\<close>, a space, \<open>=\<close> or \<open>{\<close>: for the title \<open>tRNA\<close>
  the result is \<open>RNA\<close>.
\<close>

theorem getTitle_strips_title_characters:
  "getTitle (lit ''title = {tRNA},\<newline>'') = Inr (lit ''RNA'')"
  by (simp add: getTitle_def match_title_at_def translate_def lstrip_def rstrip_def lit_def ord_def)

text \<open>
  Claim C6.  For every input string, \<open>sanitizeBibtexField\<close> returns the concatenation,
  in order over the code points of the input, of the Escape Table replacement of a
  code point that is a key and of the code point itself otherwise; no key has two
  entries in the table; the code point U+00E9 alone gives \<open>{\'{e}}\<close>.
\<close>

theorem sanitizeBibtexField_per_code_point:
  "sanitizeBibtexField t = escape_spec t \<and>
   distinct (map fst uni2tex) \<and>
   sanitizeBibtexField [0xE9] = lit (''{'' @ BS @ SQ @ ''{e}}'')"
proof (intro conjI)
  show "sanitizeBibtexField t = escape_spec t"
    by (induction t) (simp_all add: sanitizeBibtexField_Nil sanitizeBibtexField_Cons uni2tex_get_spec)
  show "distinct (map fst uni2tex)"
    by (rule uni2tex_keys_distinct)
  show "sanitizeBibtexField [0xE9] = lit (''{'' @ BS @ SQ @ ''{e}}'')"
    by (simp add: sanitizeBibtexField_Cons sanitizeBibtexField_Nil uni2tex_get_at)
qed

text \<open>
  Claim C7.  The escaper is not idempotent: the replacement \<open>{\#}\<close> of \<open>#\<close> consists of
  the keys \<open>{\<close>, backslash, \<open>#\<close> and \<open>}\<close>, so a second application changes it again.
\<close>

theorem sanitizeBibtexField_not_idempotent:
  "sanitizeBibtexField (lit ''#'') = lit (''{'' @ BS @ ''#}'') \<and>
   sanitizeBibtexField (sanitizeBibtexField (lit ''#'')) =
     lit (''$'' @ BS @ ''lbrace${'' @ BS @ ''textbackslash}{'' @ BS @ ''#}$'' @ BS @ ''rbrace$'') \<and>
   sanitizeBibtexField (sanitizeBibtexField (lit ''#'')) \<noteq> sanitizeBibtexField (lit ''#'')"
proof -
  have one: "sanitizeBibtexField (lit ''#'') = lit (''{'' @ BS @ ''#}'')"
    by (simp add: lit_def ord_def sanitizeBibtexField_Cons sanitizeBibtexField_Nil uni2tex_get_at)
  have expand: "lit (''{'' @ BS @ ''#}'') = [0x7B, 0x5C, 0x23, 0x7D]"
    by (simp add: lit_def ord_def BS_def)
  have two: "sanitizeBibtexField (lit (''{'' @ BS @ ''#}'')) =
     lit (''$'' @ BS @ ''lbrace${'' @ BS @ ''textbackslash}{'' @ BS @ ''#}$'' @ BS @ ''rbrace$'')"
    unfolding expand
    by (simp add: sanitizeBibtexField_Cons sanitizeBibtexField_Nil uni2tex_get_at lit_def)
  have differ: "lit (''$'' @ BS @ ''lbrace${'' @ BS @ ''textbackslash}{'' @ BS @ ''#}$'' @ BS @ ''rbrace$'')
       \<noteq> lit (''{'' @ BS @ ''#}'')"
    by (simp add: lit_def ord_def BS_def)
  from one two differ show ?thesis by simp
qed

text \<open>
  Claim C8, as stated: the value of the author field is the authors joined by
  \<open> and \<close>, each rendered as \<open>lastName + ', ' + initials + '.'\<close>.  It fails for an
  author whose name holds a key of the Escape Table: the joined text goes through
  \<open>sanitizeBibtexField\<close> before it is written, so for the last name \<open>'t Hooft\<close> the value
  is \<open>{\textquotesingle}t Hooft, G.\<close> and not the joined text \<open>'t Hooft, G.\<close>.
\<close>

theorem author_apostrophe_counterexample:
  "authorsText_of apostrophe_author = Inr (lit (SQ @ ''t Hooft, G.'')) \<and>
   createBibtexContent apostrophe_author (lit ''1'') =
     Inr (lit ''% 1\<newline>@Article{pmid1,\<newline>'' @
          lit (''   title = '' @ DQ @ ''{}'' @ DQ @ '',\<newline>'') @
          field_line ''author'' (lit (''{'' @ BS @ ''textquotesingle}t Hooft, G.'')) @
          field_line ''journal'' [] @
          field_line ''volume'' [] @
          field_line ''number'' [] @
          field_line ''pages'' [] @
          field_line ''year'' [] @
          field_line ''month'' [] @
          lit (''   abstract = '' @ DQ @ ''{}'' @ DQ @ '',\<newline>'') @
          lit (''   note = {[PubMed:'' @ BS @
               ''href{https://www.ncbi.nlm.nih.gov/pubmed/1}{1}]}\<newline>}\<newline>'')) \<and>
   lit (''{'' @ BS @ ''textquotesingle}t Hooft, G.'') \<noteq> lit (SQ @ ''t Hooft, G.'')"
proof -
  have joined: "join (lit '' and '') (map author_spec (authors apostrophe_author)) =
      0x27 # lit ''t Hooft, G.''"
    by (simp add: apostrophe_author_def new_Reference_def new_Author_def author_spec_def
        lit_def ord_def SQ_def)
  have atext: "authorsText_of apostrophe_author = Inr (lit (SQ @ ''t Hooft, G.''))"
    unfolding authorsText_typed [OF apostrophe_author_typed] joined
    by (simp add: lit_def ord_def SQ_def)
  have plain: "sanitizeBibtexField (lit ''t Hooft, G.'') = lit ''t Hooft, G.''"
    by (rule sanitizeBibtexField_plain) (simp add: lit_def ord_def ascii_keys_def)
  have out: "createBibtexContent apostrophe_author (lit ''1'') =
     Inr (lit ''% 1\<newline>@Article{pmid1,\<newline>'' @
          lit (''   title = '' @ DQ @ ''{}'' @ DQ @ '',\<newline>'') @
          field_line ''author'' (lit (''{'' @ BS @ ''textquotesingle}t Hooft, G.'')) @
          field_line ''journal'' [] @
          field_line ''volume'' [] @
          field_line ''number'' [] @
          field_line ''pages'' [] @
          field_line ''year'' [] @
          field_line ''month'' [] @
          lit (''   abstract = '' @ DQ @ ''{}'' @ DQ @ '',\<newline>'') @
          lit (''   note = {[PubMed:'' @ BS @
               ''href{https://www.ncbi.nlm.nih.gov/pubmed/1}{1}]}\<newline>}\<newline>''))"
    unfolding createBibtexContent_typed [OF apostrophe_author_typed] joined
      sanitizeBibtexField_Cons uni2tex_get_at plain
    by (simp add: apostrophe_author_def new_Reference_def theJournal_of_def
        sanitizeBibtexField_Nil lit_def)
  have differ: "lit (''{'' @ BS @ ''textquotesingle}t Hooft, G.'') \<noteq> lit (SQ @ ''t Hooft, G.'')"
    by (simp add: lit_def ord_def SQ_def)
  from atext out differ show ?thesis by simp
qed

text \<open>
  Claim C8, amended.  For every \<open>Reference\<close> whose fields are strings, the author field
  is present in the output, after the title, and its value is the escaped form (by
  \<open>sanitizeBibtexField\<close>) of the authors joined by \<open> and \<close>, each rendered as
  \<open>lastName + ', ' + initials + '.'\<close>; when the list of authors is empty the value is
  the empty string and the field is still written.
\<close>

theorem author_field_escaped_join:
  assumes "reference_typed r"
  shows "authorsText_of r = Inr (join (lit '' and '') (map author_spec (authors r))) \<and>
         (\<exists>post. createBibtexContent r p =
            Inr (lit ''% '' @ p @ lit ''\<newline>'' @
                 lit ''@Article{pmid'' @ p @ lit '',\<newline>'' @
                 lit (''   title = '' @ DQ @ ''{'') @ sanitizeBibtexField (the (title r)) @
                   lit (''}'' @ DQ @ '',\<newline>'') @
                 field_line ''author''
                   (sanitizeBibtexField (join (lit '' and '') (map author_spec (authors r)))) @
                 post)) \<and>
         (authors r = [] \<longrightarrow>
            (\<exists>post. createBibtexContent r p =
               Inr (lit ''% '' @ p @ lit ''\<newline>'' @
                    lit ''@Article{pmid'' @ p @ lit '',\<newline>'' @
                    lit (''   title = '' @ DQ @ ''{'') @ sanitizeBibtexField (the (title r)) @
                      lit (''}'' @ DQ @ '',\<newline>'') @
                    field_line ''author'' [] @
                    post)))"
proof -
  have field: "\<exists>post. createBibtexContent r p =
            Inr (lit ''% '' @ p @ lit ''\<newline>'' @
                 lit ''@Article{pmid'' @ p @ lit '',\<newline>'' @
                 lit (''   title = '' @ DQ @ ''{'') @ sanitizeBibtexField (the (title r)) @
                   lit (''}'' @ DQ @ '',\<newline>'') @
                 field_line ''author''
                   (sanitizeBibtexField (join (lit '' and '') (map author_spec (authors r)))) @
                 post)"
    unfolding createBibtexContent_typed [OF assms]
    by (rule exI) (simp only: append_assoc sum.inject append_same_eq same_append_eq)
  have empty: "\<exists>post. createBibtexContent r p =
               Inr (lit ''% '' @ p @ lit ''\<newline>'' @
                    lit ''@Article{pmid'' @ p @ lit '',\<newline>'' @
                    lit (''   title = '' @ DQ @ ''{'') @ sanitizeBibtexField (the (title r)) @
                      lit (''}'' @ DQ @ '',\<newline>'') @
                    field_line ''author'' [] @
                    post)"
    if "authors r = []"
    using field that by (simp add: sanitizeBibtexField_Nil)
  from authorsText_typed [OF assms] field empty show ?thesis
    by blast
qed

theorem author_field_escaped_join_witness:
  "reference_typed example_reference \<and>
   authorsText_of example_reference = Inr (lit ''Smith, J.'') \<and>
   (\<exists>post. createBibtexContent example_reference (lit ''31726262'') =
      Inr (lit ''% 31726262\<newline>@Article{pmid31726262,\<newline>'' @
           lit (''   title = '' @ DQ @ ''{A Study}'' @ DQ @ '',\<newline>'') @
           field_line ''author'' (lit ''Smith, J.'') @ post)) \<and>
   reference_typed end_page_only \<and> authors end_page_only = [] \<and>
   (\<exists>post. createBibtexContent end_page_only (lit ''1'') =
      Inr (lit ''% 1\<newline>@Article{pmid1,\<newline>'' @
           lit (''   title = '' @ DQ @ ''{}'' @ DQ @ '',\<newline>'') @
           field_line ''author'' [] @ post))"
proof -
  have joined: "join (lit '' and '') (map author_spec (authors example_reference)) =
      lit ''Smith, J.''"
    by (simp add: example_reference_def new_Reference_def new_Author_def author_spec_def lit_def)
  have plain: "sanitizeBibtexField (lit ''Smith, J.'') = lit ''Smith, J.''"
    "sanitizeBibtexField (lit ''A Study'') = lit ''A Study''"
    by (rule sanitizeBibtexField_plain, simp add: lit_def ord_def ascii_keys_def)+
  have titles: "the (title example_reference) = lit ''A Study''" "the (title end_page_only) = []"
    by (simp_all add: example_reference_def end_page_only_def new_Reference_def)
  have none: "authors end_page_only = []"
    by (simp add: end_page_only_def new_Reference_def)
  from author_field_escaped_join [OF example_reference_typed, of "lit ''31726262''"]
    author_field_escaped_join [OF end_page_only_typed, of "lit ''1''"]
  show ?thesis
    unfolding joined plain titles sanitizeBibtexField_Nil
    using example_reference_typed end_page_only_typed none
    by (simp add: lit_def)
qed

text \<open>
  Claim C9.  When removing \<open>{ } [ ] " ?\<close> from the input and replacing every \<open>/\<close> by a
  space leaves a non-empty text, \<open>sanitizeFileName\<close> returns that text without its last
  character if it ends with a dot, and unchanged otherwise.
\<close>

theorem sanitizeFileName_strips_one_dot:
  assumes "removals_spec text \<noteq> []"
  shows "sanitizeFileName text =
           Inr (if last (removals_spec text) = ord (CHR ''.'')
                then butlast (removals_spec text) else removals_spec text)"
  using assms
  by (simp add: sanitizeFileName_def translate_removals getitem_last slice_until_butlast bindE_def)

theorem sanitizeFileName_strips_one_dot_witness:
  "removals_spec (lit ''Effects of A/B on C.'') \<noteq> [] \<and>
   sanitizeFileName (lit ''Effects of A/B on C.'') = Inr (lit ''Effects of A B on C'')"
proof -
  have removed: "removals_spec (lit ''Effects of A/B on C.'') = lit ''Effects of A B on C.''"
    by (simp add: removals_spec_def lit_def ord_def)
  have nonempty: "removals_spec (lit ''Effects of A/B on C.'') \<noteq> []"
    unfolding removed by (simp add: lit_def)
  from sanitizeFileName_strips_one_dot [OF nonempty] nonempty show ?thesis
    unfolding removed by (simp add: lit_def ord_def)
qed

text \<open>
  Claim C10.  For every \<open>Reference\<close> whose fields are strings, the output is the text
  below: \<open>sanitizeBibtexField\<close> is applied to the title, author, journal, copyright and
  abstract values and to nothing else; the volume, number, pages, year, month and issn
  values are written as they are.
\<close>

theorem escaping_only_on_text_fields:
  assumes "reference_typed r"
  shows "createBibtexContent r p =
    Inr (lit ''% '' @ p @ lit ''\<newline>'' @
         lit ''@Article{pmid'' @ p @ lit '',\<newline>'' @
         lit (''   title = '' @ DQ @ ''{'') @ sanitizeBibtexField (the (title r)) @
           lit (''}'' @ DQ @ '',\<newline>'') @
         field_line ''author''
           (sanitizeBibtexField (join (lit '' and '') (map author_spec (authors r)))) @
         field_line ''journal'' (sanitizeBibtexField (the (theJournal_of r))) @
         field_line ''volume'' (the (volume r)) @
         field_line ''number'' (the (issue r)) @
         field_line ''pages''
           (if endPage r \<noteq> Some []
            then the (startPage r) @ lit ''--'' @ the (endPage r)
            else the (startPage r)) @
         field_line ''year'' (the (pbyear r)) @
         field_line ''month'' (the (pbmonth r)) @
         (if issn r \<noteq> Some [] then field_line ''issn'' (the (issn r)) else []) @
         (if copyright r \<noteq> Some []
          then field_line ''copyright'' (sanitizeBibtexField (the (copyright r))) else []) @
         lit (''   abstract = '' @ DQ @ ''{'') @ sanitizeBibtexField (the (abstract r)) @
           lit (''}'' @ DQ @ '',\<newline>'') @
         lit ''   note = {'' @
           (if doi r \<noteq> Some []
            then lit (''[DOI:'' @ BS @ ''href{https://dx.doi.org/'') @ the (doi r) @ lit ''}{'' @
                 the (doi r) @ lit ''}] [''
            else lit ''['') @
           lit (''PubMed:'' @ BS @ ''href{https://www.ncbi.nlm.nih.gov/pubmed/'') @
           p @ lit ''}{'' @ p @ lit ''}'' @ lit '']'' @
         lit ''}'' @
         lit ''\<newline>}\<newline>'')"
  using assms by (rule createBibtexContent_typed)

theorem escaping_only_on_text_fields_witness:
  "reference_typed example_reference \<and>
   createBibtexContent example_reference (lit ''31726262'') =
    Inr (lit ''% 31726262\<newline>@Article{pmid31726262,\<newline>'' @
         lit (''   title = '' @ DQ @ ''{A Study}'' @ DQ @ '',\<newline>'') @
         lit (''   author = '' @ DQ @ ''Smith, J.'' @ DQ @ '',\<newline>'') @
         lit (''   journal = '' @ DQ @ ''Nature'' @ DQ @ '',\<newline>'') @
         lit (''   volume = '' @ DQ @ DQ @ '',\<newline>'') @
         lit (''   number = '' @ DQ @ DQ @ '',\<newline>'') @
         lit (''   pages = '' @ DQ @ ''100--110'' @ DQ @ '',\<newline>'') @
         lit (''   year = '' @ DQ @ ''2019'' @ DQ @ '',\<newline>'') @
         lit (''   month = '' @ DQ @ DQ @ '',\<newline>'') @
         lit (''   abstract = '' @ DQ @ ''{}'' @ DQ @ '',\<newline>'') @
         lit (''   note = {[PubMed:'' @ BS @
              ''href{https://www.ncbi.nlm.nih.gov/pubmed/31726262}{31726262}]}\<newline>}\<newline>''))"
proof -
  have joined: "join (lit '' and '') (map author_spec (authors example_reference)) =
      lit ''Smith, J.''"
    by (simp add: example_reference_def new_Reference_def new_Author_def author_spec_def lit_def)
  have fields: "the (title example_reference) = lit ''A Study''"
    "the (theJournal_of example_reference) = lit ''Nature''"
    "the (abstract example_reference) = []"
    by (simp_all add: example_reference_def new_Reference_def theJournal_of_def)
  have plain: "sanitizeBibtexField (lit ''Smith, J.'') = lit ''Smith, J.''"
    "sanitizeBibtexField (lit ''A Study'') = lit ''A Study''"
    "sanitizeBibtexField (lit ''Nature'') = lit ''Nature''"
    by (rule sanitizeBibtexField_plain, simp add: lit_def ord_def ascii_keys_def)+
  from escaping_only_on_text_fields [OF example_reference_typed, of "lit ''31726262''"]
  show ?thesis
    unfolding joined fields plain sanitizeBibtexField_Nil
    using example_reference_typed
    by (simp add: example_reference_def new_Reference_def field_line_def lit_def)
qed

end
